theory Spec2Isabelle
  imports Main
begin

section \<open>Strings, bytes and the platform's base64\<close>

text \<open>
  A \<open>Uint8Array\<close> is a list of bytes, and a byte is a \<^typ>\<open>char\<close>. A JavaScript string is
  modelled by the bytes of its UTF-8 encoding, so \<open>TextEncoder.encode\<close> and
  \<open>TextDecoder.decode\<close> are the identity; header values (\<open>Cookie\<close>, \<open>Origin\<close>,
  \<open>Content-Type\<close>) are byte strings already.
\<close>

type_synonym bytes = string

text \<open>\<open>String.prototype.split\<close> with a one-character separator: never an empty list.\<close>

fun split_on :: "char \<Rightarrow> string \<Rightarrow> string list" where
  "split_on sep [] = [[]]"
| "split_on sep (x # xs) =
     (if x = sep then [] # split_on sep xs
      else (case split_on sep xs of
              [] \<Rightarrow> [[x]]
            | p # ps \<Rightarrow> (x # p) # ps))"

text \<open>\<open>str.replace(/a/g, 'b')\<close> for single characters, and \<open>str.replace(/a/g, '')\<close>.\<close>

definition replace_char :: "char \<Rightarrow> char \<Rightarrow> string \<Rightarrow> string" where
  "replace_char a b s = map (\<lambda>c. if c = a then b else c) s"

definition remove_char :: "char \<Rightarrow> string \<Rightarrow> string" where
  "remove_char a s = filter (\<lambda>c. c \<noteq> a) s"

text \<open>\<open>str.padEnd(n, c)\<close> with a one-character filler.\<close>

definition padEnd :: "string \<Rightarrow> nat \<Rightarrow> char \<Rightarrow> string" where
  "padEnd s n c = s @ replicate (n - length s) c"

text \<open>\<open>haystack.includes(needle)\<close> and \<open>str.startsWith(p)\<close>.\<close>

fun str_includes :: "string \<Rightarrow> string \<Rightarrow> bool" where
  "str_includes [] needle = (needle = [])"
| "str_includes (x # xs) needle =
     (take (length needle) (x # xs) = needle \<or> str_includes xs needle)"

definition startsWith :: "string \<Rightarrow> string \<Rightarrow> bool" where
  "startsWith s p = (take (length p) s = p)"

text \<open>
  \<open>btoa\<close> and \<open>atob\<close> are the platform's: \<open>btoa\<close> is base64 with padding, \<open>atob\<close> is
  the forgiving decoder of the HTML standard (ASCII whitespace is dropped, up to two
  trailing \<open>=\<close> are removed when the length is a multiple of four, a length of one
  modulo four or a character outside the alphabet throws; \<open>None\<close> is the throw).
\<close>

definition b64_alphabet :: string where
  "b64_alphabet = ''ABCDEFGHIJKLMNOPQRSTUVWXYZabcdefghijklmnopqrstuvwxyz0123456789+/''"

definition b64_char :: "nat \<Rightarrow> char" where
  "b64_char n = b64_alphabet ! n"

fun index_of :: "'a \<Rightarrow> 'a list \<Rightarrow> nat option" where
  "index_of c [] = None"
| "index_of c (x # xs) = (if x = c then Some 0 else map_option Suc (index_of c xs))"

definition b64_index :: "char \<Rightarrow> nat option" where
  "b64_index c = index_of c b64_alphabet"

fun btoa :: "bytes \<Rightarrow> string" where
  "btoa [] = []"
| "btoa [a] =
     (let x = of_char a in
      [b64_char (x div 4), b64_char ((x mod 4) * 16), CHR ''='', CHR ''=''])"
| "btoa [a, b] =
     (let x = of_char a; y = of_char b in
      [b64_char (x div 4), b64_char ((x mod 4) * 16 + y div 16),
       b64_char ((y mod 16) * 4), CHR ''=''])"
| "btoa (a # b # c # r) =
     (let x = of_char a; y = of_char b; z = of_char c in
      b64_char (x div 4) # b64_char ((x mod 4) * 16 + y div 16) #
      b64_char ((y mod 16) * 4 + z div 64) # b64_char (z mod 64) # btoa r)"

fun b64_decode_groups :: "nat list \<Rightarrow> bytes" where
  "b64_decode_groups (a # b # c # d # r) =
     char_of (a * 4 + b div 16) # char_of ((b mod 16) * 16 + c div 4) #
     char_of ((c mod 4) * 64 + d) # b64_decode_groups r"
| "b64_decode_groups [a, b, c] =
     [char_of (a * 4 + b div 16), char_of ((b mod 16) * 16 + c div 4)]"
| "b64_decode_groups [a, b] = [char_of (a * 4 + b div 16)]"
| "b64_decode_groups _ = []"

definition ascii_whitespace :: "char \<Rightarrow> bool" where
  "ascii_whitespace c = (c \<in> set [CHR 0x09, CHR 0x0A, CHR 0x0C, CHR 0x0D, CHR '' ''])"

definition strip_padding :: "string \<Rightarrow> string" where
  "strip_padding d =
     (if length d mod 4 = 0 \<and> d \<noteq> [] \<and> last d = CHR ''=''
      then (let d1 = butlast d in
            if d1 \<noteq> [] \<and> last d1 = CHR ''='' then butlast d1 else d1)
      else d)"

definition atob :: "string \<Rightarrow> bytes option" where
  "atob s =
     (let d = strip_padding (filter (\<lambda>c. \<not> ascii_whitespace c) s) in
      if length d mod 4 = 1 then None
      else map_option b64_decode_groups (those (map b64_index d)))"

subsection \<open>jose.ts: base64url\<close>

definition base64UrlDecode :: "string \<Rightarrow> bytes option" where
  "base64UrlDecode str =
     (let base64 = replace_char CHR ''_'' CHR ''/'' (replace_char CHR ''-'' CHR ''+'' str);
          padded = padEnd base64 (length base64 + ((4 - length base64 mod 4) mod 4)) CHR ''=''
      in atob padded)"

definition base64UrlEncode :: "bytes \<Rightarrow> string" where
  "base64UrlEncode data =
     remove_char CHR ''=''
       (replace_char CHR ''/'' CHR ''_'' (replace_char CHR ''+'' CHR ''-'' (btoa data)))"

section \<open>types.ts\<close>

text \<open>
  The claims of an assertion come out of \<open>JSON.parse\<close>, so each may be missing
  (\<open>undefined\<close>) whatever the interface declares; the verifier tests them for that.
\<close>

record FlexiJWTPayload =
  fp_iss :: "string option"
  fp_aud :: "string option"
  fp_sub :: "string option"
  fp_email :: "string option"
  fp_exp :: "int option"
  fp_nbf :: "int option"
  fp_iat :: "int option"
  fp_jti :: "string option"

record VibeAccessPayload =
  vp_iss :: string
  vp_aud :: string
  vp_sub :: string
  vp_email :: string
  vp_roles :: string
  vp_exp :: int
  vp_iat :: int

text \<open>\<open>Omit<VibeAccessPayload, 'exp' | 'iat'>\<close>, the argument of the signer.\<close>

record VibeIdentity =
  vi_iss :: string
  vi_aud :: string
  vi_sub :: string
  vi_email :: string
  vi_roles :: string

record UserRow =
  ur_user_id :: string
  ur_email :: string
  ur_status :: string
  ur_roles :: string
  ur_updated_at :: int

record JWK =
  jwk_kty :: string
  jwk_use :: "string option"
  jwk_kid :: "string option"
  jwk_alg :: "string option"
  jwk_n :: string
  jwk_e :: string

record JWKS =
  keys :: "JWK list"

text \<open>The header of a token as the verifiers read it: \<open>{ alg: string; kid?: string }\<close>.\<close>

record JWTHeader =
  hdr_alg :: string
  hdr_kid :: "string option"

record SSOEnv =
  FLEXI_JWKS_URL :: string
  FLEXI_ISS :: string
  FLEXI_AUD :: string
  VIBE_ISS :: string
  VIBE_AUD :: string
  VIBE_ACCESS_SECRET :: string
  VIBE_COOKIE_NAME :: string
  VIBE_COOKIE_DOMAIN :: string
  PROTECTED_PREFIX :: string
  VIBE_ORIGIN :: string
  ALLOW_MIGRATE :: "string option"

section \<open>The platform\<close>

text \<open>
  What the worker calls and does not define: \<open>JSON.parse\<close> of decoded bytes read at each
  of the three types (\<open>None\<close> when it throws), \<open>JSON.stringify\<close> of a session payload,
  Web Crypto (\<open>importKey\<close> may throw; HMAC verification recomputes the tag and compares),
  \<open>String.prototype.toLowerCase\<close> and \<open>decodeURIComponent\<close> (\<open>None\<close> when it throws).
\<close>

record platform =
  parse_header :: "bytes \<Rightarrow> JWTHeader option"
  parse_flexi :: "bytes \<Rightarrow> FlexiJWTPayload option"
  parse_vibe :: "bytes \<Rightarrow> VibeAccessPayload option"
  stringify_vibe :: "VibeAccessPayload \<Rightarrow> bytes"
  rsa_importable :: "JWK \<Rightarrow> bool"
  rsa_verify :: "JWK \<Rightarrow> bytes \<Rightarrow> bytes \<Rightarrow> bool"
  hmac_importable :: "bytes \<Rightarrow> bool"
  hmac_sha256 :: "bytes \<Rightarrow> bytes \<Rightarrow> bytes"
  toLowerCase :: "string \<Rightarrow> string"
  decodeURIComponent :: "string \<Rightarrow> string option"

text \<open>
  What one request finds around it: the clock (\<open>Date.now()\<close>, in milliseconds, read once
  per request), what fetching the key-set endpoint would deliver (\<open>None\<close>: the fetch
  rejects, the status is not ok, or the body is not JSON), and whether a D1 statement
  throws (\<open>Some m\<close>: an \<open>Error\<close> with message \<open>m\<close>).
\<close>

record io =
  now_ms :: int
  jwks_fetch :: "JWKS option"
  insert_fault :: "string option"
  select_fault :: "string option"

section \<open>jose.ts\<close>

text \<open>
  Every \<open>throw\<close> of the verifiers and of the database helpers is a value. The
  constructors follow the messages of the source: \<open>'Invalid JWT format'\<close>,
  \<open>'Unsupported algorithm: ...'\<close>, \<open>'Invalid issuer: ...'\<close>, \<open>'Invalid audience: ...'\<close>,
  \<open>'Token expired'\<close>, \<open>'Token not yet valid'\<close>, \<open>'Missing email claim'\<close>,
  \<open>'Failed to fetch JWKS: ...'\<close> (or the rejected fetch), \<open>'No matching key found in JWKS'\<close>,
  \<open>'Invalid signature'\<close>. \<open>PlatformThrow\<close> is an exception of \<open>atob\<close>, \<open>JSON.parse\<close>
  or \<open>importKey\<close>; \<open>D1Error m\<close> is an \<open>Error\<close> with message \<open>m\<close> thrown by a D1 statement.
\<close>

datatype sso_error =
    InvalidJWTFormat
  | PlatformThrow
  | UnsupportedAlgorithm string
  | InvalidIssuer "string option"
  | InvalidAudience "string option"
  | TokenExpired
  | TokenNotYetValid
  | MissingEmailClaim
  | FetchJWKSFailed
  | NoMatchingKey
  | InvalidSignature
  | D1Error string

text \<open>
  JavaScript truthiness of an optional string. An optional number is truthy when it is
  present and not zero; the verifier writes that test out.
\<close>

definition truthy_str :: "string option \<Rightarrow> bool" where
  "truthy_str v = (case v of None \<Rightarrow> False | Some s \<Rightarrow> s \<noteq> [])"

text \<open>The module variable \<open>jwksCache: { data; expires } | null\<close>.\<close>

record JwksCacheEntry =
  jc_data :: JWKS
  jc_expires :: int

type_synonym jwks_cache = "JwksCacheEntry option"

definition getFlexiJWKS :: "io \<Rightarrow> jwks_cache \<Rightarrow> (sso_error + JWKS) \<times> jwks_cache" where
  "getFlexiJWKS w cache =
     (let now = now_ms w in
      case cache of
        Some c \<Rightarrow>
          if jc_expires c > now then (Inr (jc_data c), cache)
          else (case jwks_fetch w of
                  None \<Rightarrow> (Inl FetchJWKSFailed, cache)
                | Some jwks \<Rightarrow>
                    (Inr jwks, Some \<lparr>jc_data = jwks, jc_expires = now + 10 * 60 * 1000\<rparr>))
      | None \<Rightarrow>
          (case jwks_fetch w of
             None \<Rightarrow> (Inl FetchJWKSFailed, cache)
           | Some jwks \<Rightarrow>
               (Inr jwks, Some \<lparr>jc_data = jwks, jc_expires = now + 10 * 60 * 1000\<rparr>)))"

text \<open>
  The key the verifier takes (jose.ts, lines 137 to 139):
  \<open>header.kid ? jwks.keys.find((k) => k.kid === header.kid) : jwks.keys[0]\<close>.
\<close>

definition selectKey :: "JWTHeader \<Rightarrow> JWKS \<Rightarrow> JWK option" where
  "selectKey header jwks =
     (if truthy_str (hdr_kid header)
      then find (\<lambda>k. jwk_kid k = hdr_kid header) (keys jwks)
      else (case keys jwks of [] \<Rightarrow> None | k # _ \<Rightarrow> Some k))"

text \<open>
  \<open>verifyFlexiJWT_RS256\<close> is written in two pieces and a body, along the comments of the
  source. \<open>validateClaims\<close> is the block \<open>// Verify claims\<close> (lines 112 to 133): the
  error of the first check that fails, \<open>None\<close> when all pass. \<open>checkSignature\<close> is the rest
  of the function (lines 135 to 161): fetching the key set, choosing the key, importing
  it, decoding the signature and verifying it; it returns the error thrown, if any, and
  the cache as \<open>getFlexiJWKS\<close> left it.
\<close>

definition validateClaims :: "io \<Rightarrow> string \<Rightarrow> string \<Rightarrow> FlexiJWTPayload \<Rightarrow> sso_error option" where
  "validateClaims w expectedIss expectedAud payload =
     (let now = now_ms w div 1000 in
      if fp_iss payload \<noteq> Some expectedIss then Some (InvalidIssuer (fp_iss payload))
      else if fp_aud payload \<noteq> Some expectedAud then Some (InvalidAudience (fp_aud payload))
      else if (case fp_exp payload of None \<Rightarrow> False | Some e \<Rightarrow> e \<noteq> 0 \<and> e < now)
      then Some TokenExpired
      else if (case fp_nbf payload of None \<Rightarrow> False | Some n \<Rightarrow> n \<noteq> 0 \<and> n > now)
      then Some TokenNotYetValid
      else if \<not> truthy_str (fp_email payload) then Some MissingEmailClaim
      else None)"

definition checkSignature ::
  "platform \<Rightarrow> io \<Rightarrow> jwks_cache \<Rightarrow> JWTHeader \<Rightarrow> string \<Rightarrow> string \<Rightarrow> string
     \<Rightarrow> sso_error option \<times> jwks_cache" where
  "checkSignature P w cache header headerB64 payloadB64 signatureB64 =
     (case getFlexiJWKS w cache of
        (Inl e, cache') \<Rightarrow> (Some e, cache')
      | (Inr jwks, cache') \<Rightarrow>
         (case selectKey header jwks of
            None \<Rightarrow> (Some NoMatchingKey, cache')
          | Some jwk \<Rightarrow>
             if \<not> rsa_importable P jwk then (Some PlatformThrow, cache')
             else
              (case base64UrlDecode signatureB64 of
                 None \<Rightarrow> (Some PlatformThrow, cache')
               | Some signatureData \<Rightarrow>
                  if \<not> rsa_verify P jwk signatureData (headerB64 @ ''.'' @ payloadB64)
                  then (Some InvalidSignature, cache')
                  else (None, cache'))))"

definition verifyFlexiJWT_RS256 ::
  "platform \<Rightarrow> io \<Rightarrow> jwks_cache \<Rightarrow> string \<Rightarrow> string \<Rightarrow> string
     \<Rightarrow> (sso_error + FlexiJWTPayload) \<times> jwks_cache" where
  "verifyFlexiJWT_RS256 P w cache token expectedIss expectedAud =
     (case split_on CHR ''.'' token of
        [headerB64, payloadB64, signatureB64] \<Rightarrow>
          (case Option.bind (base64UrlDecode headerB64) (parse_header P) of
             None \<Rightarrow> (Inl PlatformThrow, cache)
           | Some header \<Rightarrow>
               if hdr_alg header \<noteq> ''RS256''
               then (Inl (UnsupportedAlgorithm (hdr_alg header)), cache)
               else
                (case Option.bind (base64UrlDecode payloadB64) (parse_flexi P) of
                   None \<Rightarrow> (Inl PlatformThrow, cache)
                 | Some payload \<Rightarrow>
                    (case validateClaims w expectedIss expectedAud payload of
                       Some e \<Rightarrow> (Inl e, cache)
                     | None \<Rightarrow>
                        (case checkSignature P w cache header
                                headerB64 payloadB64 signatureB64 of
                           (Some e, cache') \<Rightarrow> (Inl e, cache')
                         | (None, cache') \<Rightarrow> (Inr payload, cache')))))
      | _ \<Rightarrow> (Inl InvalidJWTFormat, cache))"

text \<open>\<open>JSON.stringify({ alg: 'HS256', typ: 'JWT' })\<close>.\<close>

definition hs256_header_json :: bytes where
  \<open>hs256_header_json = ''{"alg":"HS256","typ":"JWT"}''\<close>

definition signVibeAccessHS256 ::
  "platform \<Rightarrow> io \<Rightarrow> VibeIdentity \<Rightarrow> string \<Rightarrow> int \<Rightarrow> sso_error + string" where
  "signVibeAccessHS256 P w payload secret ttlSeconds =
     (let now = now_ms w div 1000;
          fullPayload = \<lparr>vp_iss = vi_iss payload, vp_aud = vi_aud payload,
                         vp_sub = vi_sub payload, vp_email = vi_email payload,
                         vp_roles = vi_roles payload,
                         vp_exp = now + ttlSeconds, vp_iat = now\<rparr>;
          headerB64 = base64UrlEncode hs256_header_json;
          payloadB64 = base64UrlEncode (stringify_vibe P fullPayload);
          message = headerB64 @ ''.'' @ payloadB64
      in if \<not> hmac_importable P secret then Inl PlatformThrow
         else Inr (message @ ''.'' @ base64UrlEncode (hmac_sha256 P secret message)))"

definition verifyVibeAccessHS256 ::
  "platform \<Rightarrow> io \<Rightarrow> string \<Rightarrow> string \<Rightarrow> sso_error + VibeAccessPayload" where
  "verifyVibeAccessHS256 P w token secret =
     (case split_on CHR ''.'' token of
        [headerB64, payloadB64, signatureB64] \<Rightarrow>
          (case Option.bind (base64UrlDecode headerB64) (parse_header P) of
             None \<Rightarrow> Inl PlatformThrow
           | Some header \<Rightarrow>
               if hdr_alg header \<noteq> ''HS256''
               then Inl (UnsupportedAlgorithm (hdr_alg header))
               else if \<not> hmac_importable P secret then Inl PlatformThrow
               else
                (case base64UrlDecode signatureB64 of
                   None \<Rightarrow> Inl PlatformThrow
                 | Some signatureData \<Rightarrow>
                    if hmac_sha256 P secret (headerB64 @ ''.'' @ payloadB64) \<noteq> signatureData
                    then Inl InvalidSignature
                    else
                     (case Option.bind (base64UrlDecode payloadB64) (parse_vibe P) of
                        None \<Rightarrow> Inl PlatformThrow
                      | Some payload \<Rightarrow>
                         if vp_exp payload < now_ms w div 1000 then Inl TokenExpired
                         else Inr payload)))
      | _ \<Rightarrow> Inl InvalidJWTFormat)"

section \<open>db.ts\<close>

record SeenRow =
  seen_jti :: string
  seen_at :: int

text \<open>
  The two tables of the schema. \<open>email\<close> and \<open>jti\<close> are primary keys, compared as SQLite
  compares \<open>TEXT\<close>: byte for byte.
\<close>

record D1Database =
  sso_users :: "UserRow list"
  jwt_seen :: "SeenRow list"

definition getUserByEmail :: "io \<Rightarrow> D1Database \<Rightarrow> string \<Rightarrow> sso_error + UserRow option" where
  "getUserByEmail w db email =
     (case select_fault w of
        Some m \<Rightarrow> Inl (D1Error m)
      | None \<Rightarrow> Inr (find (\<lambda>r. ur_email r = email) (sso_users db)))"

text \<open>
  \<open>INSERT INTO jwt_seen (jti, seen_at) VALUES (?, unixepoch()) ON CONFLICT(jti) DO NOTHING\<close>:
  the number of rows changed, and the table after it.
\<close>

definition insert_jwt_seen :: "io \<Rightarrow> D1Database \<Rightarrow> string \<Rightarrow> (string + nat) \<times> D1Database" where
  "insert_jwt_seen w db jti =
     (case insert_fault w of
        Some m \<Rightarrow> (Inl m, db)
      | None \<Rightarrow>
          if jti \<in> set (map seen_jti (jwt_seen db)) then (Inr 0, db)
          else (Inr 1, db\<lparr>jwt_seen := jwt_seen db @
                  [\<lparr>seen_jti = jti, seen_at = now_ms w div 1000\<rparr>]\<rparr>))"

definition markJtiSeen :: "io \<Rightarrow> D1Database \<Rightarrow> string \<Rightarrow> (sso_error + bool) \<times> D1Database" where
  "markJtiSeen w db jti =
     (case insert_jwt_seen w db jti of
        (Inr changes, db') \<Rightarrow> (Inr (changes > 0), db')
      | (Inl m, db') \<Rightarrow>
          if str_includes m ''UNIQUE constraint'' then (Inr False, db')
          else (Inl (D1Error m), db'))"

section \<open>cookies.ts\<close>

datatype SameSite = Strict | Lax | NoneSite

record CookieOptions =
  co_domain :: "string option"
  co_maxAge :: "nat option"
  co_path :: "string option"
  co_httpOnly :: "bool option"
  co_secure :: "bool option"
  co_sameSite :: "SameSite option"

text \<open>A number in a template literal, for the natural numbers \<open>Max-Age\<close> takes.\<close>

fun show_nat :: "nat \<Rightarrow> string" where
  "show_nat n =
     (if n < 10 then [''0123456789'' ! n]
      else show_nat (n div 10) @ [''0123456789'' ! (n mod 10)])"

text \<open>
  \<open>encodeURIComponent\<close> on the UTF-8 bytes of a string: the unreserved characters stay,
  every other byte becomes \<open>%XX\<close>.
\<close>

definition uri_unreserved :: "char \<Rightarrow> bool" where
  "uri_unreserved c =
     (c \<in> set ''ABCDEFGHIJKLMNOPQRSTUVWXYZabcdefghijklmnopqrstuvwxyz0123456789-_.!~*()''
      \<or> c = CHR 0x27)"

definition encodeURIComponent :: "string \<Rightarrow> string" where
  "encodeURIComponent s =
     concat (map (\<lambda>c. if uri_unreserved c then [c]
                       else [CHR ''%'', ''0123456789ABCDEF'' ! (of_char c div 16),
                             ''0123456789ABCDEF'' ! (of_char c mod 16)]) s)"

definition show_SameSite :: "SameSite \<Rightarrow> string" where
  "show_SameSite v = (case v of Strict \<Rightarrow> ''Strict'' | Lax \<Rightarrow> ''Lax'' | NoneSite \<Rightarrow> ''None'')"

type_synonym Headers = "(string \<times> string) list"

definition setCookie :: "Headers \<Rightarrow> string \<Rightarrow> string \<Rightarrow> CookieOptions \<Rightarrow> Headers" where
  "setCookie hs name v options =
     (let path = (case co_path options of None \<Rightarrow> ''/'' | Some p \<Rightarrow> p);
          httpOnly = (case co_httpOnly options of None \<Rightarrow> True | Some b \<Rightarrow> b);
          secure = (case co_secure options of None \<Rightarrow> True | Some b \<Rightarrow> b);
          sameSite = (case co_sameSite options of None \<Rightarrow> Lax | Some x \<Rightarrow> x);
          cookie0 = encodeURIComponent name @ ''='' @ encodeURIComponent v;
          cookie1 = (case co_domain options of
                       None \<Rightarrow> cookie0
                     | Some d \<Rightarrow> if d \<noteq> [] then cookie0 @ ''; Domain='' @ d else cookie0);
          cookie2 = (case co_maxAge options of
                       None \<Rightarrow> cookie1
                     | Some m \<Rightarrow> cookie1 @ ''; Max-Age='' @ show_nat m);
          cookie3 = cookie2 @ ''; Path='' @ path;
          cookie4 = (if httpOnly then cookie3 @ ''; HttpOnly'' else cookie3);
          cookie5 = (if secure then cookie4 @ ''; Secure'' else cookie4);
          cookie6 = cookie5 @ ''; SameSite='' @ show_SameSite sameSite
      in hs @ [(''Set-Cookie'', cookie6)])"

text \<open>
  \<open>String.prototype.trim\<close> on a header value, whose characters are bytes: the white space
  and line terminators of JavaScript below 256.
\<close>

definition js_whitespace :: "char \<Rightarrow> bool" where
  "js_whitespace c = (of_char c \<in> set [9, 10, 11, 12, 13, 32, 160 :: nat])"

definition trim :: "string \<Rightarrow> string" where
  "trim s = rev (dropWhile js_whitespace (rev (dropWhile js_whitespace s)))"

fun join :: "string \<Rightarrow> string list \<Rightarrow> string" where
  "join sep [] = []"
| "join sep [x] = x"
| "join sep (x # y # ys) = x @ sep @ join sep (y # ys)"

text \<open>One turn of the loop of \<open>parseCookies\<close>; a pair that does not decode is skipped.\<close>

definition parse_pair :: "platform \<Rightarrow> (string \<rightharpoonup> string) \<Rightarrow> string \<Rightarrow> (string \<rightharpoonup> string)" where
  "parse_pair P cookies pair =
     (case split_on CHR ''='' pair of
        [] \<Rightarrow> cookies
      | name # valueParts \<Rightarrow>
          if name \<noteq> [] \<and> length valueParts > 0
          then (case decodeURIComponent P (trim name) of
                  None \<Rightarrow> cookies
                | Some k \<Rightarrow>
                   (case decodeURIComponent P (trim (join ''='' valueParts)) of
                      None \<Rightarrow> cookies
                    | Some v \<Rightarrow> cookies(k \<mapsto> v)))
          else cookies)"

definition parseCookies :: "platform \<Rightarrow> string option \<Rightarrow> (string \<rightharpoonup> string)" where
  "parseCookies P cookieHeader =
     (case cookieHeader of
        None \<Rightarrow> Map.empty
      | Some h \<Rightarrow>
          if h = [] then Map.empty
          else foldl (parse_pair P) Map.empty (map trim (split_on CHR '';'' h)))"

definition clearCookie :: "Headers \<Rightarrow> string \<Rightarrow> string option \<Rightarrow> string option \<Rightarrow> Headers" where
  "clearCookie hs name domain path =
     setCookie hs name []
       \<lparr>co_domain = domain, co_maxAge = Some 0, co_path = path, co_httpOnly = Some True,
        co_secure = Some True, co_sameSite = Some Lax\<rparr>"

section \<open>The worker\<close>

definition ALLOWED_ORIGINS :: "string list" where
  "ALLOWED_ORIGINS =
     [''https://flexifunnels.com'', ''https://www.flexifunnels.com'',
      ''https://dev-app.flexifunnels.com'', ''https://app.flexifunnels.com'',
      ''http://flexifunnels.local.com'']"

text \<open>
  The \<open>message\<close> of an error body is a literal of the source or the \<open>message\<close> of the
  error that was caught.
\<close>

datatype msg = Literal string | MessageOf sso_error

datatype resp_body =
    NoBody
  | ErrorBody (eb_error: string) (eb_code: string) (eb_message: "msg option")
  | MeBody string string string
  | LogoutBody
  | HealthBody
  | MigrateBody
  | TextBody string

record Response =
  rs_status :: nat
  rs_headers :: Headers
  rs_body :: resp_body

text \<open>
  A request: the method, \<open>new URL(request.url)\<close> as path and query, the headers under the
  names the source asks for, what \<open>request.json()\<close> gives, and the raw body. The parsed
  body is read at the type the handler declares for it, \<open>{ jwt?: string; email?: string }\<close>:
  \<open>request.json()\<close> throws, or gives an object whose \<open>jwt\<close> and \<open>email\<close> are strings or
  missing.
\<close>

datatype json_body = InvalidJson | Body (body_jwt: "string option") (body_email: "string option")

record Request =
  rq_method :: string
  rq_pathname :: string
  rq_search :: string
  rq_headers :: Headers
  rq_json :: json_body
  rq_body :: string

definition headers_get :: "Headers \<Rightarrow> string \<Rightarrow> string option" where
  "headers_get hs name = map_of hs name"

definition headers_set :: "Headers \<Rightarrow> string \<Rightarrow> string \<Rightarrow> Headers" where
  "headers_set hs name v = filter (\<lambda>h. fst h \<noteq> name) hs @ [(name, v)]"

text \<open>The durable tables and the module's key-set cache.\<close>

record State =
  st_db :: D1Database
  st_jwksCache :: jwks_cache

text \<open>
  What the upstream origin and the migration batch answer during one request. A handoff
  fetch rejects, answers with a status that is not ok, with a body that \<open>json()\<close> or the
  reading of it throws on, or with \<open>{ success, data?: { accessToken } }\<close>; a proxied fetch
  rejects (\<open>None\<close>) or answers.
\<close>

datatype handoff_result =
    HandoffThrows
  | HandoffNotOk
  | HandoffBadJson
  | HandoffJson bool "string option"

record upstream =
  handoff_fetch :: handoff_result
  proxy_fetch :: "Response option"
  batch_fault :: "string option"
  url_to_string :: "string \<Rightarrow> (string \<times> string) list \<Rightarrow> string"

datatype upstream_call =
    HandoffCall string Headers
  | ProxyCall string string Headers string

definition cors_headers :: "string option \<Rightarrow> Headers" where
  "cors_headers origin =
     (case origin of
        None \<Rightarrow> []
      | Some orig \<Rightarrow>
          if orig \<noteq> [] \<and> orig \<in> set ALLOWED_ORIGINS
          then [(''Access-Control-Allow-Origin'', orig),
                (''Access-Control-Allow-Credentials'', ''true'')]
          else [])"

definition errorResponse ::
  "string \<Rightarrow> string \<Rightarrow> nat \<Rightarrow> msg option \<Rightarrow> string option \<Rightarrow> Response" where
  "errorResponse code error status message origin =
     \<lparr>rs_status = status,
      rs_headers = (''Content-Type'', ''application/json'') # cors_headers origin,
      rs_body = ErrorBody error code message\<rparr>"

definition handleCORS :: "Request \<Rightarrow> Response option" where
  "handleCORS request =
     (case headers_get (rq_headers request) ''Origin'' of
        None \<Rightarrow> None
      | Some origin \<Rightarrow>
          if origin = [] then None
          else if origin \<notin> set ALLOWED_ORIGINS
          then Some (errorResponse ''FORBIDDEN'' ''Invalid origin'' 403 None None)
          else if rq_method request = ''OPTIONS''
          then Some \<lparr>rs_status = 204,
                     rs_headers =
                       [(''Access-Control-Allow-Origin'', origin),
                        (''Access-Control-Allow-Methods'', ''POST, GET, OPTIONS''),
                        (''Access-Control-Allow-Headers'',
                           ''Content-Type, X-Requested-With, Authorization''),
                        (''Access-Control-Allow-Credentials'', ''true''),
                        (''Access-Control-Max-Age'', ''86400'')],
                     rs_body = NoBody\<rparr>
          else None)"

text \<open>
  \<open>handleVibeAccess\<close>, lines 168 to 223: the user lookup, the session token and the
  cookie, once the replay guard has let the request through.
\<close>

definition issueSession ::
  "platform \<Rightarrow> SSOEnv \<Rightarrow> io \<Rightarrow> string option \<Rightarrow> string \<Rightarrow> State \<Rightarrow> Response \<times> State" where
  "issueSession P env w origin email st =
     (case getUserByEmail w (st_db st) email of
        Inl e \<Rightarrow>
          (errorResponse ''INTERNAL_ERROR'' ''Internal server error'' 500
             (Some (MessageOf e)) origin, st)
      | Inr None \<Rightarrow>
          (errorResponse ''USER_NOT_ALLOWED'' ''User not allowed'' 403
             (Some (Literal ''User not found in allowed users list'')) origin, st)
      | Inr (Some user) \<Rightarrow>
          if ur_status user = ''suspended''
          then (errorResponse ''USER_SUSPENDED'' ''User suspended'' 403
                  (Some (Literal ''User account is suspended'')) origin, st)
          else
           (case signVibeAccessHS256 P w
                   \<lparr>vi_iss = VIBE_ISS env, vi_aud = VIBE_AUD env, vi_sub = ur_user_id user,
                    vi_email = ur_email user, vi_roles = ur_roles user\<rparr>
                   (VIBE_ACCESS_SECRET env) 600 of
              Inl e \<Rightarrow>
                (errorResponse ''INTERNAL_ERROR'' ''Internal server error'' 500
                   (Some (MessageOf e)) origin, st)
            | Inr vibeToken \<Rightarrow>
                (\<lparr>rs_status = 204,
                  rs_headers =
                    setCookie (cors_headers origin) (VIBE_COOKIE_NAME env) vibeToken
                      \<lparr>co_domain = Some (VIBE_COOKIE_DOMAIN env), co_maxAge = Some 600,
                       co_path = Some ''/'', co_httpOnly = Some True, co_secure = Some True,
                       co_sameSite = Some NoneSite\<rparr>,
                  rs_body = NoBody\<rparr>, st)))"

text \<open>\<open>request.headers.get('Origin') || undefined\<close>.\<close>

definition request_origin :: "Request \<Rightarrow> string option" where
  "request_origin request =
     (case headers_get (rq_headers request) ''Origin'' of
        None \<Rightarrow> None
      | Some orig \<Rightarrow> if orig = [] then None else Some orig)"

definition handleVibeAccess ::
  "platform \<Rightarrow> SSOEnv \<Rightarrow> io \<Rightarrow> Request \<Rightarrow> State \<Rightarrow> Response \<times> State" where
  "handleVibeAccess P env w request st =
     (let origin = request_origin request in
      case rq_json request of
        InvalidJson \<Rightarrow>
          (errorResponse ''INVALID_BODY'' ''Invalid JSON body'' 400
             (Some (Literal ''Request body must be valid JSON'')) origin, st)
      | Body bjwt bemail \<Rightarrow>
         (case (bjwt, bemail) of
            (Some jwt, Some email) \<Rightarrow>
              if jwt = [] \<or> email = []
              then (errorResponse ''INVALID_BODY'' ''Missing jwt or email'' 400
                      (Some (Literal ''Both jwt and email fields are required'')) origin, st)
              else
               (case verifyFlexiJWT_RS256 P w (st_jwksCache st) jwt
                       (FLEXI_ISS env) (FLEXI_AUD env) of
                  (Inl e, cache') \<Rightarrow>
                    (errorResponse ''JWT_INVALID'' ''Invalid JWT'' 401
                       (Some (MessageOf e)) origin, st\<lparr>st_jwksCache := cache'\<rparr>)
                | (Inr payload, cache') \<Rightarrow>
                   (let st1 = st\<lparr>st_jwksCache := cache'\<rparr> in
                    case fp_email payload of
                      None \<Rightarrow>
                        (errorResponse ''INTERNAL_ERROR'' ''Internal server error'' 500
                           (Some (MessageOf PlatformThrow)) origin, st1)
                    | Some pemail \<Rightarrow>
                       if toLowerCase P pemail \<noteq> toLowerCase P email
                       then (errorResponse ''EMAIL_MISMATCH'' ''Email mismatch'' 401
                               (Some (Literal ''Email in body does not match JWT email claim''))
                               origin, st1)
                       else if truthy_str (fp_jti payload)
                       then
                        (case fp_jti payload of
                           None \<Rightarrow> issueSession P env w origin email st1
                         | Some jti \<Rightarrow>
                            (case markJtiSeen w (st_db st1) jti of
                               (Inl e, db') \<Rightarrow>
                                 (errorResponse ''INTERNAL_ERROR'' ''Internal server error'' 500
                                    (Some (MessageOf e)) origin, st1\<lparr>st_db := db'\<rparr>)
                             | (Inr isNew, db') \<Rightarrow>
                                 if \<not> isNew
                                 then (errorResponse ''REPLAYED_JTI'' ''JWT replay detected'' 409
                                         (Some (Literal ''This JWT has already been used''))
                                         origin, st1\<lparr>st_db := db'\<rparr>)
                                 else issueSession P env w origin email (st1\<lparr>st_db := db'\<rparr>)))
                       else issueSession P env w origin email st1))
          | _ \<Rightarrow>
              (errorResponse ''INVALID_BODY'' ''Missing jwt or email'' 400
                 (Some (Literal ''Both jwt and email fields are required'')) origin, st)))"

definition handleMe :: "platform \<Rightarrow> SSOEnv \<Rightarrow> io \<Rightarrow> Request \<Rightarrow> Response" where
  "handleMe P env w request =
     (let cookies = parseCookies P (headers_get (rq_headers request) ''Cookie'') in
      case cookies (VIBE_COOKIE_NAME env) of
        None \<Rightarrow>
          errorResponse ''NO_SESSION'' ''No session found'' 401
            (Some (Literal ''Vibe access cookie not found'')) None
      | Some token \<Rightarrow>
          if token = []
          then errorResponse ''NO_SESSION'' ''No session found'' 401
                 (Some (Literal ''Vibe access cookie not found'')) None
          else
           (case verifyVibeAccessHS256 P w token (VIBE_ACCESS_SECRET env) of
              Inl e \<Rightarrow>
                errorResponse ''NO_SESSION'' ''Invalid session'' 401 (Some (MessageOf e)) None
            | Inr payload \<Rightarrow>
                \<lparr>rs_status = 200,
                 rs_headers = [(''Content-Type'', ''application/json'')],
                 rs_body = MeBody (vp_sub payload) (vp_email payload) (vp_roles payload)\<rparr>))"

definition handleLogout :: "SSOEnv \<Rightarrow> Response" where
  "handleLogout env =
     \<lparr>rs_status = 200,
      rs_headers = clearCookie [] (VIBE_COOKIE_NAME env) (Some (VIBE_COOKIE_DOMAIN env))
                     (Some ''/''),
      rs_body = LogoutBody\<rparr>"

definition handleHealth :: Response where
  "handleHealth =
     \<lparr>rs_status = 200, rs_headers = [(''Content-Type'', ''application/json'')],
      rs_body = HealthBody\<rparr>"

text \<open>
  The statements of the migration are \<open>CREATE ... IF NOT EXISTS\<close> on the two tables the
  state always has, so a batch that does not throw leaves the state as it is.
\<close>

definition handleMigrate :: "SSOEnv \<Rightarrow> upstream \<Rightarrow> Response" where
  "handleMigrate env u =
     (if ALLOW_MIGRATE env \<noteq> Some ''true''
      then errorResponse ''FORBIDDEN'' ''Migrations disabled'' 403
             (Some (Literal ''Set ALLOW_MIGRATE=true to enable'')) None
      else (case batch_fault u of
              Some m \<Rightarrow>
                errorResponse ''MIGRATION_FAILED'' ''Migration failed'' 500
                  (Some (MessageOf (D1Error m))) None
            | None \<Rightarrow>
                \<lparr>rs_status = 200, rs_headers = [(''Content-Type'', ''application/json'')],
                 rs_body = MigrateBody\<rparr>))"

text \<open>
  \<open>handleProtected\<close> returns the response and the calls it has made to the upstream
  origin, in order. \<open>VIBE_ORIGIN\<close> is taken to be the base of a well-formed URL, so that
  \<open>new URL\<close> does not throw.
\<close>

definition handleProtected ::
  "platform \<Rightarrow> SSOEnv \<Rightarrow> io \<Rightarrow> upstream \<Rightarrow> Request \<Rightarrow> Response \<times> upstream_call list" where
  "handleProtected P env w u request =
     (let cookies = parseCookies P (headers_get (rq_headers request) ''Cookie'') in
      case cookies (VIBE_COOKIE_NAME env) of
        None \<Rightarrow>
          (errorResponse ''NO_SESSION'' ''Unauthorized'' 401
             (Some (Literal ''No session cookie found'')) None, [])
      | Some token \<Rightarrow>
          if token = []
          then (errorResponse ''NO_SESSION'' ''Unauthorized'' 401
                  (Some (Literal ''No session cookie found'')) None, [])
          else
           (case verifyVibeAccessHS256 P w token (VIBE_ACCESS_SECRET env) of
              Inl e \<Rightarrow>
                (errorResponse ''NO_SESSION'' ''Unauthorized'' 401 (Some (MessageOf e)) None, [])
            | Inr payload \<Rightarrow>
               (let isInitialAppsRequest =
                      (rq_pathname request = PROTECTED_PREFIX env
                       \<or> rq_pathname request = PROTECTED_PREFIX env @ ''/'');
                    identity = [(''X-User-Id'', vp_sub payload),
                                (''X-User-Email'', vp_email payload),
                                (''X-User-Roles'', vp_roles payload)]
                in
                if isInitialAppsRequest \<and> rq_method request = ''GET''
                then
                 (let call = HandoffCall (VIBE_ORIGIN env @ ''/api/auth/sso-handoff'')
                               (identity @ [(''Content-Type'', ''application/json'')])
                  in
                  case handoff_fetch u of
                    HandoffThrows \<Rightarrow>
                      (errorResponse ''NO_SESSION'' ''Unauthorized'' 401
                         (Some (MessageOf PlatformThrow)) None, [call])
                  | HandoffNotOk \<Rightarrow>
                      (errorResponse ''SSO_HANDOFF_FAILED'' ''Authentication handoff failed'' 500
                         (Some (Literal ''Failed to create session in main application''))
                         None, [call])
                  | HandoffBadJson \<Rightarrow>
                      (errorResponse ''NO_SESSION'' ''Unauthorized'' 401
                         (Some (MessageOf PlatformThrow)) None, [call])
                  | HandoffJson success accessToken \<Rightarrow>
                      (case accessToken of
                         None \<Rightarrow>
                           (errorResponse ''SSO_HANDOFF_FAILED'' ''Invalid handoff response'' 500
                              (Some (Literal ''Handoff succeeded but returned invalid data''))
                              None, [call])
                       | Some tok \<Rightarrow>
                           if \<not> success \<or> tok = []
                           then (errorResponse ''SSO_HANDOFF_FAILED''
                                   ''Invalid handoff response'' 500
                                   (Some (Literal ''Handoff succeeded but returned invalid data''))
                                   None, [call])
                           else
                            (\<lparr>rs_status = 302,
                              rs_headers =
                                [(''Location'',
                                  url_to_string u (VIBE_ORIGIN env @ ''/api/auth/sso-complete'')
                                    [(''token'', tok), (''redirect'', rq_pathname request)])],
                              rs_body = NoBody\<rparr>, [call])))
                else
                 (let call = ProxyCall (rq_method request)
                               (VIBE_ORIGIN env @ rq_pathname request @ rq_search request)
                               (headers_set (headers_set (headers_set (rq_headers request)
                                  ''X-User-Id'' (vp_sub payload))
                                  ''X-User-Email'' (vp_email payload))
                                  ''X-User-Roles'' (vp_roles payload))
                               (rq_body request)
                  in
                  case proxy_fetch u of
                    None \<Rightarrow>
                      (errorResponse ''NO_SESSION'' ''Unauthorized'' 401
                         (Some (MessageOf PlatformThrow)) None, [call])
                  | Some r \<Rightarrow> (r, [call])))))"

text \<open>\<open>request.headers.get('Content-Type')?.includes('application/json')\<close>, as a truth value.\<close>

definition declares_json :: "Request \<Rightarrow> bool" where
  "declares_json request =
     (case headers_get (rq_headers request) ''Content-Type'' of
        None \<Rightarrow> False
      | Some contentType \<Rightarrow> str_includes contentType ''application/json'')"

text \<open>The entry point \<open>fetch\<close>.\<close>

definition worker_fetch ::
  "platform \<Rightarrow> SSOEnv \<Rightarrow> io \<Rightarrow> upstream \<Rightarrow> Request \<Rightarrow> State
     \<Rightarrow> Response \<times> State \<times> upstream_call list" where
  "worker_fetch P env w u request st =
     (let path = rq_pathname request;
          corsResponse = (if path \<noteq> ''/migrate'' \<and> path \<noteq> ''/auth/health''
                          then handleCORS request else None)
      in
      case corsResponse of
        Some r \<Rightarrow> (r, st, [])
      | None \<Rightarrow>
          if path = ''/auth/vibe-access'' \<and> rq_method request = ''POST''
          then
           (if \<not> declares_json request
            then (errorResponse ''INVALID_CONTENT_TYPE'' ''Invalid Content-Type'' 400
                    (Some (Literal ''Content-Type must be application/json'')) None, st, [])
            else (case handleVibeAccess P env w request st of (r, st') \<Rightarrow> (r, st', [])))
          else if path = ''/auth/me'' \<and> rq_method request = ''GET''
          then (handleMe P env w request, st, [])
          else if path = ''/auth/logout'' \<and> rq_method request = ''POST''
          then (handleLogout env, st, [])
          else if path = ''/auth/health'' \<and> rq_method request = ''GET''
          then (handleHealth, st, [])
          else if path = ''/migrate'' \<and> rq_method request = ''GET''
          then (handleMigrate env u, st, [])
          else
           (let protectedPrefix =
                  (if PROTECTED_PREFIX env \<noteq> [] then PROTECTED_PREFIX env else ''/app/'')
            in
            if startsWith path protectedPrefix
            then (case handleProtected P env w u request of (r, calls) \<Rightarrow> (r, st, calls))
            else (\<lparr>rs_status = 404, rs_headers = [], rs_body = TextBody ''Not Found''\<rparr>,
                  st, [])))"

section \<open>Definitions for the statements and the proofs\<close>

text \<open>The six-bit groups \<open>btoa\<close> writes, and the alphabet of base64url.\<close>

fun sextets :: "bytes \<Rightarrow> nat list" where
  "sextets [] = []"
| "sextets [a] = (let x = of_char a in [x div 4, (x mod 4) * 16])"
| "sextets [a, b] =
     (let x = of_char a; y = of_char b in
      [x div 4, (x mod 4) * 16 + y div 16, (y mod 16) * 4])"
| "sextets (a # b # c # r) =
     (let x = of_char a; y = of_char b; z = of_char c in
      x div 4 # ((x mod 4) * 16 + y div 16) # ((y mod 16) * 4 + z div 64) # (z mod 64) #
      sextets r)"

definition b64url_char :: "nat \<Rightarrow> char" where
  "b64url_char n = ''ABCDEFGHIJKLMNOPQRSTUVWXYZabcdefghijklmnopqrstuvwxyz0123456789-_'' ! n"

text \<open>What the proofs need of one six-bit value, checked for all sixty-four.\<close>

definition sextet_ok :: "nat \<Rightarrow> bool" where
  "sextet_ok n =
     (b64_index (b64_char n) = Some n
      \<and> (let c = b64_char n;
              c1 = (if c = CHR ''+'' then CHR ''-'' else c);
              c2 = (if c1 = CHR ''/'' then CHR ''_'' else c1)
          in c2 = b64url_char n)
      \<and> (let u = b64url_char n;
              u1 = (if u = CHR ''-'' then CHR ''+'' else u);
              u2 = (if u1 = CHR ''_'' then CHR ''/'' else u1)
          in u2 = b64_char n)
      \<and> b64url_char n \<noteq> CHR ''='' \<and> b64url_char n \<noteq> CHR ''.''
      \<and> b64_char n \<noteq> CHR ''='' \<and> \<not> ascii_whitespace (b64_char n))"

text \<open>A nonce is recorded when the replay table has a row for it.\<close>

definition jti_recorded :: "D1Database \<Rightarrow> string \<Rightarrow> bool" where
  "jti_recorded db j = (j \<in> set (map seen_jti (jwt_seen db)))"

text \<open>Calls of \<open>markJtiSeen\<close> one after the other, and requests served one after the other.\<close>

fun mark_all :: "D1Database \<Rightarrow> (io \<times> string) list \<Rightarrow> D1Database" where
  "mark_all db [] = db"
| "mark_all db ((w, j) # cs) = mark_all (snd (markJtiSeen w db j)) cs"

fun serve :: "platform \<Rightarrow> SSOEnv \<Rightarrow> (io \<times> upstream \<times> Request) list \<Rightarrow> State \<Rightarrow> State" where
  "serve P env [] st = st"
| "serve P env ((w, u, r) # rs) st = serve P env rs (fst (snd (worker_fetch P env w u r st)))"

text \<open>
  The failure codes of the exchange endpoint as the interface table of the specification
  lists them.
\<close>

definition spec_failure_codes :: "(nat \<times> string) set" where
  "spec_failure_codes =
     {(400, ''INVALID_BODY''), (401, ''JWT_INVALID''), (401, ''EMAIL_MISMATCH''),
      (403, ''USER_NOT_ALLOWED''), (403, ''USER_SUSPENDED''), (409, ''REPLAYED_JTI''),
      (500, ''INTERNAL_ERROR'')}"

text \<open>
  The requests the entry point hands to \<open>handleProtected\<close>: past the origin guard, none
  of the five routes, and a path that starts with the protected prefix.
\<close>

definition reaches_protected :: "SSOEnv \<Rightarrow> Request \<Rightarrow> bool" where
  "reaches_protected env r =
     ((rq_pathname r = ''/migrate'' \<or> rq_pathname r = ''/auth/health'' \<or> handleCORS r = None)
      \<and> \<not> (rq_pathname r = ''/auth/vibe-access'' \<and> rq_method r = ''POST'')
      \<and> \<not> (rq_pathname r = ''/auth/me'' \<and> rq_method r = ''GET'')
      \<and> \<not> (rq_pathname r = ''/auth/logout'' \<and> rq_method r = ''POST'')
      \<and> \<not> (rq_pathname r = ''/auth/health'' \<and> rq_method r = ''GET'')
      \<and> \<not> (rq_pathname r = ''/migrate'' \<and> rq_method r = ''GET'')
      \<and> startsWith (rq_pathname r)
            (if PROTECTED_PREFIX env \<noteq> [] then PROTECTED_PREFIX env else ''/app/''))"

text \<open>The errors of the claims validation.\<close>

definition claim_error :: "sso_error \<Rightarrow> bool" where
  "claim_error e =
     (case e of
        InvalidIssuer _ \<Rightarrow> True
      | InvalidAudience _ \<Rightarrow> True
      | TokenExpired \<Rightarrow> True
      | TokenNotYetValid \<Rightarrow> True
      | MissingEmailClaim \<Rightarrow> True
      | _ \<Rightarrow> False)"

text \<open>The state after the same exchange has been served \<open>n\<close> times.\<close>

fun repeat_exchange :: "nat \<Rightarrow> platform \<Rightarrow> SSOEnv \<Rightarrow> io \<Rightarrow> Request \<Rightarrow> State \<Rightarrow> State" where
  "repeat_exchange 0 P env w r st = st"
| "repeat_exchange (Suc n) P env w r st =
     repeat_exchange n P env w r (snd (handleVibeAccess P env w r st))"

text \<open>The status and the code of a response that carries an error body.\<close>

definition failure_of :: "Response \<Rightarrow> (nat \<times> string) option" where
  "failure_of r =
     (case rs_body r of ErrorBody e c m \<Rightarrow> Some (rs_status r, c) | _ \<Rightarrow> None)"

section \<open>A sample deployment, for evaluating the definitions\<close>

definition ascii_lower :: "string \<Rightarrow> string" where
  "ascii_lower s =
     map (\<lambda>c. case index_of c ''ABCDEFGHIJKLMNOPQRSTUVWXYZ'' of
                 None \<Rightarrow> c
               | Some i \<Rightarrow> ''abcdefghijklmnopqrstuvwxyz'' ! i) s"

definition sample_headers :: "(bytes \<times> JWTHeader) list" where
  \<open>sample_headers =
     [(''{"alg":"RS256"}'', \<lparr>hdr_alg = ''RS256'', hdr_kid = None\<rparr>),
      (''{"alg":"RS256","kid":"k2"}'', \<lparr>hdr_alg = ''RS256'', hdr_kid = Some ''k2''\<rparr>),
      (''{"alg":"RS256","kid":"k9"}'', \<lparr>hdr_alg = ''RS256'', hdr_kid = Some ''k9''\<rparr>),
      (''{"alg":"RS256","kid":""}'', \<lparr>hdr_alg = ''RS256'', hdr_kid = Some []\<rparr>),
      (hs256_header_json, \<lparr>hdr_alg = ''HS256'', hdr_kid = None\<rparr>)]\<close>

definition sample_claims :: "string \<Rightarrow> int option \<Rightarrow> string option \<Rightarrow> FlexiJWTPayload" where
  "sample_claims email exp jti =
     \<lparr>fp_iss = Some ''ext'', fp_aud = Some ''handoff'', fp_sub = Some ''u1'',
      fp_email = Some email, fp_exp = exp, fp_nbf = None, fp_iat = None, fp_jti = jti\<rparr>"

definition sample_payloads :: "(bytes \<times> FlexiJWTPayload) list" where
  \<open>sample_payloads =
     [(''{"iss":"ext","aud":"handoff","sub":"u1","email":"a@b.com","exp":2000,"jti":"n1"}'',
       sample_claims ''a@b.com'' (Some 2000) (Some ''n1'')),
      (''{"iss":"ext","aud":"handoff","sub":"u1","email":"A@B.com","exp":2000,"jti":"n1"}'',
       sample_claims ''A@B.com'' (Some 2000) (Some ''n1'')),
      (''{"iss":"ext","aud":"handoff","sub":"u1","email":"a@b.com","exp":0,"jti":"n1"}'',
       sample_claims ''a@b.com'' (Some 0) (Some ''n1'')),
      (''{"iss":"ext","aud":"handoff","sub":"u1","email":"a@b.com","exp":999,"jti":"n1"}'',
       sample_claims ''a@b.com'' (Some 999) (Some ''n1'')),
      (''{"iss":"ext","aud":"handoff","sub":"u1","email":"a@b.com","exp":2000,"jti":""}'',
       sample_claims ''a@b.com'' (Some 2000) (Some [])),
      (''{"iss":"ext","aud":"handoff","sub":"u1","email":"a@b.com","exp":2000}'',
       sample_claims ''a@b.com'' (Some 2000) None)]\<close>

definition sample_session :: VibeAccessPayload where
  "sample_session =
     \<lparr>vp_iss = ''vibe-edge'', vp_aud = ''vibe-app'', vp_sub = ''u1'', vp_email = ''a@b.com'',
      vp_roles = ''viewer'', vp_exp = 1600, vp_iat = 1000\<rparr>"

definition sample_session_json :: bytes where
  \<open>sample_session_json =
     ''{"iss":"vibe-edge","aud":"vibe-app","sub":"u1","email":"a@b.com","roles":"viewer","iat":1000,"exp":1600}''\<close>

definition sample_platform :: platform where
  "sample_platform =
     \<lparr>parse_header = map_of sample_headers,
      parse_flexi = map_of sample_payloads,
      parse_vibe = (\<lambda>b. if b = sample_session_json then Some sample_session else None),
      stringify_vibe = (\<lambda>p. if p = sample_session then sample_session_json else ''{}''),
      rsa_importable = (\<lambda>k. jwk_kty k = ''RSA''),
      rsa_verify = (\<lambda>k s m. s = jwk_n k @ '':'' @ m),
      hmac_importable = (\<lambda>k. k \<noteq> []),
      hmac_sha256 = (\<lambda>k m. k @ '':'' @ m),
      toLowerCase = ascii_lower,
      decodeURIComponent = (\<lambda>s. if CHR ''%'' \<in> set s then None else Some s)\<rparr>"

definition sample_key :: "string \<Rightarrow> string \<Rightarrow> JWK" where
  "sample_key kid n =
     \<lparr>jwk_kty = ''RSA'', jwk_use = None, jwk_kid = Some kid, jwk_alg = None, jwk_n = n,
      jwk_e = ''AQAB''\<rparr>"

definition sample_jwks :: JWKS where
  "sample_jwks = \<lparr>keys = [sample_key ''k1'' ''N1'', sample_key ''k2'' ''N2'']\<rparr>"

text \<open>A token over the given header and payload, signed as the sample platform verifies.\<close>

definition sample_jwt :: "string \<Rightarrow> bytes \<Rightarrow> bytes \<Rightarrow> string" where
  "sample_jwt n headerJson payloadJson =
     (let message = base64UrlEncode headerJson @ ''.'' @ base64UrlEncode payloadJson
      in message @ ''.'' @ base64UrlEncode (n @ '':'' @ message))"

definition sample_io :: io where
  "sample_io =
     \<lparr>now_ms = 1000000, jwks_fetch = Some sample_jwks, insert_fault = None,
      select_fault = None\<rparr>"

definition sample_env :: SSOEnv where
  "sample_env =
     \<lparr>FLEXI_JWKS_URL = ''https://idp.example/jwks.json'', FLEXI_ISS = ''ext'',
      FLEXI_AUD = ''handoff'', VIBE_ISS = ''vibe-edge'', VIBE_AUD = ''vibe-app'',
      VIBE_ACCESS_SECRET = ''s3cret'', VIBE_COOKIE_NAME = ''vibe_access'',
      VIBE_COOKIE_DOMAIN = ''.example.com'', PROTECTED_PREFIX = ''/app/'',
      VIBE_ORIGIN = ''https://app.example.com'', ALLOW_MIGRATE = None\<rparr>"

definition sample_user :: "string \<Rightarrow> string \<Rightarrow> UserRow" where
  "sample_user email status =
     \<lparr>ur_user_id = ''u1'', ur_email = email, ur_status = status, ur_roles = ''viewer'',
      ur_updated_at = 0\<rparr>"

definition sample_state :: "UserRow list \<Rightarrow> string list \<Rightarrow> State" where
  "sample_state users jtis =
     \<lparr>st_db = \<lparr>sso_users = users,
                jwt_seen = map (\<lambda>j. \<lparr>seen_jti = j, seen_at = 0\<rparr>) jtis\<rparr>,
      st_jwksCache = None\<rparr>"

definition sample_post :: "string \<Rightarrow> string \<Rightarrow> Request" where
  "sample_post jwt email =
     \<lparr>rq_method = ''POST'', rq_pathname = ''/auth/vibe-access'', rq_search = [],
      rq_headers = [(''Content-Type'', ''application/json'')],
      rq_json = Body (Some jwt) (Some email), rq_body = []\<rparr>"

definition sample_token_n1 :: string where
  \<open>sample_token_n1 =
     sample_jwt ''N1'' ''{"alg":"RS256"}''
       ''{"iss":"ext","aud":"handoff","sub":"u1","email":"a@b.com","exp":2000,"jti":"n1"}''\<close>

definition sample_token_empty_jti :: string where
  \<open>sample_token_empty_jti =
     sample_jwt ''N1'' ''{"alg":"RS256"}''
       ''{"iss":"ext","aud":"handoff","sub":"u1","email":"a@b.com","exp":2000,"jti":""}''\<close>

definition sample_token_upper :: string where
  \<open>sample_token_upper =
     sample_jwt ''N1'' ''{"alg":"RS256"}''
       ''{"iss":"ext","aud":"handoff","sub":"u1","email":"A@B.com","exp":2000,"jti":"n1"}''\<close>

text \<open>The session token the sample platform signs at second 1000 for the sample user.\<close>

definition sample_session_token :: string where
  "sample_session_token =
     base64UrlEncode hs256_header_json @ ''.'' @ base64UrlEncode sample_session_json @ ''.''
     @ base64UrlEncode (''s3cret:'' @ base64UrlEncode hs256_header_json @ ''.''
                        @ base64UrlEncode sample_session_json)"

definition sample_token_kid :: "string \<Rightarrow> bytes \<Rightarrow> string" where
  \<open>sample_token_kid n headerJson =
     sample_jwt n headerJson
       ''{"iss":"ext","aud":"handoff","sub":"u1","email":"a@b.com","exp":2000,"jti":"n1"}''\<close>

definition sample_token_exp :: "bytes \<Rightarrow> string" where
  "sample_token_exp payloadJson = sample_jwt ''N1'' ''{\"alg\":\"RS256\"}'' payloadJson"

definition sample_upstream :: upstream where
  "sample_upstream =
     \<lparr>handoff_fetch = HandoffJson True (Some ''tok''),
      proxy_fetch = Some \<lparr>rs_status = 200, rs_headers = [], rs_body = TextBody ''ok''\<rparr>,
      batch_fault = None,
      url_to_string = (\<lambda>url params. url @ ''?'' @ concat (map (\<lambda>(k, v). k @ ''='' @ v @ ''&'') params))\<rparr>"

definition sample_get :: "string \<Rightarrow> Headers \<Rightarrow> Request" where
  "sample_get path hs =
     \<lparr>rq_method = ''GET'', rq_pathname = path, rq_search = [], rq_headers = hs,
      rq_json = InvalidJson, rq_body = []\<rparr>"

definition sample_cookie :: string where
  "sample_cookie = ''vibe_access='' @ sample_session_token"

text \<open>The same session payload signed under another secret, and the cookie with it.\<close>

definition sample_forged_token :: string where
  "sample_forged_token =
     base64UrlEncode hs256_header_json @ ''.'' @ base64UrlEncode sample_session_json @ ''.''
     @ base64UrlEncode (''other:'' @ base64UrlEncode hs256_header_json @ ''.''
                        @ base64UrlEncode sample_session_json)"

definition sample_forged_cookie :: string where
  "sample_forged_cookie = ''vibe_access='' @ sample_forged_token"

section \<open>Base64url: decoding inverts encoding\<close>

lemma of_char_lt: "of_char (c::char) < (256::nat)"
  by (metis of_char_mod_256 mod_less_divisor zero_less_numeral)

lemma div_scaled_sum: "b < n \<Longrightarrow> (a * n + b) div n = (a::nat)"
  by simp

lemma mod_scaled_sum: "b < n \<Longrightarrow> (a * n + b) mod n = (b::nat)"
  by simp

lemma byte_div16_less: "y < 256 \<Longrightarrow> y div 16 < (16::nat)"
  by (simp add: div_less_iff_less_mult)

lemma byte_div64_less: "z < 256 \<Longrightarrow> z div 64 < (4::nat)"
  by (simp add: div_less_iff_less_mult)

lemma byte_div4_less: "x < 256 \<Longrightarrow> x div 4 < (64::nat)"
  by (simp add: div_less_iff_less_mult)

lemma sextet_sum_2_4_less: "a < 4 \<Longrightarrow> b < 16 \<Longrightarrow> a * 16 + b < (64::nat)" by linarith
lemma sextet_sum_4_2_less: "a < 16 \<Longrightarrow> b < 4 \<Longrightarrow> a * 4 + b < (64::nat)" by linarith

lemma first_byte_restored: "y < 256 \<Longrightarrow> x div 4 * 4 + (x mod 4 * 16 + y div 16) div 16 = (x::nat)"
  by (simp only: div_scaled_sum[OF byte_div16_less] div_mult_mod_eq)

lemma second_byte_restored: "y < 256 \<Longrightarrow> z < 256 \<Longrightarrow> (x mod 4 * 16 + y div 16) mod 16 * 16 + (y mod 16 * 4 + z div 64) div 4 = (y::nat)"
  by (simp only: mod_scaled_sum[OF byte_div16_less] div_scaled_sum[OF byte_div64_less] div_mult_mod_eq)

lemma third_byte_restored: "z < 256 \<Longrightarrow> (y mod 16 * 4 + z div 64) mod 4 * 64 + z mod 64 = (z::nat)"
  by (simp only: mod_scaled_sum[OF byte_div64_less] div_mult_mod_eq)

lemma second_sextet_less: "y < 256 \<Longrightarrow> x mod 4 * 16 + y div 16 < (64::nat)"
  by (rule sextet_sum_2_4_less[OF _ byte_div16_less]) simp_all
lemma third_sextet_less: "z < 256 \<Longrightarrow> y mod 16 * 4 + z div 64 < (64::nat)"
  by (rule sextet_sum_4_2_less[OF _ byte_div64_less]) simp_all


lemma sextet_ok_all: "list_all sextet_ok [0..<64]"
  by code_simp

lemma sextet_ok: "n < 64 \<Longrightarrow> sextet_ok n"
  using sextet_ok_all by (simp add: list_all_iff)


lemma sextets_lt: "n \<in> set (sextets bs) \<Longrightarrow> n < 64"
proof (induction bs arbitrary: n rule: sextets.induct)
  case 1
  then show ?case by simp
next
  case (2 a)
  then show ?case
    using byte_div4_less[OF of_char_lt[of a]] sextet_sum_2_4_less[of "of_char a mod 4" 0]
    by (auto simp: Let_def)
next
  case (3 a b)
  then show ?case
    using byte_div4_less[OF of_char_lt[of a]] second_sextet_less[OF of_char_lt[of b], of "of_char a"]
      sextet_sum_4_2_less[of "of_char b mod 16" 0]
    by (auto simp: Let_def)
next
  case (4 a b c r)
  then show ?case
    using byte_div4_less[OF of_char_lt[of a]] second_sextet_less[OF of_char_lt[of b], of "of_char a"]
      third_sextet_less[OF of_char_lt[of c], of "of_char b"]
    by (auto simp: Let_def)
qed

lemma decode_sextets: "b64_decode_groups (sextets bs) = bs"
proof (induction bs rule: sextets.induct)
  case 1
  show ?case by simp
next
  case (2 a)
  have "of_char a div 4 * 4 + of_char a mod 4 * 16 div 16 = (of_char a :: nat)"
    using first_byte_restored[of 0 "of_char a"] by simp
  then show ?case by (simp add: Let_def)
next
  case (3 a b)
  have "(of_char a mod 4 * 16 + of_char b div 16) mod 16 * 16 + of_char b mod 16 * 4 div 4
        = (of_char b :: nat)"
    using second_byte_restored[OF of_char_lt[of b], of 0 "of_char a"] by simp
  then show ?case
    by (simp add: Let_def first_byte_restored[OF of_char_lt])
next
  case (4 a b c r)
  have "b64_decode_groups (sextets (a # b # c # r)) =
        char_of (of_char a div 4 * 4 + (of_char a mod 4 * 16 + of_char b div 16) div 16 :: nat) #
        char_of ((of_char a mod 4 * 16 + of_char b div 16) mod 16 * 16
                 + (of_char b mod 16 * 4 + of_char c div 64) div 4 :: nat) #
        char_of ((of_char b mod 16 * 4 + of_char c div 64) mod 4 * 64 + of_char c mod 64 :: nat) #
        b64_decode_groups (sextets r)"
    by (simp only: sextets.simps Let_def b64_decode_groups.simps)
  also have "\<dots> = a # b # c # b64_decode_groups (sextets r)"
    by (simp only: first_byte_restored[OF of_char_lt] second_byte_restored[OF of_char_lt of_char_lt] third_byte_restored[OF of_char_lt]
          char_of_char)
  finally show ?case using 4 by simp
qed

lemma length_sextets: "length (sextets bs) mod 4 \<noteq> 1"
  by (induction bs rule: sextets.induct) (simp_all add: Let_def)

lemma encode_sextets: "base64UrlEncode bs = map b64url_char (sextets bs)"
proof (induction bs rule: sextets.induct)
  case 1
  show ?case by (simp add: base64UrlEncode_def remove_char_def replace_char_def)
next
  case (2 a)
  have "sextet_ok (of_char a div 4)" "sextet_ok (of_char a mod 4 * 16)"
    by (rule sextet_ok, rule sextets_lt[of _ "[a]"], simp add: Let_def)+
  then show ?case
    by (simp add: base64UrlEncode_def remove_char_def replace_char_def Let_def sextet_ok_def)
next
  case (3 a b)
  have "sextet_ok (of_char a div 4)" "sextet_ok (of_char a mod 4 * 16 + of_char b div 16)"
    "sextet_ok (of_char b mod 16 * 4)"
    by (rule sextet_ok, rule sextets_lt[of _ "[a, b]"], simp add: Let_def)+
  then show ?case
    by (simp add: base64UrlEncode_def remove_char_def replace_char_def Let_def sextet_ok_def)
next
  case (4 a b c r)
  have "sextet_ok (of_char a div 4)" "sextet_ok (of_char a mod 4 * 16 + of_char b div 16)"
    "sextet_ok (of_char b mod 16 * 4 + of_char c div 64)" "sextet_ok (of_char c mod 64)"
    by (rule sextet_ok, rule sextets_lt[of _ "[a, b, c]"], simp add: Let_def)+
  with 4 show ?case
    by (simp add: base64UrlEncode_def remove_char_def replace_char_def Let_def sextet_ok_def)
qed


lemma those_index: "\<forall>n \<in> set ss. n < 64 \<Longrightarrow> those (map b64_index (map b64_char ss)) = Some ss"
  by (induction ss) (auto dest!: sextet_ok simp: sextet_ok_def)

lemma url_to_std:
  "\<forall>n \<in> set ss. n < 64 \<Longrightarrow>
   replace_char CHR ''_'' CHR ''/'' (replace_char CHR ''-'' CHR ''+'' (map b64url_char ss))
   = map b64_char ss"
  by (induction ss) (auto dest!: sextet_ok simp: sextet_ok_def replace_char_def Let_def)

lemma std_no_ws:
  "\<forall>n \<in> set ss. n < 64 \<Longrightarrow>
   filter (\<lambda>c. \<not> ascii_whitespace c) (map b64_char ss @ replicate k CHR ''='')
   = map b64_char ss @ replicate k CHR ''=''"
proof -
  assume a: "\<forall>n \<in> set ss. n < 64"
  have "\<not> ascii_whitespace CHR ''=''" by (simp add: ascii_whitespace_def)
  moreover have "\<forall>c \<in> set (map b64_char ss). \<not> ascii_whitespace c"
    using a by (auto dest!: sextet_ok simp: sextet_ok_def)
  ultimately show ?thesis by (auto simp: filter_id_conv)
qed

lemma strip_padding_std:
  assumes "\<forall>n \<in> set ss. n < 64" and "k \<le> 2"
    and "(length ss + k) mod 4 = 0"
  shows "strip_padding (map b64_char ss @ replicate k CHR ''='') = map b64_char ss"
proof -
  have last_ok: "ss \<noteq> [] \<Longrightarrow> last (map b64_char ss) \<noteq> CHR ''=''"
    using assms(1) sextet_ok[of "last ss"] by (simp add: last_map sextet_ok_def)
  consider "k = 0" | "k = 1" | "k = 2" using assms(2) by linarith
  then show ?thesis
  proof cases
    case 1
    then show ?thesis using last_ok by (auto simp: strip_padding_def)
  next
    case 2
    then show ?thesis using last_ok assms(3) by (auto simp: strip_padding_def Let_def)
  next
    case 3
    then have "replicate k CHR ''='' = [CHR ''='', CHR ''='']" by (simp add: numeral_2_eq_2)
    then show ?thesis using last_ok assms(3) 3
      by (auto simp: strip_padding_def Let_def butlast_append)
  qed
qed

lemma pad_amount:
  assumes "n mod 4 \<noteq> (1::nat)"
  shows "(4 - n mod 4) mod 4 \<le> 2 \<and> (n + (4 - n mod 4) mod 4) mod 4 = 0"
proof -
  define r where "r = n mod 4"
  have "r < 4" by (simp add: r_def)
  then have "r = 0 \<or> r = 1 \<or> r = 2 \<or> r = 3" by linarith
  moreover have "(n + (4 - r) mod 4) mod 4 = (r + (4 - r) mod 4) mod 4"
    unfolding r_def by (simp add: mod_add_left_eq)
  ultimately show ?thesis using assms unfolding r_def[symmetric] by auto
qed

lemma decode_std:
  assumes "\<forall>n \<in> set ss. n < 64" and "length ss mod 4 \<noteq> 1"
  shows "base64UrlDecode (map b64url_char ss) = Some (b64_decode_groups ss)"
proof -
  let ?k = "(4 - length ss mod 4) mod 4"
  have k: "?k \<le> 2" "(length ss + ?k) mod 4 = 0"
    using pad_amount[OF assms(2)] by simp_all
  have "base64UrlDecode (map b64url_char ss) = atob (map b64_char ss @ replicate ?k CHR ''='')"
    by (simp add: base64UrlDecode_def Let_def url_to_std[OF assms(1)] padEnd_def)
  also have "\<dots> = Some (b64_decode_groups ss)"
    unfolding atob_def Let_def std_no_ws[OF assms(1)] strip_padding_std[OF assms(1) k]
      those_index[OF assms(1)]
    using assms(2) by simp
  finally show ?thesis .
qed

lemma base64Url_roundtrip: "base64UrlDecode (base64UrlEncode bs) = Some bs"
  using decode_std[of "sextets bs"] sextets_lt length_sextets
  by (simp add: encode_sextets decode_sextets)

lemma base64UrlEncode_no_dot: "CHR ''.'' \<notin> set (base64UrlEncode bs)"
proof
  assume "CHR ''.'' \<in> set (base64UrlEncode bs)"
  then obtain n where n: "n \<in> set (sextets bs)" "b64url_char n = CHR ''.''"
    by (auto simp: encode_sextets)
  then show False using sextet_ok[OF sextets_lt[OF n(1)]] by (simp add: sextet_ok_def)
qed

lemma split_on_no_sep: "sep \<notin> set a \<Longrightarrow> split_on sep a = [a]"
  by (induction a) auto

lemma split_on_append: "sep \<notin> set a \<Longrightarrow> split_on sep (a @ sep # rest) = a # split_on sep rest"
  by (induction a) auto

lemma split_three:
  "CHR ''.'' \<notin> set a \<Longrightarrow> CHR ''.'' \<notin> set b \<Longrightarrow> CHR ''.'' \<notin> set c \<Longrightarrow>
   split_on CHR ''.'' (a @ ''.'' @ b @ ''.'' @ c) = [a, b, c]"
  by (simp add: split_on_append split_on_no_sep)


section \<open>Tokens built by the encoder\<close>

lemma split_token:
  "split_on CHR ''.'' (base64UrlEncode a @ ''.'' @ base64UrlEncode b @ ''.'' @ base64UrlEncode c)
   = [base64UrlEncode a, base64UrlEncode b, base64UrlEncode c]"
  by (rule split_three) (rule base64UrlEncode_no_dot)+

section \<open>The verifier, stage by stage\<close>

lemma verify_three:
  "split_on CHR ''.'' token = [h, pl, s] \<Longrightarrow>
   verifyFlexiJWT_RS256 P w cache token iss aud =
     (case Option.bind (base64UrlDecode h) (parse_header P) of
        None \<Rightarrow> (Inl PlatformThrow, cache)
      | Some header \<Rightarrow>
          if hdr_alg header \<noteq> ''RS256''
          then (Inl (UnsupportedAlgorithm (hdr_alg header)), cache)
          else
           (case Option.bind (base64UrlDecode pl) (parse_flexi P) of
              None \<Rightarrow> (Inl PlatformThrow, cache)
            | Some payload \<Rightarrow>
               (case validateClaims w iss aud payload of
                  Some e \<Rightarrow> (Inl e, cache)
                | None \<Rightarrow>
                   (case checkSignature P w cache header h pl s of
                      (Some e, cache') \<Rightarrow> (Inl e, cache')
                    | (None, cache') \<Rightarrow> (Inr payload, cache')))))"
  unfolding verifyFlexiJWT_RS256_def by simp

lemma verify_not_three:
  "\<not> (\<exists>h pl s. split_on CHR ''.'' token = [h, pl, s]) \<Longrightarrow>
   verifyFlexiJWT_RS256 P w cache token iss aud = (Inl InvalidJWTFormat, cache)"
  by (simp add: verifyFlexiJWT_RS256_def split: list.split)

text \<open>A token that has decoded: three parts, an RS256 header and a payload.\<close>

lemma verify_decoded:
  assumes "split_on CHR ''.'' token = [h, pl, s]"
    and "Option.bind (base64UrlDecode h) (parse_header P) = Some header"
    and "hdr_alg header = ''RS256''"
    and "Option.bind (base64UrlDecode pl) (parse_flexi P) = Some payload"
  shows "verifyFlexiJWT_RS256 P w cache token iss aud =
     (case validateClaims w iss aud payload of
        Some e \<Rightarrow> (Inl e, cache)
      | None \<Rightarrow>
         (case checkSignature P w cache header h pl s of
            (Some e, cache') \<Rightarrow> (Inl e, cache')
          | (None, cache') \<Rightarrow> (Inr payload, cache')))"
  using assms by (simp add: verify_three)

text \<open>What a successful verification has gone through.\<close>

lemma verify_InrD:
  assumes ok: "verifyFlexiJWT_RS256 P w cache token iss aud = (Inr p, c')"
  shows "\<exists>h pl s header.
           split_on CHR ''.'' token = [h, pl, s]
           \<and> Option.bind (base64UrlDecode h) (parse_header P) = Some header
           \<and> hdr_alg header = ''RS256''
           \<and> Option.bind (base64UrlDecode pl) (parse_flexi P) = Some p
           \<and> validateClaims w iss aud p = None
           \<and> checkSignature P w cache header h pl s = (None, c')"
proof -
  have "\<exists>h pl s. split_on CHR ''.'' token = [h, pl, s]"
    using ok verify_not_three[of token P w cache iss aud] by auto
  then obtain h pl s where sp: "split_on CHR ''.'' token = [h, pl, s]" by blast
  note u = verify_three[OF sp, of P w cache iss aud]
  obtain header where hd: "Option.bind (base64UrlDecode h) (parse_header P) = Some header"
    using ok u by (cases "Option.bind (base64UrlDecode h) (parse_header P)") auto
  have alg: "hdr_alg header = ''RS256''"
    using ok u hd by (cases "hdr_alg header = ''RS256''") auto
  obtain p' where pl: "Option.bind (base64UrlDecode pl) (parse_flexi P) = Some p'"
    using ok u hd alg by (cases "Option.bind (base64UrlDecode pl) (parse_flexi P)") auto
  note d = verify_decoded[OF sp hd alg pl, of w cache iss aud]
  have vc: "validateClaims w iss aud p' = None"
    using ok d by (cases "validateClaims w iss aud p'") auto
  obtain r c where cs: "checkSignature P w cache header h pl s = (r, c)"
    by (cases "checkSignature P w cache header h pl s")
  have "r = None \<and> c = c' \<and> p' = p"
    using ok d vc cs by (cases r) auto
  then show ?thesis using sp hd alg pl vc cs by blast
qed

lemma validateClaims_NoneD:
  assumes "validateClaims w iss aud p = None"
  shows "fp_iss p = Some iss \<and> fp_aud p = Some aud
         \<and> (\<forall>e. fp_exp p = Some e \<longrightarrow> e = 0 \<or> now_ms w div 1000 \<le> e)
         \<and> (\<forall>n. fp_nbf p = Some n \<longrightarrow> n = 0 \<or> n \<le> now_ms w div 1000)
         \<and> truthy_str (fp_email p)"
  using assms
  by (auto simp: validateClaims_def Let_def split: if_splits option.splits)

lemma verified_email:
  assumes "verifyFlexiJWT_RS256 P w c jwt iss aud = (Inr p, c')"
  shows "\<exists>pe. fp_email p = Some pe \<and> pe \<noteq> []"
proof -
  from verify_InrD[OF assms] have "validateClaims w iss aud p = None" by blast
  from validateClaims_NoneD[OF this] show ?thesis
    by (auto simp: truthy_str_def split: option.splits)
qed

lemma checkSignature_NoneD:
  assumes "checkSignature P w cache header h pl s = (None, c')"
  shows "\<exists>jwks jwk sg. getFlexiJWKS w cache = (Inr jwks, c') \<and> selectKey header jwks = Some jwk
           \<and> rsa_importable P jwk \<and> base64UrlDecode s = Some sg
           \<and> rsa_verify P jwk sg (h @ ''.'' @ pl)"
proof -
  obtain r c where g: "getFlexiJWKS w cache = (r, c)" by (cases "getFlexiJWKS w cache")
  then obtain jwks where r: "r = Inr jwks" and c: "c = c'"
    using assms by (cases r) (auto simp: checkSignature_def split: option.splits if_splits)
  obtain jwk where k: "selectKey header jwks = Some jwk"
    using assms g r by (cases "selectKey header jwks") (auto simp: checkSignature_def)
  have imp: "rsa_importable P jwk"
    using assms g r k by (cases "rsa_importable P jwk") (auto simp: checkSignature_def)
  obtain sg where sg: "base64UrlDecode s = Some sg"
    using assms g r k imp by (cases "base64UrlDecode s") (auto simp: checkSignature_def)
  have "rsa_verify P jwk sg (h @ ''.'' @ pl)"
    using assms g r k imp sg
    by (cases "rsa_verify P jwk sg (h @ ''.'' @ pl)") (auto simp: checkSignature_def)
  then show ?thesis using g r c k imp sg by blast
qed

section \<open>The replay table\<close>

lemma markJtiSeen_fresh:
  "insert_fault w = None \<Longrightarrow> \<not> jti_recorded db j \<Longrightarrow>
   fst (markJtiSeen w db j) = Inr True \<and> jti_recorded (snd (markJtiSeen w db j)) j"
  by (simp add: markJtiSeen_def insert_jwt_seen_def jti_recorded_def)

lemma markJtiSeen_recorded:
  "jti_recorded db j \<Longrightarrow> fst (markJtiSeen w db j) \<noteq> Inr True \<and> snd (markJtiSeen w db j) = db"
  by (simp add: markJtiSeen_def insert_jwt_seen_def jti_recorded_def split: option.splits)

lemma markJtiSeen_recorded_nofault:
  "insert_fault w = None \<Longrightarrow> jti_recorded db j \<Longrightarrow> markJtiSeen w db j = (Inr False, db)"
  by (simp add: markJtiSeen_def insert_jwt_seen_def jti_recorded_def)

lemma markJtiSeen_nofault_records:
  "insert_fault w = None \<Longrightarrow> jti_recorded (snd (markJtiSeen w db j)) j"
  by (simp add: markJtiSeen_def insert_jwt_seen_def jti_recorded_def)

lemma markJtiSeen_mono:
  "jti_recorded db j \<Longrightarrow> jti_recorded (snd (markJtiSeen w db j')) j"
  by (auto simp add: markJtiSeen_def insert_jwt_seen_def jti_recorded_def split: option.splits)

lemma mark_all_mono: "jti_recorded db j \<Longrightarrow> jti_recorded (mark_all db cs) j"
  by (induction db cs rule: mark_all.induct) (auto simp: markJtiSeen_mono)

section \<open>What the exchange does to the state\<close>

lemma issueSession_state: "snd (issueSession P env w origin email st) = st"
  by (simp add: issueSession_def split: sum.splits option.splits)

lemma handleVibeAccess_db:
  "st_db (snd (handleVibeAccess P env w r st)) = st_db st \<or>
   (\<exists>j'. st_db (snd (handleVibeAccess P env w r st)) = snd (markJtiSeen w (st_db st) j'))"
  apply (simp add: handleVibeAccess_def Let_def
      split: json_body.splits option.splits prod.splits sum.splits)
  apply (intro allI impI conjI)
                      apply (simp_all add: issueSession_state)
   apply (metis snd_conv)+
  done

lemma handleVibeAccess_mono:
  "jti_recorded (st_db st) j \<Longrightarrow> jti_recorded (st_db (snd (handleVibeAccess P env w r st))) j"
  using handleVibeAccess_db[of P env w r st] markJtiSeen_mono by metis

lemma worker_fetch_state:
  "fst (snd (worker_fetch P env w u r st)) = st \<or>
   fst (snd (worker_fetch P env w u r st)) = snd (handleVibeAccess P env w r st)"
  unfolding worker_fetch_def Let_def
  by (cases "handleVibeAccess P env w r st"; cases "handleProtected P env w u r";
      cases "(if rq_pathname r \<noteq> ''/migrate'' \<and> rq_pathname r \<noteq> ''/auth/health''
              then handleCORS r else None)";
      simp only: option.case prod.case fst_conv snd_conv if_distrib[of snd] if_distrib[of fst]
        if_cancel simp_thms split: if_split)

lemma worker_fetch_mono:
  "jti_recorded (st_db st) j \<Longrightarrow> jti_recorded (st_db (fst (snd (worker_fetch P env w u r st)))) j"
  using worker_fetch_state[of P env w u r st] handleVibeAccess_mono[of st j P env w r]
  by auto

lemma serve_mono:
  "jti_recorded (st_db st) j \<Longrightarrow> jti_recorded (st_db (serve P env rs st)) j"
  by (induction P env rs st rule: serve.induct) (auto simp: worker_fetch_mono)

text \<open>The exchange once the assertion has verified and the e-mail addresses agree.\<close>

lemma handleVibeAccess_verified:
  assumes "rq_json r = Body (Some jwt) (Some email)" and "jwt \<noteq> []" and "email \<noteq> []"
    and "verifyFlexiJWT_RS256 P w (st_jwksCache st) jwt (FLEXI_ISS env) (FLEXI_AUD env)
           = (Inr p, c)"
    and "fp_email p = Some pe" and "toLowerCase P pe = toLowerCase P email"
  shows "handleVibeAccess P env w r st =
     (case fp_jti p of
        None \<Rightarrow> issueSession P env w (request_origin r) email (st\<lparr>st_jwksCache := c\<rparr>)
      | Some j \<Rightarrow>
          if j = [] then issueSession P env w (request_origin r) email (st\<lparr>st_jwksCache := c\<rparr>)
          else (case markJtiSeen w (st_db st) j of
                  (Inl e, db') \<Rightarrow>
                    (errorResponse ''INTERNAL_ERROR'' ''Internal server error'' 500
                       (Some (MessageOf e)) (request_origin r),
                     st\<lparr>st_jwksCache := c, st_db := db'\<rparr>)
                | (Inr isNew, db') \<Rightarrow>
                    if isNew
                    then issueSession P env w (request_origin r) email
                           (st\<lparr>st_jwksCache := c, st_db := db'\<rparr>)
                    else (errorResponse ''REPLAYED_JTI'' ''JWT replay detected'' 409
                            (Some (Literal ''This JWT has already been used''))
                            (request_origin r),
                          st\<lparr>st_jwksCache := c, st_db := db'\<rparr>)))"
  using assms
  by (simp add: handleVibeAccess_def Let_def truthy_str_def split: option.splits prod.splits sum.splits)

lemma verified_nonempty:
  assumes "verifyFlexiJWT_RS256 P w c jwt iss aud = (Inr p, c')"
  shows "jwt \<noteq> []"
proof
  assume "jwt = []"
  then have "verifyFlexiJWT_RS256 P w c jwt iss aud = (Inl InvalidJWTFormat, c)"
    by (simp add: verifyFlexiJWT_RS256_def)
  with assms show False by simp
qed

lemma failure_of_errorResponse [simp]:
  "failure_of (errorResponse code error status message origin) = Some (status, code)"
  by (simp add: failure_of_def errorResponse_def)

lemma handleVibeAccess_rejected:
  assumes "rq_json r = Body (Some jwt) (Some email)" and "jwt \<noteq> []" and "email \<noteq> []"
    and "verifyFlexiJWT_RS256 P w (st_jwksCache st) jwt (FLEXI_ISS env) (FLEXI_AUD env)
           = (Inl e, c)"
  shows "handleVibeAccess P env w r st =
           (errorResponse ''JWT_INVALID'' ''Invalid JWT'' 401 (Some (MessageOf e))
              (request_origin r), st\<lparr>st_jwksCache := c\<rparr>)"
  using assms by (simp add: handleVibeAccess_def Let_def)

lemma handleVibeAccess_mismatch:
  assumes "rq_json r = Body (Some jwt) (Some email)" and "jwt \<noteq> []" and "email \<noteq> []"
    and "verifyFlexiJWT_RS256 P w (st_jwksCache st) jwt (FLEXI_ISS env) (FLEXI_AUD env)
           = (Inr p, c)"
    and "fp_email p = Some pe" and "toLowerCase P pe \<noteq> toLowerCase P email"
  shows "handleVibeAccess P env w r st =
           (errorResponse ''EMAIL_MISMATCH'' ''Email mismatch'' 401
              (Some (Literal ''Email in body does not match JWT email claim''))
              (request_origin r), st\<lparr>st_jwksCache := c\<rparr>)"
  using assms by (simp add: handleVibeAccess_def Let_def)

lemma handleVibeAccess_bad_body:
  assumes "rq_json r = InvalidJson \<or>
           (\<exists>b e. rq_json r = Body b e \<and> (\<not> truthy_str b \<or> \<not> truthy_str e))"
  shows "failure_of (fst (handleVibeAccess P env w r st)) = Some (400, ''INVALID_BODY'')
         \<and> snd (handleVibeAccess P env w r st) = st"
  using assms
  by (auto simp: handleVibeAccess_def Let_def truthy_str_def split: option.splits)

lemma db_changed_cases:
  assumes "st_db (snd (handleVibeAccess P env w r st)) \<noteq> st_db st"
  shows "\<exists>jwt email p c pe j.
           rq_json r = Body (Some jwt) (Some email) \<and> jwt \<noteq> [] \<and> email \<noteq> []
           \<and> verifyFlexiJWT_RS256 P w (st_jwksCache st) jwt (FLEXI_ISS env) (FLEXI_AUD env)
                = (Inr p, c)
           \<and> fp_email p = Some pe \<and> toLowerCase P pe = toLowerCase P email
           \<and> fp_jti p = Some j \<and> j \<noteq> []
           \<and> st_db (snd (handleVibeAccess P env w r st)) = snd (markJtiSeen w (st_db st) j)"
proof (cases "rq_json r")
  case InvalidJson
  then show ?thesis using assms handleVibeAccess_bad_body[of r P env w st] by simp
next
  case (Body b e)
  show ?thesis
  proof (cases "truthy_str b \<and> truthy_str e")
    case False
    then show ?thesis using assms Body handleVibeAccess_bad_body[of r P env w st] by auto
  next
    case True
    then obtain jwt email where be: "b = Some jwt" "e = Some email" "jwt \<noteq> []" "email \<noteq> []"
      by (auto simp: truthy_str_def split: option.splits)
    obtain res c where v: "verifyFlexiJWT_RS256 P w (st_jwksCache st) jwt (FLEXI_ISS env)
                             (FLEXI_AUD env) = (res, c)"
      by (cases "verifyFlexiJWT_RS256 P w (st_jwksCache st) jwt (FLEXI_ISS env) (FLEXI_AUD env)")
    show ?thesis
    proof (cases res)
      case (Inl err)
      then show ?thesis
        using assms handleVibeAccess_rejected[of r jwt email P w st env err c] Body be v by simp
    next
      case (Inr p)
      with v have v': "verifyFlexiJWT_RS256 P w (st_jwksCache st) jwt (FLEXI_ISS env)
                             (FLEXI_AUD env) = (Inr p, c)" by simp
      from verified_email[OF v'] obtain pe where pe: "fp_email p = Some pe"
        by blast
      show ?thesis
      proof (cases "toLowerCase P pe = toLowerCase P email")
        case False
        then show ?thesis
          using assms handleVibeAccess_mismatch[of r jwt email P w st env p c pe] Body be v' pe
          by simp
      next
        case True
        have r: "rq_json r = Body (Some jwt) (Some email)" using Body be by simp
        note hv = handleVibeAccess_verified[OF r be(3) be(4) v' pe True]
        show ?thesis
        proof (cases "fp_jti p")
          case None
          then have "snd (handleVibeAccess P env w r st) = st\<lparr>st_jwksCache := c\<rparr>"
            unfolding hv by (simp add: issueSession_state)
          then show ?thesis using assms by simp
        next
          case (Some j)
          show ?thesis
          proof (cases "j = []")
            case True
            then have "snd (handleVibeAccess P env w r st) = st\<lparr>st_jwksCache := c\<rparr>"
              unfolding hv using Some by (simp add: issueSession_state)
            then show ?thesis using assms by simp
          next
            case False
            have "st_db (snd (handleVibeAccess P env w r st)) = snd (markJtiSeen w (st_db st) j)"
              unfolding hv using Some False
              by (simp add: issueSession_state split: prod.splits sum.splits)
            then show ?thesis using r be v' pe True Some False by blast
          qed
        qed
      qed
    qed
  qed
qed

lemma markJtiSeen_changedD:
  assumes "snd (markJtiSeen w db j) \<noteq> db"
  shows "insert_fault w = None \<and> \<not> jti_recorded db j
         \<and> snd (markJtiSeen w db j)
             = db\<lparr>jwt_seen := jwt_seen db @ [\<lparr>seen_jti = j, seen_at = now_ms w div 1000\<rparr>]\<rparr>"
  using assms
  by (auto simp: markJtiSeen_def insert_jwt_seen_def jti_recorded_def
      split: option.splits if_splits)

lemma issueSession_users:
  "sso_users (st_db st1) = sso_users (st_db st2) \<Longrightarrow>
   fst (issueSession P env w origin email st1) = fst (issueSession P env w origin email st2)"
  by (simp add: issueSession_def getUserByEmail_def split: option.splits sum.splits)

lemma issueSession_outcomes:
  "failure_of (fst (issueSession P env w origin email st))
     \<in> {None, Some (500, ''INTERNAL_ERROR''), Some (403, ''USER_NOT_ALLOWED''),
         Some (403, ''USER_SUSPENDED'')}
   \<and> (failure_of (fst (issueSession P env w origin email st)) = None
        \<longrightarrow> rs_status (fst (issueSession P env w origin email st)) = 204)"
  by (simp add: issueSession_def failure_of_def errorResponse_def
      split: sum.splits option.splits)

lemma getFlexiJWKS_again:
  assumes "getFlexiJWKS w cache = (Inr jwks, c)"
  shows "getFlexiJWKS w c = (Inr jwks, c)"
  using assms
  by (auto simp: getFlexiJWKS_def Let_def split: option.splits if_splits)

lemma checkSignature_again:
  assumes "checkSignature P w cache header h pl s = (None, c)"
  shows "checkSignature P w c header h pl s = (None, c)"
proof -
  from checkSignature_NoneD[OF assms] obtain jwks jwk sg where
    f: "getFlexiJWKS w cache = (Inr jwks, c)" "selectKey header jwks = Some jwk"
       "rsa_importable P jwk" "base64UrlDecode s = Some sg"
       "rsa_verify P jwk sg (h @ ''.'' @ pl)"
    by blast
  show ?thesis
    using f(5) by (simp add: checkSignature_def getFlexiJWKS_again[OF f(1)] f(2-4))
qed

lemma verify_again:
  assumes "verifyFlexiJWT_RS256 P w cache jwt iss aud = (Inr p, c)"
  shows "verifyFlexiJWT_RS256 P w c jwt iss aud = (Inr p, c)"
proof -
  from verify_InrD[OF assms] obtain h pl s header where
    f: "split_on CHR ''.'' jwt = [h, pl, s]"
       "Option.bind (base64UrlDecode h) (parse_header P) = Some header"
       "hdr_alg header = ''RS256''"
       "Option.bind (base64UrlDecode pl) (parse_flexi P) = Some p"
       "validateClaims w iss aud p = None"
       "checkSignature P w cache header h pl s = (None, c)"
    by blast
  show ?thesis
    by (simp add: verify_decoded[OF f(1-4)] f(5) checkSignature_again[OF f(6)])
qed

lemma getUserByEmail_found:
  "getUserByEmail w db email = Inr (Some user) \<Longrightarrow> ur_email user = email"
  by (auto simp: getUserByEmail_def find_Some_iff split: option.splits)

lemma claim_error_simps [simp]:
  "claim_error (InvalidIssuer x)" "claim_error (InvalidAudience y)" "claim_error TokenExpired"
  "claim_error TokenNotYetValid" "claim_error MissingEmailClaim"
  "\<not> claim_error InvalidJWTFormat" "\<not> claim_error PlatformThrow"
  "\<not> claim_error (UnsupportedAlgorithm a)" "\<not> claim_error FetchJWKSFailed"
  "\<not> claim_error NoMatchingKey" "\<not> claim_error InvalidSignature"
  "\<not> claim_error (D1Error m)"
  by (simp_all add: claim_error_def)

lemma validateClaims_claim_error:
  "validateClaims w iss aud p = Some e \<Longrightarrow> claim_error e"
  by (auto simp: validateClaims_def Let_def split: if_splits)

lemma getFlexiJWKS_error:
  "getFlexiJWKS w cache = (Inl e, c) \<Longrightarrow> e = FetchJWKSFailed \<and> c = cache"
  by (auto simp: getFlexiJWKS_def Let_def split: option.splits if_splits)

lemma checkSignature_error:
  assumes "checkSignature P w cache header h pl s = (Some e, c)"
  shows "\<not> claim_error e"
proof -
  obtain r c1 where g: "getFlexiJWKS w cache = (r, c1)" by (cases "getFlexiJWKS w cache")
  show ?thesis
  proof (cases r)
    case (Inl x)
    then show ?thesis
      using assms g getFlexiJWKS_error[of w cache x c1]
      by (auto simp: checkSignature_def)
  next
    case (Inr jwks)
    then show ?thesis
      using assms g
      by (auto simp: checkSignature_def split: option.splits if_splits)
  qed
qed

text \<open>A claim error comes from the claims validation, with the cache untouched.\<close>

lemma verify_claim_errorD:
  assumes err: "verifyFlexiJWT_RS256 P w cache token iss aud = (Inl e, c)"
    and kind: "claim_error e"
  shows "\<exists>h pl s header payload.
           split_on CHR ''.'' token = [h, pl, s]
           \<and> Option.bind (base64UrlDecode h) (parse_header P) = Some header
           \<and> hdr_alg header = ''RS256''
           \<and> Option.bind (base64UrlDecode pl) (parse_flexi P) = Some payload
           \<and> validateClaims w iss aud payload = Some e \<and> c = cache"
proof -
  have "\<exists>h pl s. split_on CHR ''.'' token = [h, pl, s]"
  proof (rule ccontr)
    assume "\<not> (\<exists>h pl s. split_on CHR ''.'' token = [h, pl, s])"
    from verify_not_three[OF this, of P w cache iss aud] err have "e = InvalidJWTFormat" by simp
    with kind show False by simp
  qed
  then obtain h pl s where sp: "split_on CHR ''.'' token = [h, pl, s]" by blast
  note u = verify_three[OF sp, of P w cache iss aud]
  obtain header where hd: "Option.bind (base64UrlDecode h) (parse_header P) = Some header"
    using err kind u
    by (cases "Option.bind (base64UrlDecode h) (parse_header P)") auto
  have alg: "hdr_alg header = ''RS256''"
    using err kind u hd by (cases "hdr_alg header = ''RS256''") auto
  obtain payload where pl: "Option.bind (base64UrlDecode pl) (parse_flexi P) = Some payload"
    using err kind u hd alg
    by (cases "Option.bind (base64UrlDecode pl) (parse_flexi P)") auto
  note d = verify_decoded[OF sp hd alg pl, of w cache iss aud]
  have "validateClaims w iss aud payload = Some e \<and> c = cache"
  proof (cases "validateClaims w iss aud payload")
    case None
    obtain r c1 where cs: "checkSignature P w cache header h pl s = (r, c1)"
      by (cases "checkSignature P w cache header h pl s")
    show ?thesis
      using err kind d None cs checkSignature_error[of P w cache header h pl s e c1]
      by (cases r) auto
  next
    case (Some x)
    then show ?thesis using err d by simp
  qed
  then show ?thesis using sp hd alg pl by blast
qed

lemma selectKey_named:
  assumes "hdr_kid header = Some k" and "k \<noteq> []"
  shows "selectKey header jwks = find (\<lambda>j. jwk_kid j = Some k) (keys jwks)"
  using assms by (simp add: selectKey_def truthy_str_def)

lemma selectKey_unnamed:
  assumes "hdr_kid header = None \<or> hdr_kid header = Some []"
  shows "selectKey header jwks = (case keys jwks of [] \<Rightarrow> None | j # _ \<Rightarrow> Some j)"
  using assms by (auto simp: selectKey_def truthy_str_def)

text \<open>An expiry that is not zero and lies in the past is rejected, whatever the signature.\<close>

lemma nonzero_expiry_in_past_rejected:
  assumes parts: "split_on CHR ''.'' token = [h, pl, s]"
    and header: "Option.bind (base64UrlDecode h) (parse_header P) = Some header"
    and payload: "Option.bind (base64UrlDecode pl) (parse_flexi P) = Some p"
    and exp: "fp_exp p = Some e" "e \<noteq> 0" "e < now_ms w div 1000"
  shows "\<exists>err. fst (verifyFlexiJWT_RS256 P w cache token iss aud) = Inl err"
proof (cases "hdr_alg header = ''RS256''")
  case False
  then show ?thesis by (simp add: verify_three[OF parts] header)
next
  case True
  have "validateClaims w iss aud p \<noteq> None"
    using exp by (simp add: validateClaims_def Let_def)
  then show ?thesis
    by (auto simp: verify_decoded[OF parts header True payload])
qed

lemma handleVibeAccess_outcomes:
  "(\<forall>f. failure_of (fst (handleVibeAccess P env w r st)) = Some f \<longrightarrow> f \<in> spec_failure_codes)
   \<and> (failure_of (fst (handleVibeAccess P env w r st)) = None
        \<longrightarrow> rs_status (fst (handleVibeAccess P env w r st)) = 204)"
proof -
  let ?H = "handleVibeAccess P env w r st"
  have goal: "(\<forall>f. failure_of x = Some f \<longrightarrow> f \<in> spec_failure_codes)
              \<and> (failure_of x = None \<longrightarrow> rs_status x = 204)"
    if "failure_of x \<in> Some ` spec_failure_codes \<or> (failure_of x = None \<and> rs_status x = 204)"
    for x
    using that by auto
  have issue: "failure_of (fst (issueSession P env w origin email s)) \<in> Some ` spec_failure_codes
        \<or> (failure_of (fst (issueSession P env w origin email s)) = None
            \<and> rs_status (fst (issueSession P env w origin email s)) = 204)"
    for origin email s
    using issueSession_outcomes[of P env w origin email s]
    by (auto simp: spec_failure_codes_def)
  show ?thesis
  proof (rule goal, cases "rq_json r = InvalidJson
      \<or> (\<exists>b e. rq_json r = Body b e \<and> (\<not> truthy_str b \<or> \<not> truthy_str e))")
    case True
    from handleVibeAccess_bad_body[OF True, of P env w st]
    show "failure_of (fst ?H) \<in> Some ` spec_failure_codes
          \<or> (failure_of (fst ?H) = None \<and> rs_status (fst ?H) = 204)"
      by (simp add: spec_failure_codes_def)
  next
    case False
    then obtain jwt email where
      b: "rq_json r = Body (Some jwt) (Some email)" "jwt \<noteq> []" "email \<noteq> []"
      by (cases "rq_json r") (auto simp: truthy_str_def split: option.splits)
    obtain res c where v: "verifyFlexiJWT_RS256 P w (st_jwksCache st) jwt (FLEXI_ISS env)
                             (FLEXI_AUD env) = (res, c)"
      by (cases "verifyFlexiJWT_RS256 P w (st_jwksCache st) jwt (FLEXI_ISS env) (FLEXI_AUD env)")
    show "failure_of (fst ?H) \<in> Some ` spec_failure_codes
          \<or> (failure_of (fst ?H) = None \<and> rs_status (fst ?H) = 204)"
    proof (cases res)
      case (Inl err)
      then show ?thesis
        using handleVibeAccess_rejected[OF b, of P w st env err c] v
        by (simp add: spec_failure_codes_def)
    next
      case (Inr p)
      with v have v': "verifyFlexiJWT_RS256 P w (st_jwksCache st) jwt (FLEXI_ISS env)
                             (FLEXI_AUD env) = (Inr p, c)" by simp
      from verified_email[OF v'] obtain pe where pe: "fp_email p = Some pe" by blast
      show ?thesis
      proof (cases "toLowerCase P pe = toLowerCase P email")
        case False
        then show ?thesis
          using handleVibeAccess_mismatch[OF b v' pe]
          by (simp add: spec_failure_codes_def)
      next
        case True
        note hv = handleVibeAccess_verified[OF b v' pe True]
        show ?thesis
        proof (cases "fp_jti p")
          case None
          then show ?thesis unfolding hv using issue by simp
        next
          case (Some j)
          obtain m db' where m: "markJtiSeen w (st_db st) j = (m, db')"
            by (cases "markJtiSeen w (st_db st) j")
          show ?thesis
          proof (cases m)
            case (Inl e)
            then show ?thesis unfolding hv using Some m issue
              by (simp add: spec_failure_codes_def)
          next
            case (Inr isNew)
            then show ?thesis unfolding hv using Some m issue
              by (simp add: spec_failure_codes_def)
          qed
        qed
      qed
    qed
  qed
qed

lemma worker_fetch_vibe_access:
  assumes "rq_pathname r = ''/auth/vibe-access''" and "rq_method r = ''POST''"
  shows "worker_fetch P env w u r st =
     (case handleCORS r of
        Some resp \<Rightarrow> (resp, st, [])
      | None \<Rightarrow>
          if \<not> declares_json r
          then (errorResponse ''INVALID_CONTENT_TYPE'' ''Invalid Content-Type'' 400
                  (Some (Literal ''Content-Type must be application/json'')) None, st, [])
          else (fst (handleVibeAccess P env w r st), snd (handleVibeAccess P env w r st), []))"
  unfolding worker_fetch_def Let_def using assms
  by (simp add: case_prod_beta split: option.split)

lemma handleCORS_not_preflight:
  assumes "rq_method r \<noteq> ''OPTIONS''" and "handleCORS r = Some resp"
  shows "resp = errorResponse ''FORBIDDEN'' ''Invalid origin'' 403 None None"
  using assms by (auto simp: handleCORS_def split: option.splits if_splits)

lemma handleCORS_post:
  assumes "rq_method r \<noteq> ''OPTIONS''"
  shows "handleCORS r =
           (case request_origin r of
              None \<Rightarrow> None
            | Some origin \<Rightarrow>
                if origin \<in> set ALLOWED_ORIGINS then None
                else Some (errorResponse ''FORBIDDEN'' ''Invalid origin'' 403 None None))"
  using assms by (simp add: handleCORS_def request_origin_def split: option.split)

lemma worker_fetch_exchange:
  assumes "rq_pathname r = ''/auth/vibe-access''" and "rq_method r = ''POST''"
  shows "worker_fetch P env w u r st =
     (if \<exists>origin. request_origin r = Some origin \<and> origin \<notin> set ALLOWED_ORIGINS
      then (errorResponse ''FORBIDDEN'' ''Invalid origin'' 403 None None, st, [])
      else if \<not> declares_json r
      then (errorResponse ''INVALID_CONTENT_TYPE'' ''Invalid Content-Type'' 400
              (Some (Literal ''Content-Type must be application/json'')) None, st, [])
      else (fst (handleVibeAccess P env w r st), snd (handleVibeAccess P env w r st), []))"
proof -
  have post: "rq_method r \<noteq> ''OPTIONS''" using assms(2) by simp
  show ?thesis
    unfolding worker_fetch_vibe_access[OF assms] handleCORS_post[OF post]
    by (cases "request_origin r") simp_all
qed

lemma worker_fetch_protected:
  assumes "reaches_protected env r"
  shows "worker_fetch P env w u r st
         = (fst (handleProtected P env w u r), st, snd (handleProtected P env w u r))"
proof -
  have cors: "(if rq_pathname r \<noteq> ''/migrate'' \<and> rq_pathname r \<noteq> ''/auth/health''
               then handleCORS r else None) = None"
    using assms by (auto simp: reaches_protected_def)
  have n: "\<not> (rq_pathname r = ''/auth/vibe-access'' \<and> rq_method r = ''POST'')"
    "\<not> (rq_pathname r = ''/auth/me'' \<and> rq_method r = ''GET'')"
    "\<not> (rq_pathname r = ''/auth/logout'' \<and> rq_method r = ''POST'')"
    "\<not> (rq_pathname r = ''/auth/health'' \<and> rq_method r = ''GET'')"
    "\<not> (rq_pathname r = ''/migrate'' \<and> rq_method r = ''GET'')"
    and p: "startsWith (rq_pathname r)
              (if PROTECTED_PREFIX env \<noteq> [] then PROTECTED_PREFIX env else ''/app/'')"
    using assms by (simp_all add: reaches_protected_def)
  show ?thesis
    unfolding worker_fetch_def Let_def cors
    by (simp only: n p if_True if_False option.case case_prod_beta)
qed

lemma handleProtected_no_cookie:
  assumes "parseCookies P (headers_get (rq_headers r) ''Cookie'') (VIBE_COOKIE_NAME env)
             \<in> {None, Some []}"
  shows "handleProtected P env w u r =
           (errorResponse ''NO_SESSION'' ''Unauthorized'' 401
              (Some (Literal ''No session cookie found'')) None, [])"
  using assms unfolding handleProtected_def Let_def by auto

lemma handleProtected_bad_cookie:
  assumes "parseCookies P (headers_get (rq_headers r) ''Cookie'') (VIBE_COOKIE_NAME env)
             = Some token"
    and "token \<noteq> []"
    and "verifyVibeAccessHS256 P w token (VIBE_ACCESS_SECRET env) = Inl e"
  shows "handleProtected P env w u r =
           (errorResponse ''NO_SESSION'' ''Unauthorized'' 401 (Some (MessageOf e)) None, [])"
  using assms unfolding handleProtected_def Let_def by simp

section \<open>The session token and its cookie\<close>

lemma b64url_unreserved_all: "list_all (\<lambda>n. uri_unreserved (b64url_char n)) [0..<64]"
  by code_simp

lemma base64UrlEncode_unreserved: "c \<in> set (base64UrlEncode bs) \<Longrightarrow> uri_unreserved c"
proof -
  assume "c \<in> set (base64UrlEncode bs)"
  then obtain n where n: "n \<in> set (sextets bs)" "c = b64url_char n"
    by (auto simp: encode_sextets)
  from sextets_lt[OF n(1)] b64url_unreserved_all show ?thesis
    by (simp add: list_all_iff n(2))
qed

lemma encodeURIComponent_unreserved:
  "\<forall>c \<in> set s. uri_unreserved c \<Longrightarrow> encodeURIComponent s = s"
  by (induction s) (simp_all add: encodeURIComponent_def)

lemma signVibeAccessHS256_token:
  assumes "signVibeAccessHS256 P w ident secret ttl = Inr token"
    and "full = \<lparr>vp_iss = vi_iss ident, vp_aud = vi_aud ident, vp_sub = vi_sub ident,
                  vp_email = vi_email ident, vp_roles = vi_roles ident,
                  vp_exp = now_ms w div 1000 + ttl, vp_iat = now_ms w div 1000\<rparr>"
  shows "token = base64UrlEncode hs256_header_json @ ''.''
                 @ base64UrlEncode (stringify_vibe P full) @ ''.''
                 @ base64UrlEncode
                     (hmac_sha256 P secret
                        (base64UrlEncode hs256_header_json @ ''.''
                         @ base64UrlEncode (stringify_vibe P full)))"
    and "hmac_importable P secret"
  using assms by (simp_all add: signVibeAccessHS256_def Let_def split: if_splits)

lemma session_token_unreserved:
  assumes "signVibeAccessHS256 P w ident secret ttl = Inr token"
  shows "encodeURIComponent token = token"
proof (rule encodeURIComponent_unreserved, rule ballI)
  fix c assume c: "c \<in> set token"
  have dot: "uri_unreserved CHR ''.''" by (simp add: uri_unreserved_def)
  from c show "uri_unreserved c"
    unfolding signVibeAccessHS256_token(1)[OF assms refl]
    using dot by (auto dest: base64UrlEncode_unreserved)
qed

lemma session_token_verifies:
  assumes sign: "signVibeAccessHS256 P w1 ident secret ttl = Inr token"
    and full: "full = \<lparr>vp_iss = vi_iss ident, vp_aud = vi_aud ident, vp_sub = vi_sub ident,
                        vp_email = vi_email ident, vp_roles = vi_roles ident,
                        vp_exp = now_ms w1 div 1000 + ttl, vp_iat = now_ms w1 div 1000\<rparr>"
    and json: "parse_vibe P (stringify_vibe P full) = Some full"
    and hdr: "parse_header P hs256_header_json = Some h" "hdr_alg h = ''HS256''"
  shows "verifyVibeAccessHS256 P w2 token secret =
           (if now_ms w1 div 1000 + ttl < now_ms w2 div 1000 then Inl TokenExpired
            else Inr full)"
proof -
  note tok = signVibeAccessHS256_token[OF sign full]
  have "verifyVibeAccessHS256 P w2 token secret =
        (if vp_exp full < now_ms w2 div 1000 then Inl TokenExpired else Inr full)"
    unfolding tok(1) verifyVibeAccessHS256_def split_token
    by (simp add: base64Url_roundtrip hdr json tok(2))
  then show ?thesis by (simp add: full)
qed

lemma session_token_payload:
  assumes sign: "signVibeAccessHS256 P w ident secret ttl = Inr token"
    and full: "full = \<lparr>vp_iss = vi_iss ident, vp_aud = vi_aud ident, vp_sub = vi_sub ident,
                        vp_email = vi_email ident, vp_roles = vi_roles ident,
                        vp_exp = now_ms w div 1000 + ttl, vp_iat = now_ms w div 1000\<rparr>"
  shows "\<exists>h p s. split_on CHR ''.'' token = [h, p, s]
                 \<and> base64UrlDecode p = Some (stringify_vibe P full)"
  unfolding signVibeAccessHS256_token(1)[OF sign full] split_token
  by (simp add: base64Url_roundtrip)

lemma setCookie_session:
  "setCookie hs name v
     \<lparr>co_domain = Some d, co_maxAge = Some 600, co_path = Some ''/'',
      co_httpOnly = Some True, co_secure = Some True, co_sameSite = Some NoneSite\<rparr>
   = hs @ [(''Set-Cookie'',
            encodeURIComponent name @ ''='' @ encodeURIComponent v
            @ (if d \<noteq> [] then ''; Domain='' @ d else [])
            @ ''; Max-Age=600; Path=/; HttpOnly; Secure; SameSite=None'')]"
  by (simp add: setCookie_def show_SameSite_def)

lemma verifyVibeAccessHS256_errors:
  assumes "verifyVibeAccessHS256 P w token secret = Inl e"
  shows "e \<in> {InvalidJWTFormat, PlatformThrow, InvalidSignature, TokenExpired}
           \<union> range UnsupportedAlgorithm"
proof (cases "\<exists>h p s. split_on CHR ''.'' token = [h, p, s]")
  case False
  then have "verifyVibeAccessHS256 P w token secret = Inl InvalidJWTFormat"
    unfolding verifyVibeAccessHS256_def
    by (auto split: list.splits)
  with assms show ?thesis by simp
next
  case True
  then obtain h p s where parts: "split_on CHR ''.'' token = [h, p, s]" by blast
  show ?thesis
    using assms unfolding verifyVibeAccessHS256_def parts
    by (auto split: option.splits if_splits)
qed

lemma handleProtected_calls:
  assumes "snd (handleProtected P env w u r) \<noteq> []"
  shows "\<exists>token payload.
           parseCookies P (headers_get (rq_headers r) ''Cookie'') (VIBE_COOKIE_NAME env)
             = Some token
           \<and> token \<noteq> []
           \<and> verifyVibeAccessHS256 P w token (VIBE_ACCESS_SECRET env) = Inr payload"
proof (cases "parseCookies P (headers_get (rq_headers r) ''Cookie'') (VIBE_COOKIE_NAME env)")
  case None
  then show ?thesis using assms by (simp add: handleProtected_def)
next
  case (Some token)
  show ?thesis
  proof (cases "token = []")
    case True
    then show ?thesis using assms Some by (simp add: handleProtected_def)
  next
    case False
    show ?thesis
    proof (cases "verifyVibeAccessHS256 P w token (VIBE_ACCESS_SECRET env)")
      case (Inl e)
      then show ?thesis using assms Some False by (simp add: handleProtected_def)
    next
      case (Inr payload)
      then show ?thesis using Some False by simp
    qed
  qed
qed

text \<open>
  Key selection for a header that has decoded. When the header names a key-id \<open>k\<close> that
  is not the empty string, the key taken from a key set is the first key of the set whose
  \<open>kid\<close> is \<open>k\<close>; when the key set in use has no such key, verification fails and the
  exchange is answered 401 \<open>JWT_INVALID\<close>; and when verification succeeds, the signature
  has been verified under a key whose \<open>kid\<close> is \<open>k\<close>. When the header has no key-id, or
  the empty string as key-id, the key taken is the first key of the set.
\<close>

lemma named_key_is_selected:
  assumes parts: "split_on CHR ''.'' token = [h, pl, s]"
    and header: "Option.bind (base64UrlDecode h) (parse_header P) = Some header"
  shows "(\<forall>k. hdr_kid header = Some k \<and> k \<noteq> [] \<longrightarrow>
            selectKey header jwks = find (\<lambda>j. jwk_kid j = Some k) (keys jwks)
            \<and> (\<forall>c. getFlexiJWKS w (st_jwksCache st) = (Inr jwks, c)
                    \<and> (\<forall>j \<in> set (keys jwks). jwk_kid j \<noteq> Some k)
                  \<longrightarrow> (\<exists>e c'. verifyFlexiJWT_RS256 P w (st_jwksCache st) token
                                 (FLEXI_ISS env) (FLEXI_AUD env) = (Inl e, c'))
                      \<and> (rq_json r = Body (Some token) (Some email) \<and> email \<noteq> []
                           \<longrightarrow> failure_of (fst (handleVibeAccess P env w r st))
                                 = Some (401, ''JWT_INVALID'')))
            \<and> (\<forall>p c. verifyFlexiJWT_RS256 P w (st_jwksCache st) token
                        (FLEXI_ISS env) (FLEXI_AUD env) = (Inr p, c)
                  \<longrightarrow> (\<exists>keyset jwk sg.
                         getFlexiJWKS w (st_jwksCache st) = (Inr keyset, c)
                         \<and> find (\<lambda>j. jwk_kid j = Some k) (keys keyset) = Some jwk
                         \<and> jwk_kid jwk = Some k
                         \<and> base64UrlDecode s = Some sg
                         \<and> rsa_verify P jwk sg (h @ ''.'' @ pl))))
       \<and> (hdr_kid header = None \<or> hdr_kid header = Some [] \<longrightarrow>
            selectKey header jwks = (case keys jwks of [] \<Rightarrow> None | j # _ \<Rightarrow> Some j))"
proof (intro conjI allI impI)
  fix k assume k: "hdr_kid header = Some k \<and> k \<noteq> []"
  then show "selectKey header jwks = find (\<lambda>j. jwk_kid j = Some k) (keys jwks)"
    by (simp add: selectKey_named)
next
  assume "hdr_kid header = None \<or> hdr_kid header = Some []"
  then show "selectKey header jwks = (case keys jwks of [] \<Rightarrow> None | j # _ \<Rightarrow> Some j)"
    by (rule selectKey_unnamed)
next
  fix k c
  assume k: "hdr_kid header = Some k \<and> k \<noteq> []"
    and a: "getFlexiJWKS w (st_jwksCache st) = (Inr jwks, c)
            \<and> (\<forall>j \<in> set (keys jwks). jwk_kid j \<noteq> Some k)"
  have none: "selectKey header jwks = None"
    using k a by (simp add: selectKey_named find_None_iff)
  have cs: "checkSignature P w (st_jwksCache st) header h pl s = (Some NoMatchingKey, c)"
    using a none by (simp add: checkSignature_def)
  let ?v = "verifyFlexiJWT_RS256 P w (st_jwksCache st) token (FLEXI_ISS env) (FLEXI_AUD env)"
  show failed: "\<exists>e c'. ?v = (Inl e, c')"
    using verify_three[OF parts, of P w "st_jwksCache st" "FLEXI_ISS env" "FLEXI_AUD env"]
    by (simp add: header cs split: option.splits)
  assume b: "rq_json r = Body (Some token) (Some email) \<and> email \<noteq> []"
  from failed obtain e c' where e: "?v = (Inl e, c')" by blast
  have "token \<noteq> []" using parts by auto
  from handleVibeAccess_rejected[OF _ this _ e, of r email] b
  show "failure_of (fst (handleVibeAccess P env w r st)) = Some (401, ''JWT_INVALID'')"
    by simp
next
  fix k p c
  assume k: "hdr_kid header = Some k \<and> k \<noteq> []"
    and ok: "verifyFlexiJWT_RS256 P w (st_jwksCache st) token (FLEXI_ISS env) (FLEXI_AUD env)
              = (Inr p, c)"
  from verify_InrD[OF ok] parts header
  have cs: "checkSignature P w (st_jwksCache st) header h pl s = (None, c)"
    by auto
  from checkSignature_NoneD[OF cs] obtain keyset jwk sg where
    f: "getFlexiJWKS w (st_jwksCache st) = (Inr keyset, c)" "selectKey header keyset = Some jwk"
       "base64UrlDecode s = Some sg" "rsa_verify P jwk sg (h @ ''.'' @ pl)"
    by blast
  have sel: "find (\<lambda>j. jwk_kid j = Some k) (keys keyset) = Some jwk"
    using f(2) k by (simp add: selectKey_named)
  then have "jwk_kid jwk = Some k" by (auto simp: find_Some_iff)
  with f sel show "\<exists>keyset jwk sg.
                         getFlexiJWKS w (st_jwksCache st) = (Inr keyset, c)
                         \<and> find (\<lambda>j. jwk_kid j = Some k) (keys keyset) = Some jwk
                         \<and> jwk_kid jwk = Some k
                         \<and> base64UrlDecode s = Some sg
                         \<and> rsa_verify P jwk sg (h @ ''.'' @ pl)"
    by blast
qed

section \<open>The sample deployment\<close>

lemma split_token_cons:
  "split_on CHR ''.'' (base64UrlEncode a @ CHR ''.'' # base64UrlEncode b @ CHR ''.'' # base64UrlEncode c)
   = [base64UrlEncode a, base64UrlEncode b, base64UrlEncode c]"
  using split_token[of a b c] by simp

lemma sample_verify:
  assumes h: "map_of sample_headers hj = Some hdr" "hdr_alg hdr = ''RS256''"
    and p: "map_of sample_payloads pj = Some (sample_claims em ex jt)" "em \<noteq> []"
    and e: "ex = None \<or> ex = Some 0 \<or> (\<exists>t. ex = Some t \<and> 1000 \<le> t)"
    and k: "selectKey hdr sample_jwks = Some k" "jwk_kty k = ''RSA''" "jwk_n k = n"
    and c: "cache = None \<or> cache = Some \<lparr>jc_data = sample_jwks, jc_expires = 1600000\<rparr>"
  shows "verifyFlexiJWT_RS256 sample_platform sample_io cache (sample_jwt n hj pj)
           ''ext'' ''handoff''
         = (Inr (sample_claims em ex jt),
            Some \<lparr>jc_data = sample_jwks, jc_expires = 1600000\<rparr>)"
proof -
  have jwks: "getFlexiJWKS sample_io cache
              = (Inr sample_jwks, Some \<lparr>jc_data = sample_jwks, jc_expires = 1600000\<rparr>)"
    using c by (auto simp: getFlexiJWKS_def sample_io_def)
  have now: "now_ms sample_io div 1000 = 1000" by (simp add: sample_io_def)
  have exp_ok: "\<not> (case ex of None \<Rightarrow> False | Some t \<Rightarrow> t \<noteq> 0 \<and> t < 1000)"
    using e by auto
  show ?thesis
    using exp_ok p(2)
    by (simp add: sample_jwt_def Let_def verifyFlexiJWT_RS256_def validateClaims_def
          checkSignature_def split_token_cons
          base64Url_roundtrip sample_platform_def h p(1) jwks now k
          sample_claims_def truthy_str_def)
qed

lemma sample_header_plain:
  \<open>map_of sample_headers ''{"alg":"RS256"}'' = Some \<lparr>hdr_alg = ''RS256'', hdr_kid = None\<rparr>\<close>
  by (simp add: sample_headers_def)

lemma sample_payload_n1:
  \<open>map_of sample_payloads
     ''{"iss":"ext","aud":"handoff","sub":"u1","email":"a@b.com","exp":2000,"jti":"n1"}''
   = Some (sample_claims ''a@b.com'' (Some 2000) (Some ''n1''))\<close>
  by (simp add: sample_payloads_def)

lemma sample_first_key:
  "selectKey \<lparr>hdr_alg = ''RS256'', hdr_kid = None\<rparr> sample_jwks = Some (sample_key ''k1'' ''N1'')"
  by (simp add: selectKey_def sample_jwks_def truthy_str_def)

lemma sample_verify_n1:
  assumes "cache = None \<or> cache = Some \<lparr>jc_data = sample_jwks, jc_expires = 1600000\<rparr>"
  shows "verifyFlexiJWT_RS256 sample_platform sample_io cache sample_token_n1 ''ext'' ''handoff''
         = (Inr (sample_claims ''a@b.com'' (Some 2000) (Some ''n1'')),
            Some \<lparr>jc_data = sample_jwks, jc_expires = 1600000\<rparr>)"
  unfolding sample_token_n1_def
  by (rule sample_verify[OF sample_header_plain _ sample_payload_n1 _ _ sample_first_key _ _ assms])
     (simp_all add: sample_key_def)

lemma sample_issue_ok:
  assumes "find (\<lambda>r. ur_email r = email) (sso_users (st_db st)) = Some user"
    and "ur_status user \<noteq> ''suspended''"
  shows "rs_status (fst (issueSession sample_platform sample_env sample_io origin email st)) = 204
         \<and> failure_of (fst (issueSession sample_platform sample_env sample_io origin email st))
            = None"
  using assms
  by (simp add: issueSession_def getUserByEmail_def sample_io_def signVibeAccessHS256_def
      Let_def sample_platform_def sample_env_def failure_of_def)

lemma sample_payload_empty_jti:
  \<open>map_of sample_payloads
     ''{"iss":"ext","aud":"handoff","sub":"u1","email":"a@b.com","exp":2000,"jti":""}''
   = Some (sample_claims ''a@b.com'' (Some 2000) (Some []))\<close>
  by (simp add: sample_payloads_def)

lemma sample_verify_empty_jti:
  assumes "cache = None \<or> cache = Some \<lparr>jc_data = sample_jwks, jc_expires = 1600000\<rparr>"
  shows "verifyFlexiJWT_RS256 sample_platform sample_io cache sample_token_empty_jti
           ''ext'' ''handoff''
         = (Inr (sample_claims ''a@b.com'' (Some 2000) (Some [])),
            Some \<lparr>jc_data = sample_jwks, jc_expires = 1600000\<rparr>)"
  unfolding sample_token_empty_jti_def
  by (rule sample_verify[OF sample_header_plain _ sample_payload_empty_jti _ _
            sample_first_key _ _ assms])
     (simp_all add: sample_key_def)

lemma sample_sign:
  "signVibeAccessHS256 sample_platform sample_io
     \<lparr>vi_iss = ''vibe-edge'', vi_aud = ''vibe-app'', vi_sub = ''u1'', vi_email = ''a@b.com'',
      vi_roles = ''viewer''\<rparr> ''s3cret'' 600
   = Inr sample_session_token"
  by (simp add: signVibeAccessHS256_def Let_def sample_platform_def sample_session_def
      sample_io_def sample_session_token_def)

lemma sample_payload_upper:
  \<open>map_of sample_payloads
     ''{"iss":"ext","aud":"handoff","sub":"u1","email":"A@B.com","exp":2000,"jti":"n1"}''
   = Some (sample_claims ''A@B.com'' (Some 2000) (Some ''n1''))\<close>
  by (simp add: sample_payloads_def)

lemma sample_verify_upper:
  assumes "cache = None \<or> cache = Some \<lparr>jc_data = sample_jwks, jc_expires = 1600000\<rparr>"
  shows "verifyFlexiJWT_RS256 sample_platform sample_io cache sample_token_upper
           ''ext'' ''handoff''
         = (Inr (sample_claims ''A@B.com'' (Some 2000) (Some ''n1'')),
            Some \<lparr>jc_data = sample_jwks, jc_expires = 1600000\<rparr>)"
  unfolding sample_token_upper_def
  by (rule sample_verify[OF sample_header_plain _ sample_payload_upper _ _
            sample_first_key _ _ assms])
     (simp_all add: sample_key_def)

lemma sample_decoded:
  assumes "map_of sample_headers hj = Some hdr" and "map_of sample_payloads pj = Some pl"
    and "parse_header P = map_of sample_headers" and "parse_flexi P = map_of sample_payloads"
  shows "split_on CHR ''.'' (sample_jwt n hj pj)
           = [base64UrlEncode hj, base64UrlEncode pj,
              base64UrlEncode (n @ '':'' @ base64UrlEncode hj @ ''.'' @ base64UrlEncode pj)]
         \<and> Option.bind (base64UrlDecode (base64UrlEncode hj)) (parse_header P) = Some hdr
         \<and> Option.bind (base64UrlDecode (base64UrlEncode pj)) (parse_flexi P) = Some pl"
  using assms by (simp add: sample_jwt_def Let_def split_token_cons base64Url_roundtrip)

lemma sample_header_kid_empty:
  \<open>map_of sample_headers ''{"alg":"RS256","kid":""}''
   = Some \<lparr>hdr_alg = ''RS256'', hdr_kid = Some []\<rparr>\<close>
  by (simp add: sample_headers_def)

lemma sample_header_kid_k2:
  \<open>map_of sample_headers ''{"alg":"RS256","kid":"k2"}''
   = Some \<lparr>hdr_alg = ''RS256'', hdr_kid = Some ''k2''\<rparr>\<close>
  by (simp add: sample_headers_def)

lemma sample_header_kid_k9:
  \<open>map_of sample_headers ''{"alg":"RS256","kid":"k9"}''
   = Some \<lparr>hdr_alg = ''RS256'', hdr_kid = Some ''k9''\<rparr>\<close>
  by (simp add: sample_headers_def)

lemma sample_payload_exp0:
  \<open>map_of sample_payloads
     ''{"iss":"ext","aud":"handoff","sub":"u1","email":"a@b.com","exp":0,"jti":"n1"}''
   = Some (sample_claims ''a@b.com'' (Some 0) (Some ''n1''))\<close>
  by (simp add: sample_payloads_def)

lemma sample_payload_exp999:
  \<open>map_of sample_payloads
     ''{"iss":"ext","aud":"handoff","sub":"u1","email":"a@b.com","exp":999,"jti":"n1"}''
   = Some (sample_claims ''a@b.com'' (Some 999) (Some ''n1''))\<close>
  by (simp add: sample_payloads_def)

lemma sample_exchange_no_user:
  "handleVibeAccess sample_platform sample_env sample_io
     (sample_post sample_token_n1 ''a@b.com'') (sample_state [] []) =
     (errorResponse ''USER_NOT_ALLOWED'' ''User not allowed'' 403
        (Some (Literal ''User not found in allowed users list'')) None,
      \<lparr>st_db = \<lparr>sso_users = [], jwt_seen = [\<lparr>seen_jti = ''n1'', seen_at = 1000\<rparr>]\<rparr>,
       st_jwksCache = Some \<lparr>jc_data = sample_jwks, jc_expires = 1600000\<rparr>\<rparr>)"
proof -
  let ?r = "sample_post sample_token_n1 ''a@b.com''"
  let ?s0 = "sample_state [] []"
  let ?p = "sample_claims ''a@b.com'' (Some 2000) (Some ''n1'')"
  let ?c = "Some \<lparr>jc_data = sample_jwks, jc_expires = 1600000\<rparr>"
  have cfg: "FLEXI_ISS sample_env = ''ext''" "FLEXI_AUD sample_env = ''handoff''"
    by (simp_all add: sample_env_def)
  have v1: "verifyFlexiJWT_RS256 sample_platform sample_io (st_jwksCache ?s0) sample_token_n1
              (FLEXI_ISS sample_env) (FLEXI_AUD sample_env) = (Inr ?p, ?c)"
    by (simp add: sample_verify_n1 sample_state_def cfg)
  have body: "rq_json ?r = Body (Some sample_token_n1) (Some ''a@b.com'')" "''a@b.com'' \<noteq> []"
    by (simp_all add: sample_post_def)
  have email: "fp_email ?p = Some ''a@b.com''"
    "toLowerCase sample_platform ''a@b.com'' = toLowerCase sample_platform ''a@b.com''"
    by (simp_all add: sample_claims_def)
  have jti: "fp_jti ?p = Some ''n1''" by (simp add: sample_claims_def)
  show ?thesis
    unfolding handleVibeAccess_verified[OF body(1) verified_nonempty[OF v1] body(2) v1 email]
    by (simp add: jti markJtiSeen_def insert_jwt_seen_def sample_io_def sample_state_def
          issueSession_def getUserByEmail_def request_origin_def headers_get_def sample_post_def)
qed

lemma sample_cookie_parsed:
  "parseCookies sample_platform (Some sample_cookie) ''vibe_access''
   = Some sample_session_token"
  by code_simp

lemma sample_session_verify:
  "verifyVibeAccessHS256 sample_platform w sample_session_token secret =
     (if secret = [] then Inl PlatformThrow
      else if secret \<noteq> ''s3cret'' then Inl InvalidSignature
      else if 1600 < now_ms w div 1000 then Inl TokenExpired
      else Inr sample_session)"
  by (simp add: verifyVibeAccessHS256_def sample_session_token_def split_token_cons
      base64Url_roundtrip sample_platform_def sample_headers_def hs256_header_json_def
      sample_session_def)

lemma sample_reaches_protected:
  "reaches_protected (sample_env\<lparr>VIBE_ACCESS_SECRET := secret\<rparr>)
     (sample_get ''/app/dashboard'' [(''Cookie'', c)])"
  "reaches_protected sample_env (sample_get ''/app/dashboard'' [])"
  by (simp_all add: reaches_protected_def sample_get_def sample_env_def handleCORS_def
      headers_get_def startsWith_def)

lemma sample_forged_cookie_parsed:
  "parseCookies sample_platform (Some sample_forged_cookie) ''vibe_access''
   = Some sample_forged_token"
  by code_simp

lemma sample_forged_verify:
  "verifyVibeAccessHS256 sample_platform w sample_forged_token ''s3cret''
   = Inl InvalidSignature"
  by (simp add: verifyVibeAccessHS256_def sample_forged_token_def split_token_cons
      base64Url_roundtrip sample_platform_def sample_headers_def hs256_header_json_def)

section \<open>The claims\<close>

text \<open>
  Claim C1 (the replay guard is permanent). For a nonce \<open>j\<close>: on a table without \<open>j\<close>
  and a database that answers, \<open>markJtiSeen\<close> returns \<open>true\<close>, and after any further calls
  of \<open>markJtiSeen\<close> a call with \<open>j\<close> returns \<open>false\<close>. In the exchange: when an assertion
  with nonce \<open>j\<close> has verified and its e-mail address agrees with the body, \<open>j\<close> is
  recorded whatever the response is (the user lookup comes after); and after any further
  requests to the worker, an exchange whose assertion verifies, agrees on the e-mail address
  and carries \<open>j\<close> is answered 409 \<open>REPLAYED_JTI\<close> and leaves the tables as they are.
\<close>

theorem replay_guard_permanent:
  assumes first_verified:
      "verifyFlexiJWT_RS256 P w1 (st_jwksCache s0) jwt1 (FLEXI_ISS env) (FLEXI_AUD env)
         = (Inr p1, c1)"
    and first_body: "rq_json r1 = Body (Some jwt1) (Some email1)" "email1 \<noteq> []"
    and first_email: "fp_email p1 = Some pe1" "toLowerCase P pe1 = toLowerCase P email1"
    and first_jti: "fp_jti p1 = Some j" "j \<noteq> []"
    and first_db: "insert_fault w1 = None"
    and later: "s2 = serve P env traffic (snd (handleVibeAccess P env w1 r1 s0))"
    and second_verified:
      "verifyFlexiJWT_RS256 P w2 (st_jwksCache s2) jwt2 (FLEXI_ISS env) (FLEXI_AUD env)
         = (Inr p2, c2)"
    and second_body: "rq_json r2 = Body (Some jwt2) (Some email2)" "email2 \<noteq> []"
    and second_email: "fp_email p2 = Some pe2" "toLowerCase P pe2 = toLowerCase P email2"
    and second_jti: "fp_jti p2 = Some j"
    and second_db: "insert_fault w2 = None"
  shows "(\<not> jti_recorded db j \<longrightarrow>
            fst (markJtiSeen w1 db j) = Inr True
            \<and> fst (markJtiSeen w2 (mark_all (snd (markJtiSeen w1 db j)) calls) j) = Inr False)
       \<and> jti_recorded (st_db (snd (handleVibeAccess P env w1 r1 s0))) j
       \<and> failure_of (fst (handleVibeAccess P env w2 r2 s2)) = Some (409, ''REPLAYED_JTI'')
       \<and> st_db (snd (handleVibeAccess P env w2 r2 s2)) = st_db s2"
proof -
  have A: "\<not> jti_recorded db j \<longrightarrow>
            fst (markJtiSeen w1 db j) = Inr True
            \<and> fst (markJtiSeen w2 (mark_all (snd (markJtiSeen w1 db j)) calls) j) = Inr False"
  proof
    assume fresh: "\<not> jti_recorded db j"
    have "jti_recorded (mark_all (snd (markJtiSeen w1 db j)) calls) j"
      using markJtiSeen_fresh[OF first_db fresh] by (simp add: mark_all_mono)
    then show "fst (markJtiSeen w1 db j) = Inr True
            \<and> fst (markJtiSeen w2 (mark_all (snd (markJtiSeen w1 db j)) calls) j) = Inr False"
      using markJtiSeen_fresh[OF first_db fresh] markJtiSeen_recorded_nofault[OF second_db]
      by simp
  qed
  have first: "snd (handleVibeAccess P env w1 r1 s0)
                 = (s0\<lparr>st_jwksCache := c1, st_db := snd (markJtiSeen w1 (st_db s0) j)\<rparr>)"
    using first_jti
    by (simp add: handleVibeAccess_verified[OF first_body(1) verified_nonempty[OF first_verified]
          first_body(2) first_verified first_email] issueSession_state
        split: prod.splits sum.splits)
  have B: "jti_recorded (st_db (snd (handleVibeAccess P env w1 r1 s0))) j"
    by (simp add: first markJtiSeen_nofault_records[OF first_db])
  then have rec2: "jti_recorded (st_db s2) j"
    by (simp add: later serve_mono)
  have second: "handleVibeAccess P env w2 r2 s2 =
      (errorResponse ''REPLAYED_JTI'' ''JWT replay detected'' 409
         (Some (Literal ''This JWT has already been used'')) (request_origin r2),
       s2\<lparr>st_jwksCache := c2, st_db := st_db s2\<rparr>)"
    using first_jti(2) second_jti
    by (simp add: handleVibeAccess_verified[OF second_body(1) verified_nonempty[OF second_verified]
          second_body(2) second_verified second_email]
        markJtiSeen_recorded_nofault[OF second_db rec2])
  show ?thesis using A B by (simp add: second)
qed

text \<open>
  The sample deployment with no user record: the first exchange is denied with 403
  \<open>USER_NOT_ALLOWED\<close>, the same request again is answered 409 \<open>REPLAYED_JTI\<close>.
\<close>

theorem replay_guard_permanent_witness:
  "failure_of (fst (handleVibeAccess sample_platform sample_env sample_io
                      (sample_post sample_token_n1 ''a@b.com'') (sample_state [] [])))
     = Some (403, ''USER_NOT_ALLOWED'')
   \<and> failure_of (fst (handleVibeAccess sample_platform sample_env sample_io
                      (sample_post sample_token_n1 ''a@b.com'')
                      (snd (handleVibeAccess sample_platform sample_env sample_io
                              (sample_post sample_token_n1 ''a@b.com'') (sample_state [] [])))))
     = Some (409, ''REPLAYED_JTI'')
   \<and> fst (markJtiSeen sample_io \<lparr>sso_users = [], jwt_seen = []\<rparr> ''n1'') = Inr True
   \<and> fst (markJtiSeen sample_io
             (snd (markJtiSeen sample_io \<lparr>sso_users = [], jwt_seen = []\<rparr> ''n1'')) ''n1'')
       = Inr False"
proof -
  let ?r = "sample_post sample_token_n1 ''a@b.com''"
  let ?s0 = "sample_state [] []"
  let ?p = "sample_claims ''a@b.com'' (Some 2000) (Some ''n1'')"
  let ?c = "Some \<lparr>jc_data = sample_jwks, jc_expires = 1600000\<rparr>"
  let ?s1 = "snd (handleVibeAccess sample_platform sample_env sample_io ?r ?s0)"
  have cfg: "FLEXI_ISS sample_env = ''ext''" "FLEXI_AUD sample_env = ''handoff''"
    by (simp_all add: sample_env_def)
  have v1: "verifyFlexiJWT_RS256 sample_platform sample_io (st_jwksCache ?s0) sample_token_n1
              (FLEXI_ISS sample_env) (FLEXI_AUD sample_env) = (Inr ?p, ?c)"
    by (simp add: sample_verify_n1 sample_state_def cfg)
  have body: "rq_json ?r = Body (Some sample_token_n1) (Some ''a@b.com'')" "''a@b.com'' \<noteq> []"
    by (simp_all add: sample_post_def)
  have email: "fp_email ?p = Some ''a@b.com''"
    "toLowerCase sample_platform ''a@b.com'' = toLowerCase sample_platform ''a@b.com''"
    by (simp_all add: sample_claims_def)
  have jti: "fp_jti ?p = Some ''n1''" "''n1'' \<noteq> []"
    by (simp_all add: sample_claims_def)
  have db: "insert_fault sample_io = None" by (simp add: sample_io_def)
  note first = sample_exchange_no_user
  have later: "?s1 = serve sample_platform sample_env [] ?s1" by simp
  have v2: "verifyFlexiJWT_RS256 sample_platform sample_io (st_jwksCache ?s1) sample_token_n1
              (FLEXI_ISS sample_env) (FLEXI_AUD sample_env) = (Inr ?p, ?c)"
    unfolding first by (simp add: sample_verify_n1 cfg)
  note inst = replay_guard_permanent[OF v1 body email jti db later v2 body email jti(1) db,
      of "\<lparr>sso_users = [], jwt_seen = []\<rparr>" "[]"]
  have fresh: "\<not> jti_recorded \<lparr>sso_users = [], jwt_seen = []\<rparr> ''n1''"
    by (simp add: jti_recorded_def)
  show ?thesis using inst fresh by (simp add: first)
qed

text \<open>
  Claim C2, as amended (the claims are validated before the signature is verified). When
  \<open>verifyFlexiJWT_RS256\<close> fails with a claim error (issuer, audience, expiry, not-before,
  e-mail), the key-set cache is untouched and the result is the same whatever the keys,
  the signature check and the key-set endpoint are: the error is produced before any of
  them is consulted. When it returns a claim set, the claims have passed validation and
  the signature has been verified under the key selected from the key set.
\<close>

theorem claims_validated_before_signature:
  "(\<forall>e c. verifyFlexiJWT_RS256 P w cache token iss aud = (Inl e, c) \<and> claim_error e
      \<longrightarrow> c = cache
          \<and> (\<forall>importable verify fetched.
                verifyFlexiJWT_RS256 (P\<lparr>rsa_importable := importable, rsa_verify := verify\<rparr>)
                  (w\<lparr>jwks_fetch := fetched\<rparr>) cache token iss aud = (Inl e, cache)))
   \<and> (\<forall>p c. verifyFlexiJWT_RS256 P w cache token iss aud = (Inr p, c)
      \<longrightarrow> (\<exists>h pl s header jwks jwk sg.
             split_on CHR ''.'' token = [h, pl, s]
             \<and> Option.bind (base64UrlDecode h) (parse_header P) = Some header
             \<and> Option.bind (base64UrlDecode pl) (parse_flexi P) = Some p
             \<and> validateClaims w iss aud p = None
             \<and> getFlexiJWKS w cache = (Inr jwks, c)
             \<and> selectKey header jwks = Some jwk
             \<and> base64UrlDecode s = Some sg
             \<and> rsa_verify P jwk sg (h @ ''.'' @ pl)))"
proof (intro conjI allI impI)
  fix e c
  assume a: "verifyFlexiJWT_RS256 P w cache token iss aud = (Inl e, c) \<and> claim_error e"
  from verify_claim_errorD[of P w cache token iss aud e c] a
  obtain h pl s header payload where
    f: "split_on CHR ''.'' token = [h, pl, s]"
       "Option.bind (base64UrlDecode h) (parse_header P) = Some header"
       "hdr_alg header = ''RS256''"
       "Option.bind (base64UrlDecode pl) (parse_flexi P) = Some payload"
       "validateClaims w iss aud payload = Some e" "c = cache"
    by blast
  show "c = cache" by (rule f(6))
  fix importable verify fetched
  let ?P = "P\<lparr>rsa_importable := importable, rsa_verify := verify\<rparr>"
  let ?w = "w\<lparr>jwks_fetch := fetched\<rparr>"
  have hd: "Option.bind (base64UrlDecode h) (parse_header ?P) = Some header"
    and pl: "Option.bind (base64UrlDecode pl) (parse_flexi ?P) = Some payload"
    using f(2,4) by simp_all
  have vc: "validateClaims ?w iss aud payload = Some e"
    using f(5) by (simp add: validateClaims_def)
  show "verifyFlexiJWT_RS256 ?P ?w cache token iss aud = (Inl e, cache)"
    by (simp add: verify_decoded[OF f(1) hd f(3) pl] vc)
next
  fix p c
  assume ok: "verifyFlexiJWT_RS256 P w cache token iss aud = (Inr p, c)"
  from verify_InrD[OF ok] obtain h pl s header where
    f: "split_on CHR ''.'' token = [h, pl, s]"
       "Option.bind (base64UrlDecode h) (parse_header P) = Some header"
       "Option.bind (base64UrlDecode pl) (parse_flexi P) = Some p"
       "validateClaims w iss aud p = None"
       "checkSignature P w cache header h pl s = (None, c)"
    by blast
  from checkSignature_NoneD[OF f(5)] f(1-4)
  show "\<exists>h pl s header jwks jwk sg.
             split_on CHR ''.'' token = [h, pl, s]
             \<and> Option.bind (base64UrlDecode h) (parse_header P) = Some header
             \<and> Option.bind (base64UrlDecode pl) (parse_flexi P) = Some p
             \<and> validateClaims w iss aud p = None
             \<and> getFlexiJWKS w cache = (Inr jwks, c)
             \<and> selectKey header jwks = Some jwk
             \<and> base64UrlDecode s = Some sg
             \<and> rsa_verify P jwk sg (h @ ''.'' @ pl)"
    by blast
qed

text \<open>
  Claim C2 as stated fails: with an expected issuer the assertion does not have, a
  platform on which no signature verifies and a key-set endpoint that is down, the
  verifier still answers \<open>'Invalid issuer: ext'\<close>.
\<close>

theorem claims_validated_before_signature_counterexample:
  "verifyFlexiJWT_RS256 (sample_platform\<lparr>rsa_verify := (\<lambda>k s m. False)\<rparr>)
      (sample_io\<lparr>jwks_fetch := None\<rparr>) None sample_token_n1 ''other'' ''handoff''
     = (Inl (InvalidIssuer (Some ''ext'')), None)
   \<and> (\<forall>k s m. \<not> rsa_verify (sample_platform\<lparr>rsa_verify := (\<lambda>k s m. False)\<rparr>) k s m)
   \<and> getFlexiJWKS (sample_io\<lparr>jwks_fetch := None\<rparr>) None = (Inl FetchJWKSFailed, None)"
proof -
  let ?P = "sample_platform\<lparr>rsa_verify := (\<lambda>k s m. False)\<rparr>"
  let ?w = "sample_io\<lparr>jwks_fetch := None\<rparr>"
  have ph: "parse_header ?P = map_of sample_headers" and pp: "parse_flexi ?P = map_of sample_payloads"
    by (simp_all add: sample_platform_def)
  note d = sample_decoded[OF sample_header_plain sample_payload_n1 ph pp, of "''N1''"]
  have alg: "hdr_alg \<lparr>hdr_alg = ''RS256'', hdr_kid = None\<rparr> = ''RS256''" by simp
  have vc: "validateClaims ?w ''other'' ''handoff'' (sample_claims ''a@b.com'' (Some 2000) (Some ''n1''))
            = Some (InvalidIssuer (Some ''ext''))"
    by (simp add: validateClaims_def sample_claims_def)
  have "verifyFlexiJWT_RS256 ?P ?w None sample_token_n1 ''other'' ''handoff''
        = (Inl (InvalidIssuer (Some ''ext'')), None)"
    unfolding sample_token_n1_def
    by (simp add: verify_decoded[OF d[THEN conjunct1] d[THEN conjunct2, THEN conjunct1] alg
            d[THEN conjunct2, THEN conjunct2]] vc)
  then show ?thesis by (simp add: getFlexiJWKS_def)
qed

text \<open>
  The sample assertion: accepted under the right issuer, with a signature that verifies;
  rejected for its issuer under another, with or without keys.
\<close>

theorem claims_validated_before_signature_witness:
  "verifyFlexiJWT_RS256 sample_platform sample_io None sample_token_n1 ''ext'' ''handoff''
     = (Inr (sample_claims ''a@b.com'' (Some 2000) (Some ''n1'')),
        Some \<lparr>jc_data = sample_jwks, jc_expires = 1600000\<rparr>)
   \<and> (\<exists>h pl s jwk sg.
         split_on CHR ''.'' sample_token_n1 = [h, pl, s]
         \<and> base64UrlDecode s = Some sg
         \<and> rsa_verify sample_platform jwk sg (h @ ''.'' @ pl))
   \<and> verifyFlexiJWT_RS256 sample_platform sample_io None sample_token_n1 ''other'' ''handoff''
     = (Inl (InvalidIssuer (Some ''ext'')), None)
   \<and> verifyFlexiJWT_RS256
        (sample_platform\<lparr>rsa_importable := (\<lambda>k. False), rsa_verify := (\<lambda>k s m. False)\<rparr>)
        (sample_io\<lparr>jwks_fetch := None\<rparr>) None sample_token_n1 ''other'' ''handoff''
     = (Inl (InvalidIssuer (Some ''ext'')), None)"
proof -
  have ok: "verifyFlexiJWT_RS256 sample_platform sample_io None sample_token_n1 ''ext'' ''handoff''
     = (Inr (sample_claims ''a@b.com'' (Some 2000) (Some ''n1'')),
        Some \<lparr>jc_data = sample_jwks, jc_expires = 1600000\<rparr>)"
    by (simp add: sample_verify_n1)
  have ph: "parse_header sample_platform = map_of sample_headers"
    and pp: "parse_flexi sample_platform = map_of sample_payloads"
    by (simp_all add: sample_platform_def)
  note d = sample_decoded[OF sample_header_plain sample_payload_n1 ph pp, of "''N1''"]
  have alg: "hdr_alg \<lparr>hdr_alg = ''RS256'', hdr_kid = None\<rparr> = ''RS256''" by simp
  have vc: "validateClaims sample_io ''other'' ''handoff''
              (sample_claims ''a@b.com'' (Some 2000) (Some ''n1''))
            = Some (InvalidIssuer (Some ''ext''))"
    by (simp add: validateClaims_def sample_claims_def)
  have bad: "verifyFlexiJWT_RS256 sample_platform sample_io None sample_token_n1 ''other'' ''handoff''
        = (Inl (InvalidIssuer (Some ''ext'')), None)"
    unfolding sample_token_n1_def
    by (simp add: verify_decoded[OF d[THEN conjunct1] d[THEN conjunct2, THEN conjunct1] alg
            d[THEN conjunct2, THEN conjunct2]] vc)
  have ce: "claim_error (InvalidIssuer (Some ''ext''))" by simp
  note inst1 = claims_validated_before_signature[of sample_platform sample_io None sample_token_n1
      "''other''" "''handoff''", THEN conjunct1, rule_format, OF conjI[OF bad ce], THEN conjunct2,
      rule_format, where importable = "\<lambda>k. False" and verify = "\<lambda>k s m. False"
      and fetched = None]
  note inst2 = claims_validated_before_signature[of sample_platform sample_io None sample_token_n1
      "''ext''" "''handoff''", THEN conjunct2, rule_format, OF ok]
  from inst2 have sig: "\<exists>h pl s jwk sg.
         split_on CHR ''.'' sample_token_n1 = [h, pl, s]
         \<and> base64UrlDecode s = Some sg
         \<and> rsa_verify sample_platform jwk sg (h @ ''.'' @ pl)"
    by blast
  show ?thesis using ok sig bad inst1 by simp
qed

text \<open>
  Claim C3, as amended (failure codes of the exchange endpoint). Every failure response
  of \<open>handleVibeAccess\<close> carries one of the seven listed codes (400 \<open>INVALID_BODY\<close>, 401
  \<open>JWT_INVALID\<close>, 401 \<open>EMAIL_MISMATCH\<close>, 403 \<open>USER_NOT_ALLOWED\<close>, 403 \<open>USER_SUSPENDED\<close>, 409
  \<open>REPLAYED_JTI\<close>, 500 \<open>INTERNAL_ERROR\<close>), and a response without an error body is the
  204. On the route \<open>POST /auth/vibe-access\<close> two guards of the entry point run before the
  handler. A request whose \<open>Origin\<close> header is present, not empty and not allow-listed is
  answered 403 \<open>FORBIDDEN\<close>, whatever its content type. A request that passes the origin
  guard and whose \<open>Content-Type\<close> header is absent or does not contain
  \<open>application/json\<close> is answered 400 \<open>INVALID_CONTENT_TYPE\<close>. Both leave the state as it
  is, and a request that passes both guards gets the handler's response. So a failure
  response of the route carries one of the nine codes, \<open>FORBIDDEN\<close> exactly when the origin
  is refused and \<open>INVALID_CONTENT_TYPE\<close> exactly when the origin guard is passed and the
  content type does not declare JSON.
\<close>

theorem exchange_failure_codes:
  assumes route: "rq_pathname r = ''/auth/vibe-access''" "rq_method r = ''POST''"
  shows "(\<forall>f. failure_of (fst (handleVibeAccess P env w r st)) = Some f
              \<longrightarrow> f \<in> spec_failure_codes)
       \<and> (failure_of (fst (handleVibeAccess P env w r st)) = None
              \<longrightarrow> rs_status (fst (handleVibeAccess P env w r st)) = 204)
       \<and> (\<forall>f. failure_of (fst (worker_fetch P env w u r st)) = Some f
              \<longrightarrow> f \<in> spec_failure_codes
                        \<union> {(400, ''INVALID_CONTENT_TYPE''), (403, ''FORBIDDEN'')})
       \<and> (failure_of (fst (worker_fetch P env w u r st)) = None
              \<longrightarrow> rs_status (fst (worker_fetch P env w u r st)) = 204)
       \<and> (handleCORS r = None \<and> \<not> declares_json r
              \<longrightarrow> failure_of (fst (worker_fetch P env w u r st))
                    = Some (400, ''INVALID_CONTENT_TYPE''))
       \<and> (\<forall>origin. request_origin r = Some origin \<and> origin \<notin> set ALLOWED_ORIGINS
              \<longrightarrow> worker_fetch P env w u r st
                    = (errorResponse ''FORBIDDEN'' ''Invalid origin'' 403 None None, st, []))
       \<and> ((\<forall>origin. request_origin r = Some origin \<longrightarrow> origin \<in> set ALLOWED_ORIGINS)
            \<and> \<not> declares_json r
              \<longrightarrow> worker_fetch P env w u r st
                    = (errorResponse ''INVALID_CONTENT_TYPE'' ''Invalid Content-Type'' 400
                         (Some (Literal ''Content-Type must be application/json'')) None,
                       st, []))
       \<and> ((\<forall>origin. request_origin r = Some origin \<longrightarrow> origin \<in> set ALLOWED_ORIGINS)
            \<and> declares_json r
              \<longrightarrow> worker_fetch P env w u r st
                    = (fst (handleVibeAccess P env w r st),
                       snd (handleVibeAccess P env w r st), []))
       \<and> (failure_of (fst (worker_fetch P env w u r st)) = Some (403, ''FORBIDDEN'')
            \<longleftrightarrow> (\<exists>origin. request_origin r = Some origin \<and> origin \<notin> set ALLOWED_ORIGINS))
       \<and> (failure_of (fst (worker_fetch P env w u r st)) = Some (400, ''INVALID_CONTENT_TYPE'')
            \<longleftrightarrow> (\<forall>origin. request_origin r = Some origin \<longrightarrow> origin \<in> set ALLOWED_ORIGINS)
                \<and> \<not> declares_json r)"
proof -
  let ?H = "handleVibeAccess P env w r st"
  let ?W = "worker_fetch P env w u r st"
  let ?refused = "\<exists>origin. request_origin r = Some origin \<and> origin \<notin> set ALLOWED_ORIGINS"
  let ?forbidden = "errorResponse ''FORBIDDEN'' ''Invalid origin'' 403 None None"
  let ?content = "errorResponse ''INVALID_CONTENT_TYPE'' ''Invalid Content-Type'' 400
                    (Some (Literal ''Content-Type must be application/json'')) None"
  note h = handleVibeAccess_outcomes[of P env w r st]
  note wf = worker_fetch_exchange[OF route, of P env w u st]
  have post: "rq_method r \<noteq> ''OPTIONS''" using route(2) by simp
  have adm: "(\<forall>origin. request_origin r = Some origin \<longrightarrow> origin \<in> set ALLOWED_ORIGINS)
               \<longleftrightarrow> \<not> ?refused"
    by blast
  have cors: "handleCORS r = None \<longleftrightarrow> \<not> ?refused"
    unfolding handleCORS_post[OF post] by (cases "request_origin r") simp_all
  have c1: "\<forall>f. failure_of (fst ?H) = Some f \<longrightarrow> f \<in> spec_failure_codes"
    and c2: "failure_of (fst ?H) = None \<longrightarrow> rs_status (fst ?H) = 204"
    using h by simp_all
  have cases: "(\<forall>f. failure_of (fst W) = Some f
                  \<longrightarrow> f \<in> spec_failure_codes
                        \<union> {(400, ''INVALID_CONTENT_TYPE''), (403, ''FORBIDDEN'')})
       \<and> (failure_of (fst W) = None \<longrightarrow> rs_status (fst W) = 204)
       \<and> (refused \<longrightarrow> W = (?forbidden, s, []))
       \<and> (\<not> refused \<and> \<not> json \<longrightarrow> W = (?content, s, []))
       \<and> (\<not> refused \<and> json \<longrightarrow> W = (fst H, snd H, []))
       \<and> (failure_of (fst W) = Some (403, ''FORBIDDEN'') \<longleftrightarrow> refused)
       \<and> (failure_of (fst W) = Some (400, ''INVALID_CONTENT_TYPE'') \<longleftrightarrow> \<not> refused \<and> \<not> json)"
    if "W = (if refused then (?forbidden, s, [])
             else if \<not> json then (?content, s, [])
             else (fst H, snd H, []))"
      and "\<forall>f. failure_of (fst H) = Some f \<longrightarrow> f \<in> spec_failure_codes"
      and "failure_of (fst H) = None \<longrightarrow> rs_status (fst H) = 204"
    for W :: "Response \<times> State \<times> upstream_call list" and H :: "Response \<times> State"
      and refused json s
    using that by (cases refused; cases json) (auto simp: spec_failure_codes_def)
  note a = cases[OF wf c1 c2]
  note c3 = a[THEN conjunct1]
  note c4 = a[THEN conjunct2, THEN conjunct1]
  note forbidden = a[THEN conjunct2, THEN conjunct2, THEN conjunct1]
  note content = a[THEN conjunct2, THEN conjunct2, THEN conjunct2, THEN conjunct1]
  note handler = a[THEN conjunct2, THEN conjunct2, THEN conjunct2, THEN conjunct2,
      THEN conjunct1]
  note c9 = a[THEN conjunct2, THEN conjunct2, THEN conjunct2, THEN conjunct2,
      THEN conjunct2, THEN conjunct1]
  note content_iff = a[THEN conjunct2, THEN conjunct2, THEN conjunct2, THEN conjunct2,
      THEN conjunct2, THEN conjunct2]
  have c5: "handleCORS r = None \<and> \<not> declares_json r
              \<longrightarrow> failure_of (fst ?W) = Some (400, ''INVALID_CONTENT_TYPE'')"
    unfolding cors
  proof
    assume x: "\<not> ?refused \<and> \<not> declares_json r"
    show "failure_of (fst ?W) = Some (400, ''INVALID_CONTENT_TYPE'')"
      by (rule content_iff[THEN iffD2, OF x])
  qed
  have c6: "\<forall>origin. request_origin r = Some origin \<and> origin \<notin> set ALLOWED_ORIGINS
              \<longrightarrow> ?W = (?forbidden, st, [])"
  proof (intro allI impI)
    fix origin
    assume "request_origin r = Some origin \<and> origin \<notin> set ALLOWED_ORIGINS"
    then have ?refused by (rule exI)
    with forbidden show "?W = (?forbidden, st, [])" by (rule mp)
  qed
  have c7: "(\<forall>origin. request_origin r = Some origin \<longrightarrow> origin \<in> set ALLOWED_ORIGINS)
            \<and> \<not> declares_json r
              \<longrightarrow> ?W = (?content, st, [])"
    unfolding adm by (rule content)
  have c8: "(\<forall>origin. request_origin r = Some origin \<longrightarrow> origin \<in> set ALLOWED_ORIGINS)
            \<and> declares_json r
              \<longrightarrow> ?W = (fst ?H, snd ?H, [])"
    unfolding adm by (rule handler)
  have c10: "failure_of (fst ?W) = Some (400, ''INVALID_CONTENT_TYPE'')
            \<longleftrightarrow> (\<forall>origin. request_origin r = Some origin \<longrightarrow> origin \<in> set ALLOWED_ORIGINS)
                \<and> \<not> declares_json r"
    unfolding adm by (rule content_iff)
  show ?thesis by (intro conjI c1 c2 c3 c4 c5 c6 c7 c8 c9 c10)
qed

text \<open>
  Claim C3 as stated fails: a request with the content type \<open>text/plain\<close> is answered
  400 \<open>INVALID_CONTENT_TYPE\<close>, which is not a code of the list.
\<close>

theorem exchange_failure_codes_counterexample:
  "failure_of (fst (worker_fetch sample_platform sample_env sample_io sample_upstream
                      ((sample_post sample_token_n1 ''a@b.com'')
                         \<lparr>rq_headers := [(''Content-Type'', ''text/plain'')]\<rparr>)
                      (sample_state [sample_user ''a@b.com'' ''active''] [])))
     = Some (400, ''INVALID_CONTENT_TYPE'')
   \<and> (400, ''INVALID_CONTENT_TYPE'') \<notin> spec_failure_codes"
proof -
  let ?r = "(sample_post sample_token_n1 ''a@b.com'')
              \<lparr>rq_headers := [(''Content-Type'', ''text/plain'')]\<rparr>"
  have route: "rq_pathname ?r = ''/auth/vibe-access''" "rq_method ?r = ''POST''"
    by (simp_all add: sample_post_def)
  have cors: "handleCORS ?r = None"
    by (simp add: handleCORS_def headers_get_def sample_post_def)
  have ct: "\<not> declares_json ?r"
    by code_simp
  show ?thesis
    by (simp add: worker_fetch_vibe_access[OF route] cors ct spec_failure_codes_def)
qed

text \<open>
  The sample deployment without users. The exchange is answered 403 \<open>USER_NOT_ALLOWED\<close>
  through the entry point; without a content type it is answered 400
  \<open>INVALID_CONTENT_TYPE\<close>; and with the origin \<open>https://evil.example\<close> it is answered 403
  \<open>FORBIDDEN\<close>, with and without a JSON content type.
\<close>

theorem exchange_failure_codes_witness:
  "failure_of (fst (worker_fetch sample_platform sample_env sample_io sample_upstream
                      (sample_post sample_token_n1 ''a@b.com'') (sample_state [] [])))
     = Some (403, ''USER_NOT_ALLOWED'')
   \<and> (403, ''USER_NOT_ALLOWED'') \<in> spec_failure_codes
   \<and> failure_of (fst (worker_fetch sample_platform sample_env sample_io sample_upstream
                      ((sample_post sample_token_n1 ''a@b.com'')\<lparr>rq_headers := []\<rparr>)
                      (sample_state [] [])))
     = Some (400, ''INVALID_CONTENT_TYPE'')
   \<and> worker_fetch sample_platform sample_env sample_io sample_upstream
        ((sample_post sample_token_n1 ''a@b.com'')
           \<lparr>rq_headers := [(''Origin'', ''https://evil.example''),
                            (''Content-Type'', ''application/json'')]\<rparr>)
        (sample_state [] [])
     = (errorResponse ''FORBIDDEN'' ''Invalid origin'' 403 None None, sample_state [] [], [])
   \<and> worker_fetch sample_platform sample_env sample_io sample_upstream
        ((sample_post sample_token_n1 ''a@b.com'')
           \<lparr>rq_headers := [(''Origin'', ''https://evil.example'')]\<rparr>)
        (sample_state [] [])
     = (errorResponse ''FORBIDDEN'' ''Invalid origin'' 403 None None, sample_state [] [], [])"
proof -
  let ?r = "sample_post sample_token_n1 ''a@b.com''"
  let ?r' = "?r\<lparr>rq_headers := []\<rparr>"
  let ?e1 = "?r\<lparr>rq_headers := [(''Origin'', ''https://evil.example''),
                                  (''Content-Type'', ''application/json'')]\<rparr>"
  let ?e2 = "?r\<lparr>rq_headers := [(''Origin'', ''https://evil.example'')]\<rparr>"
  let ?s0 = "sample_state [] []"
  have route: "rq_pathname ?r = ''/auth/vibe-access''" "rq_method ?r = ''POST''"
    and route': "rq_pathname ?r' = ''/auth/vibe-access''" "rq_method ?r' = ''POST''"
    and route1: "rq_pathname ?e1 = ''/auth/vibe-access''" "rq_method ?e1 = ''POST''"
    and route2: "rq_pathname ?e2 = ''/auth/vibe-access''" "rq_method ?e2 = ''POST''"
    by (simp_all add: sample_post_def)
  have cors: "handleCORS ?r = None" "handleCORS ?r' = None"
    by (simp_all add: handleCORS_def headers_get_def sample_post_def)
  have ct: "declares_json ?r" "\<not> declares_json ?r'"
    by code_simp+
  have evil: "request_origin ?e1 = Some ''https://evil.example''
              \<and> ''https://evil.example'' \<notin> set ALLOWED_ORIGINS"
    "request_origin ?e2 = Some ''https://evil.example''
              \<and> ''https://evil.example'' \<notin> set ALLOWED_ORIGINS"
    by (simp_all add: request_origin_def headers_get_def ALLOWED_ORIGINS_def)
  have first: "failure_of (fst (handleVibeAccess sample_platform sample_env sample_io ?r ?s0))
               = Some (403, ''USER_NOT_ALLOWED'')"
    by (simp add: sample_exchange_no_user)
  have a: "failure_of (fst (worker_fetch sample_platform sample_env sample_io sample_upstream
                              ?r ?s0)) = Some (403, ''USER_NOT_ALLOWED'')"
    by (simp add: worker_fetch_vibe_access[OF route] cors ct first)
  note inst = exchange_failure_codes[OF route, of sample_platform sample_env sample_io ?s0
      sample_upstream]
  note inst' = exchange_failure_codes[OF route', of sample_platform sample_env sample_io ?s0
      sample_upstream]
  note inst1 = exchange_failure_codes[OF route1, of sample_platform sample_env sample_io ?s0
      sample_upstream]
  note inst2 = exchange_failure_codes[OF route2, of sample_platform sample_env sample_io ?s0
      sample_upstream]
  note b = inst[THEN conjunct2, THEN conjunct2, THEN conjunct1, rule_format, OF a]
  note c = inst'[THEN conjunct2, THEN conjunct2, THEN conjunct2, THEN conjunct2,
      THEN conjunct1, rule_format, OF conjI[OF cors(2) ct(2)]]
  note d1 = inst1[THEN conjunct2, THEN conjunct2, THEN conjunct2, THEN conjunct2,
      THEN conjunct2, THEN conjunct1, rule_format, OF evil(1)]
  note d2 = inst2[THEN conjunct2, THEN conjunct2, THEN conjunct2, THEN conjunct2,
      THEN conjunct2, THEN conjunct1, rule_format, OF evil(2)]
  have b': "(403, ''USER_NOT_ALLOWED'') \<in> spec_failure_codes"
    using b by (simp add: spec_failure_codes_def)
  show ?thesis by (intro conjI a b' c d1 d2)
qed

text \<open>
  Claim C4 (round trip of the session token). Let \<open>signVibeAccessHS256\<close> return a token
  for an identity, a secret and a time to live, at a time \<open>w1\<close>; let \<open>full\<close> be the
  identity with \<open>iat\<close> the second of signing and \<open>exp = iat + ttl\<close>. Provided the
  platform's \<open>JSON.parse\<close> reads back what \<open>JSON.stringify\<close> wrote for \<open>full\<close> and for
  the constant header, \<open>verifyVibeAccessHS256\<close> with the same secret returns \<open>full\<close> at
  every time up to and including the second \<open>exp\<close>, and fails with \<open>'Token expired'\<close>
  at every later second.
\<close>

theorem session_token_roundtrip:
  assumes sign: "signVibeAccessHS256 P w1 ident secret ttl = Inr token"
    and full: "full = \<lparr>vp_iss = vi_iss ident, vp_aud = vi_aud ident, vp_sub = vi_sub ident,
                        vp_email = vi_email ident, vp_roles = vi_roles ident,
                        vp_exp = now_ms w1 div 1000 + ttl, vp_iat = now_ms w1 div 1000\<rparr>"
    and json: "parse_vibe P (stringify_vibe P full) = Some full"
    and hdr: "parse_header P hs256_header_json = Some h" "hdr_alg h = ''HS256''"
  shows "(now_ms w2 div 1000 \<le> now_ms w1 div 1000 + ttl
            \<longrightarrow> verifyVibeAccessHS256 P w2 token secret = Inr full)
       \<and> (now_ms w1 div 1000 + ttl < now_ms w2 div 1000
            \<longrightarrow> verifyVibeAccessHS256 P w2 token secret = Inl TokenExpired)"
proof -
  let ?hb = "base64UrlEncode hs256_header_json"
  let ?pb = "base64UrlEncode (stringify_vibe P full)"
  let ?m = "?hb @ ''.'' @ ?pb"
  from sign have imp: "hmac_importable P secret"
    by (simp add: signVibeAccessHS256_def Let_def split: if_splits)
  from sign have tok: "token = ?hb @ ''.'' @ ?pb @ ''.'' @ base64UrlEncode (hmac_sha256 P secret ?m)"
    by (simp add: signVibeAccessHS256_def Let_def full split: if_splits)
  have "verifyVibeAccessHS256 P w2 token secret =
        (if vp_exp full < now_ms w2 div 1000 then Inl TokenExpired else Inr full)"
    unfolding tok verifyVibeAccessHS256_def split_token
    by (simp add: base64Url_roundtrip hdr json imp)
  then show ?thesis by (simp add: full)
qed

text \<open>
  The sample platform at second 1000, with 600 seconds to live: the token verifies at
  second 1600 and is expired at second 1601.
\<close>

theorem session_token_roundtrip_witness:
  "signVibeAccessHS256 sample_platform sample_io
     \<lparr>vi_iss = ''vibe-edge'', vi_aud = ''vibe-app'', vi_sub = ''u1'', vi_email = ''a@b.com'',
      vi_roles = ''viewer''\<rparr> ''s3cret'' 600
   = Inr sample_session_token
   \<and> verifyVibeAccessHS256 sample_platform (sample_io\<lparr>now_ms := 1600999\<rparr>)
        sample_session_token ''s3cret''
      = Inr sample_session
   \<and> verifyVibeAccessHS256 sample_platform (sample_io\<lparr>now_ms := 1601000\<rparr>)
        sample_session_token ''s3cret''
      = Inl TokenExpired"
proof -
  let ?ident = "\<lparr>vi_iss = ''vibe-edge'', vi_aud = ''vibe-app'', vi_sub = ''u1'',
                 vi_email = ''a@b.com'', vi_roles = ''viewer''\<rparr>"
  have full: "sample_session =
      \<lparr>vp_iss = vi_iss ?ident, vp_aud = vi_aud ?ident, vp_sub = vi_sub ?ident,
       vp_email = vi_email ?ident, vp_roles = vi_roles ?ident,
       vp_exp = now_ms sample_io div 1000 + 600, vp_iat = now_ms sample_io div 1000\<rparr>"
    by (simp add: sample_session_def sample_io_def)
  have json: "parse_vibe sample_platform (stringify_vibe sample_platform sample_session)
              = Some sample_session"
    by (simp add: sample_platform_def)
  have hdr: "parse_header sample_platform hs256_header_json
             = Some \<lparr>hdr_alg = ''HS256'', hdr_kid = None\<rparr>"
    by (simp add: sample_platform_def sample_headers_def hs256_header_json_def)
  have alg: "hdr_alg \<lparr>hdr_alg = ''HS256'', hdr_kid = None\<rparr> = ''HS256''" by simp
  note r = session_token_roundtrip[OF sample_sign full json hdr alg]
  show ?thesis
    using sample_sign r[of "sample_io\<lparr>now_ms := 1600999\<rparr>"]
      r[of "sample_io\<lparr>now_ms := 1601000\<rparr>"]
    by (simp add: sample_io_def)
qed

text \<open>
  Claim C5 (key selection). The verifier chooses the key with
  \<open>header.kid ? jwks.keys.find((k) => k.kid === header.kid) : jwks.keys[0]\<close>, so the
  empty string as key-id counts as no key-id. The sample key set has the keys \<open>k1\<close> and
  \<open>k2\<close> and none named by the empty string. An assertion whose header names \<open>k9\<close> is
  rejected, the exchange answering 401 \<open>JWT_INVALID\<close>; the assertion whose header is
  \<open>{"alg":"RS256","kid":""}\<close>, signed under \<open>k1\<close>, verifies under \<open>k1\<close>, and the exchange
  answers 204. And of the keys \<open>k1\<close> and \<open>""\<close> the verifier takes \<open>k1\<close> for that header,
  not the key named.
\<close>

theorem empty_key_id_takes_first_key:
  \<open>find (\<lambda>j. jwk_kid j = Some []) (keys sample_jwks) = None
   \<and> selectKey \<lparr>hdr_alg = ''RS256'', hdr_kid = Some []\<rparr> sample_jwks
     = Some (sample_key ''k1'' ''N1'')
   \<and> verifyFlexiJWT_RS256 sample_platform sample_io None
        (sample_token_kid ''N1'' ''{"alg":"RS256","kid":""}'') ''ext'' ''handoff''
     = (Inr (sample_claims ''a@b.com'' (Some 2000) (Some ''n1'')),
        Some \<lparr>jc_data = sample_jwks, jc_expires = 1600000\<rparr>)
   \<and> rs_status (fst (handleVibeAccess sample_platform sample_env sample_io
                       (sample_post (sample_token_kid ''N1'' ''{"alg":"RS256","kid":""}'')
                          ''a@b.com'')
                       (sample_state [sample_user ''a@b.com'' ''active''] [])))
     = 204
   \<and> failure_of (fst (handleVibeAccess sample_platform sample_env sample_io
                       (sample_post (sample_token_kid ''N1'' ''{"alg":"RS256","kid":"k9"}'')
                          ''a@b.com'')
                       (sample_state [sample_user ''a@b.com'' ''active''] [])))
     = Some (401, ''JWT_INVALID'')
   \<and> find (\<lambda>j. jwk_kid j = Some []) [sample_key ''k1'' ''N1'', sample_key [] ''N0'']
     = Some (sample_key [] ''N0'')
   \<and> selectKey \<lparr>hdr_alg = ''RS256'', hdr_kid = Some []\<rparr>
        \<lparr>keys = [sample_key ''k1'' ''N1'', sample_key [] ''N0'']\<rparr>
     = Some (sample_key ''k1'' ''N1'')\<close>
proof -
  let ?t0 = \<open>sample_token_kid ''N1'' ''{"alg":"RS256","kid":""}''\<close>
  let ?t9 = \<open>sample_token_kid ''N1'' ''{"alg":"RS256","kid":"k9"}''\<close>
  let ?p = "sample_claims ''a@b.com'' (Some 2000) (Some ''n1'')"
  let ?c = "Some \<lparr>jc_data = sample_jwks, jc_expires = 1600000\<rparr>"
  let ?s = "sample_state [sample_user ''a@b.com'' ''active''] []"
  let ?r0 = "sample_post ?t0 ''a@b.com''"
  let ?r9 = "sample_post ?t9 ''a@b.com''"
  have none: "find (\<lambda>j. jwk_kid j = Some []) (keys sample_jwks) = None"
    by (simp add: sample_jwks_def sample_key_def)
  have sel: "selectKey \<lparr>hdr_alg = ''RS256'', hdr_kid = Some []\<rparr> sample_jwks
             = Some (sample_key ''k1'' ''N1'')"
    by (simp add: selectKey_def truthy_str_def sample_jwks_def)
  have v0: "verifyFlexiJWT_RS256 sample_platform sample_io cache ?t0 ''ext'' ''handoff''
            = (Inr ?p, ?c)"
    if "cache = None \<or> cache = ?c" for cache
    unfolding sample_token_kid_def
    by (rule sample_verify[OF sample_header_kid_empty _ sample_payload_n1 _ _ sel _ _ that])
       (simp_all add: sample_key_def)
  have cfg: "FLEXI_ISS sample_env = ''ext''" "FLEXI_AUD sample_env = ''handoff''"
    by (simp_all add: sample_env_def)
  have io: "insert_fault sample_io = None" "now_ms sample_io = 1000000"
    by (simp_all add: sample_io_def)
  have v: "verifyFlexiJWT_RS256 sample_platform sample_io (st_jwksCache ?s) ?t0
             (FLEXI_ISS sample_env) (FLEXI_AUD sample_env) = (Inr ?p, ?c)"
    by (simp add: v0 sample_state_def cfg)
  have body: "rq_json ?r0 = Body (Some ?t0) (Some ''a@b.com'')" "''a@b.com'' \<noteq> []"
    by (simp_all add: sample_post_def)
  have claim: "fp_email ?p = Some ''a@b.com''" and jti: "fp_jti ?p = Some ''n1''"
    by (simp_all add: sample_claims_def)
  have issued: "rs_status (fst (handleVibeAccess sample_platform sample_env sample_io ?r0 ?s))
                = 204"
    unfolding handleVibeAccess_verified[OF body(1) verified_nonempty[OF v] body(2) v claim refl]
    by (simp add: jti markJtiSeen_def insert_jwt_seen_def io sample_state_def
          sample_issue_ok[of "''a@b.com''" _ "sample_user ''a@b.com'' ''active''"]
          sample_user_def)
  have ph: "parse_header sample_platform = map_of sample_headers"
    and pp: "parse_flexi sample_platform = map_of sample_payloads"
    by (simp_all add: sample_platform_def)
  note d9 = sample_decoded[OF sample_header_kid_k9 sample_payload_n1 ph pp, of "''N1''",
      folded sample_token_kid_def]
  note i9 = named_key_is_selected[OF d9[THEN conjunct1] d9[THEN conjunct2, THEN conjunct1],
      of sample_jwks sample_io ?s sample_env ?r9 "''a@b.com''", THEN conjunct1, rule_format,
      of "''k9''"]
  have k9: "hdr_kid \<lparr>hdr_alg = ''RS256'', hdr_kid = Some ''k9''\<rparr> = Some ''k9'' \<and> ''k9'' \<noteq> []"
    by simp
  have g: "getFlexiJWKS sample_io (st_jwksCache ?s) = (Inr sample_jwks, ?c)
           \<and> (\<forall>j \<in> set (keys sample_jwks). jwk_kid j \<noteq> Some ''k9'')"
    by (simp add: getFlexiJWKS_def sample_io_def sample_state_def sample_jwks_def sample_key_def)
  have b: "rq_json ?r9 = Body (Some ?t9) (Some ''a@b.com'') \<and> ''a@b.com'' \<noteq> []"
    by (simp add: sample_post_def)
  from i9[OF k9, THEN conjunct2, THEN conjunct1, rule_format, OF g, THEN conjunct2,
      rule_format, OF b]
  have r9: "failure_of (fst (handleVibeAccess sample_platform sample_env sample_io ?r9 ?s))
            = Some (401, ''JWT_INVALID'')" .
  have named: "find (\<lambda>j. jwk_kid j = Some []) [sample_key ''k1'' ''N1'', sample_key [] ''N0'']
               = Some (sample_key [] ''N0'')"
    by (simp add: sample_key_def)
  have sel2: "selectKey \<lparr>hdr_alg = ''RS256'', hdr_kid = Some []\<rparr>
                \<lparr>keys = [sample_key ''k1'' ''N1'', sample_key [] ''N0'']\<rparr>
              = Some (sample_key ''k1'' ''N1'')"
    by (simp add: selectKey_def truthy_str_def)
  show ?thesis by (intro conjI none sel v0[of None] issued r9 named sel2) simp
qed

text \<open>
  Claim C6 (the claims are validated in order; an expiry in the past is rejected). The
  verifier tests the expiry with \<open>payload.exp && payload.exp < now\<close>, so an expiry of
  \<open>0\<close> counts as no expiry. At second 1000 of the sample deployment the assertion with
  \<open>"exp":999\<close> is rejected with \<open>'Token expired'\<close>, while the correctly signed assertion
  with \<open>"exp":0\<close> verifies and the exchange answers 204.
\<close>

theorem expiry_zero_is_accepted:
  \<open>now_ms sample_io div 1000 = 1000
   \<and> verifyFlexiJWT_RS256 sample_platform sample_io None
        (sample_token_exp
           ''{"iss":"ext","aud":"handoff","sub":"u1","email":"a@b.com","exp":999,"jti":"n1"}'')
        ''ext'' ''handoff''
     = (Inl TokenExpired, None)
   \<and> verifyFlexiJWT_RS256 sample_platform sample_io None
        (sample_token_exp
           ''{"iss":"ext","aud":"handoff","sub":"u1","email":"a@b.com","exp":0,"jti":"n1"}'')
        ''ext'' ''handoff''
     = (Inr (sample_claims ''a@b.com'' (Some 0) (Some ''n1'')),
        Some \<lparr>jc_data = sample_jwks, jc_expires = 1600000\<rparr>)
   \<and> rs_status (fst (handleVibeAccess sample_platform sample_env sample_io
                       (sample_post
                          (sample_token_exp
                             ''{"iss":"ext","aud":"handoff","sub":"u1","email":"a@b.com","exp":0,"jti":"n1"}'')
                          ''a@b.com'')
                       (sample_state [sample_user ''a@b.com'' ''active''] [])))
     = 204\<close>
proof -
  let ?j0 = \<open>''{"iss":"ext","aud":"handoff","sub":"u1","email":"a@b.com","exp":0,"jti":"n1"}''\<close>
  let ?j9 = \<open>''{"iss":"ext","aud":"handoff","sub":"u1","email":"a@b.com","exp":999,"jti":"n1"}''\<close>
  let ?p0 = "sample_claims ''a@b.com'' (Some 0) (Some ''n1'')"
  let ?c = "Some \<lparr>jc_data = sample_jwks, jc_expires = 1600000\<rparr>"
  let ?s0 = "sample_state [sample_user ''a@b.com'' ''active''] []"
  let ?r = "sample_post (sample_token_exp ?j0) ''a@b.com''"
  have now: "now_ms sample_io div 1000 = 1000" by (simp add: sample_io_def)
  have ph: "parse_header sample_platform = map_of sample_headers"
    and pp: "parse_flexi sample_platform = map_of sample_payloads"
    by (simp_all add: sample_platform_def)
  note d9 = sample_decoded[OF sample_header_plain sample_payload_exp999 ph pp, of "''N1''",
      folded sample_token_exp_def]
  have alg: "hdr_alg \<lparr>hdr_alg = ''RS256'', hdr_kid = None\<rparr> = ''RS256''" by simp
  have vc: "validateClaims sample_io ''ext'' ''handoff''
              (sample_claims ''a@b.com'' (Some 999) (Some ''n1'')) = Some TokenExpired"
    by (simp add: validateClaims_def sample_claims_def now)
  have v9: "verifyFlexiJWT_RS256 sample_platform sample_io None (sample_token_exp ?j9)
              ''ext'' ''handoff'' = (Inl TokenExpired, None)"
    by (simp add: verify_decoded[OF d9[THEN conjunct1] d9[THEN conjunct2, THEN conjunct1] alg
            d9[THEN conjunct2, THEN conjunct2]] vc)
  have v0: "verifyFlexiJWT_RS256 sample_platform sample_io cache (sample_token_exp ?j0)
              ''ext'' ''handoff'' = (Inr ?p0, ?c)"
    if "cache = None \<or> cache = ?c" for cache
    unfolding sample_token_exp_def
    by (rule sample_verify[OF sample_header_plain _ sample_payload_exp0 _ _ sample_first_key
              _ _ that])
       (simp_all add: sample_key_def)
  have cfg: "FLEXI_ISS sample_env = ''ext''" "FLEXI_AUD sample_env = ''handoff''"
    by (simp_all add: sample_env_def)
  have io: "insert_fault sample_io = None" "now_ms sample_io = 1000000"
    by (simp_all add: sample_io_def)
  have v: "verifyFlexiJWT_RS256 sample_platform sample_io (st_jwksCache ?s0)
             (sample_token_exp ?j0) (FLEXI_ISS sample_env) (FLEXI_AUD sample_env) = (Inr ?p0, ?c)"
    by (simp add: v0 sample_state_def cfg)
  have body: "rq_json ?r = Body (Some (sample_token_exp ?j0)) (Some ''a@b.com'')"
    "''a@b.com'' \<noteq> []"
    by (simp_all add: sample_post_def)
  have claim: "fp_email ?p0 = Some ''a@b.com''" and jti: "fp_jti ?p0 = Some ''n1''"
    by (simp_all add: sample_claims_def)
  have issued: "rs_status (fst (handleVibeAccess sample_platform sample_env sample_io ?r ?s0)) = 204"
    unfolding handleVibeAccess_verified[OF body(1) verified_nonempty[OF v] body(2) v claim refl]
    by (simp add: jti markJtiSeen_def insert_jwt_seen_def io sample_state_def
          sample_issue_ok[of "''a@b.com''" _ "sample_user ''a@b.com'' ''active''"]
          sample_user_def)
  show ?thesis using now v9 v0[of None] issued by simp
qed

text \<open>
  Claim C7, as amended (the gateway without a valid session). For every request,
  \<open>handleProtected\<close> answers 401 with code \<open>NO_SESSION\<close> and error \<open>Unauthorized\<close> both
  when the cookie header has no cookie of the configured name (or an empty one) and when
  the cookie's token fails \<open>verifyVibeAccessHS256\<close> (bad format, wrong secret, expired),
  and in both cases it has made no call to the upstream origin. The two responses have
  the same status, headers, error and code, and they differ in the \<open>message\<close> of the
  error body: \<open>'No session cookie found'\<close> in the first case, the message of the
  verifier's error in the second (\<open>'Invalid JWT format'\<close>, \<open>'Unsupported algorithm: ...'\<close>,
  \<open>'Invalid signature'\<close>, \<open>'Token expired'\<close>, or that of an exception of the platform). A
  call to the upstream origin is made only for a cookie whose token has verified. For a
  request that the entry point hands to the protected route (a path under the protected
  prefix that is none of the fixed routes, past the origin guard), these are the
  worker's responses, with the state unchanged.
\<close>

theorem protected_route_unauthorized:
  "(parseCookies P (headers_get (rq_headers r) ''Cookie'') (VIBE_COOKIE_NAME env)
      \<in> {None, Some []}
    \<longrightarrow> handleProtected P env w u r =
          (errorResponse ''NO_SESSION'' ''Unauthorized'' 401
             (Some (Literal ''No session cookie found'')) None, [])
        \<and> failure_of (fst (handleProtected P env w u r)) = Some (401, ''NO_SESSION'')
        \<and> (reaches_protected env r
             \<longrightarrow> worker_fetch P env w u r st =
                   (errorResponse ''NO_SESSION'' ''Unauthorized'' 401
                      (Some (Literal ''No session cookie found'')) None, st, [])))
   \<and> (\<forall>token e.
        parseCookies P (headers_get (rq_headers r) ''Cookie'') (VIBE_COOKIE_NAME env)
          = Some token
        \<and> token \<noteq> []
        \<and> verifyVibeAccessHS256 P w token (VIBE_ACCESS_SECRET env) = Inl e
      \<longrightarrow> handleProtected P env w u r =
            (errorResponse ''NO_SESSION'' ''Unauthorized'' 401 (Some (MessageOf e)) None, [])
          \<and> failure_of (fst (handleProtected P env w u r)) = Some (401, ''NO_SESSION'')
          \<and> e \<in> {InvalidJWTFormat, PlatformThrow, InvalidSignature, TokenExpired}
                  \<union> range UnsupportedAlgorithm
          \<and> (reaches_protected env r
               \<longrightarrow> worker_fetch P env w u r st =
                     (errorResponse ''NO_SESSION'' ''Unauthorized'' 401 (Some (MessageOf e))
                        None, st, [])))
   \<and> (\<forall>(r' :: Request) w' u' token e.
        parseCookies P (headers_get (rq_headers r) ''Cookie'') (VIBE_COOKIE_NAME env)
          \<in> {None, Some []}
        \<and> parseCookies P (headers_get (rq_headers r') ''Cookie'') (VIBE_COOKIE_NAME env)
            = Some token
        \<and> token \<noteq> []
        \<and> verifyVibeAccessHS256 P w' token (VIBE_ACCESS_SECRET env) = Inl e
      \<longrightarrow> rs_status (fst (handleProtected P env w u r))
            = rs_status (fst (handleProtected P env w' u' r'))
          \<and> rs_headers (fst (handleProtected P env w u r))
            = rs_headers (fst (handleProtected P env w' u' r'))
          \<and> eb_error (rs_body (fst (handleProtected P env w u r)))
            = eb_error (rs_body (fst (handleProtected P env w' u' r')))
          \<and> eb_code (rs_body (fst (handleProtected P env w u r)))
            = eb_code (rs_body (fst (handleProtected P env w' u' r')))
          \<and> eb_message (rs_body (fst (handleProtected P env w u r)))
            = Some (Literal ''No session cookie found'')
          \<and> eb_message (rs_body (fst (handleProtected P env w' u' r')))
            = Some (MessageOf e)
          \<and> fst (handleProtected P env w u r) \<noteq> fst (handleProtected P env w' u' r'))
   \<and> (snd (handleProtected P env w u r) \<noteq> []
      \<longrightarrow> (\<exists>token payload.
            parseCookies P (headers_get (rq_headers r) ''Cookie'') (VIBE_COOKIE_NAME env)
              = Some token
            \<and> token \<noteq> []
            \<and> verifyVibeAccessHS256 P w token (VIBE_ACCESS_SECRET env) = Inr payload))"
proof (intro conjI allI impI)
  {
    assume a: "parseCookies P (headers_get (rq_headers r) ''Cookie'') (VIBE_COOKIE_NAME env)
                 \<in> {None, Some []}"
    note h = handleProtected_no_cookie[OF a, of w u]
    show "handleProtected P env w u r =
            (errorResponse ''NO_SESSION'' ''Unauthorized'' 401
               (Some (Literal ''No session cookie found'')) None, [])"
      by (rule h)
    show "failure_of (fst (handleProtected P env w u r)) = Some (401, ''NO_SESSION'')"
      by (simp add: h)
    assume route: "reaches_protected env r"
    show "worker_fetch P env w u r st =
            (errorResponse ''NO_SESSION'' ''Unauthorized'' 401
               (Some (Literal ''No session cookie found'')) None, st, [])"
      by (simp add: worker_fetch_protected[OF route] h)
  }
  {
    fix token e
    assume a: "parseCookies P (headers_get (rq_headers r) ''Cookie'') (VIBE_COOKIE_NAME env)
                 = Some token
               \<and> token \<noteq> []
               \<and> verifyVibeAccessHS256 P w token (VIBE_ACCESS_SECRET env) = Inl e"
    then have h: "handleProtected P env w u r =
           (errorResponse ''NO_SESSION'' ''Unauthorized'' 401 (Some (MessageOf e)) None, [])"
      using handleProtected_bad_cookie[of P r env token w e u] by simp
    show "handleProtected P env w u r =
            (errorResponse ''NO_SESSION'' ''Unauthorized'' 401 (Some (MessageOf e)) None, [])"
      by (rule h)
    show "failure_of (fst (handleProtected P env w u r)) = Some (401, ''NO_SESSION'')"
      by (simp add: h)
    show "e \<in> {InvalidJWTFormat, PlatformThrow, InvalidSignature, TokenExpired}
                \<union> range UnsupportedAlgorithm"
      using a by (intro verifyVibeAccessHS256_errors[of P w token "VIBE_ACCESS_SECRET env"]) simp
    assume route: "reaches_protected env r"
    show "worker_fetch P env w u r st =
            (errorResponse ''NO_SESSION'' ''Unauthorized'' 401 (Some (MessageOf e)) None, st, [])"
      by (simp add: worker_fetch_protected[OF route] h)
  }
  {
    fix r' :: Request and w' u' token e
    assume a: "parseCookies P (headers_get (rq_headers r) ''Cookie'') (VIBE_COOKIE_NAME env)
                 \<in> {None, Some []}
               \<and> parseCookies P (headers_get (rq_headers r') ''Cookie'') (VIBE_COOKIE_NAME env)
                   = Some token
               \<and> token \<noteq> []
               \<and> verifyVibeAccessHS256 P w' token (VIBE_ACCESS_SECRET env) = Inl e"
    note h = handleProtected_no_cookie[OF a[THEN conjunct1], of w u]
    from a have h': "handleProtected P env w' u' r' =
           (errorResponse ''NO_SESSION'' ''Unauthorized'' 401 (Some (MessageOf e)) None, [])"
      using handleProtected_bad_cookie[of P r' env token w' e u'] by simp
    show "rs_status (fst (handleProtected P env w u r))
            = rs_status (fst (handleProtected P env w' u' r'))"
      and "rs_headers (fst (handleProtected P env w u r))
            = rs_headers (fst (handleProtected P env w' u' r'))"
      and "eb_error (rs_body (fst (handleProtected P env w u r)))
            = eb_error (rs_body (fst (handleProtected P env w' u' r')))"
      and "eb_code (rs_body (fst (handleProtected P env w u r)))
            = eb_code (rs_body (fst (handleProtected P env w' u' r')))"
      and "eb_message (rs_body (fst (handleProtected P env w u r)))
            = Some (Literal ''No session cookie found'')"
      and "eb_message (rs_body (fst (handleProtected P env w' u' r')))
            = Some (MessageOf e)"
      and "fst (handleProtected P env w u r) \<noteq> fst (handleProtected P env w' u' r')"
      unfolding h h' by (simp_all add: errorResponse_def)
  }
  {
    assume "snd (handleProtected P env w u r) \<noteq> []"
    then show "\<exists>token payload.
            parseCookies P (headers_get (rq_headers r) ''Cookie'') (VIBE_COOKIE_NAME env)
              = Some token
            \<and> token \<noteq> []
            \<and> verifyVibeAccessHS256 P w token (VIBE_ACCESS_SECRET env) = Inr payload"
      by (rule handleProtected_calls)
  }
qed

text \<open>
  Claim C7 as stated fails. On the sample deployment \<open>GET /app/dashboard\<close> without a
  cookie and with the cookie of a token signed under another secret are both answered
  401 \<open>NO_SESSION\<close>, but with different bodies: the message is \<open>'No session cookie found'\<close>
  in the first and \<open>'Invalid signature'\<close> in the second. And a 401 \<open>NO_SESSION\<close> is also the
  answer, after the upstream call has been made, when the session is valid and the
  proxied fetch rejects.
\<close>

theorem protected_route_unauthorized_counterexample:
  "rs_body (fst (worker_fetch sample_platform sample_env sample_io sample_upstream
                   (sample_get ''/app/dashboard'' []) (sample_state [] [])))
     = ErrorBody ''Unauthorized'' ''NO_SESSION'' (Some (Literal ''No session cookie found''))
   \<and> rs_body (fst (worker_fetch sample_platform sample_env sample_io sample_upstream
                     (sample_get ''/app/dashboard'' [(''Cookie'', sample_forged_cookie)])
                     (sample_state [] [])))
     = ErrorBody ''Unauthorized'' ''NO_SESSION'' (Some (MessageOf InvalidSignature))
   \<and> fst (worker_fetch sample_platform sample_env sample_io sample_upstream
            (sample_get ''/app/dashboard'' []) (sample_state [] []))
     \<noteq> fst (worker_fetch sample_platform sample_env sample_io sample_upstream
              (sample_get ''/app/dashboard'' [(''Cookie'', sample_forged_cookie)])
              (sample_state [] []))
   \<and> failure_of (fst (worker_fetch sample_platform sample_env sample_io
                        (sample_upstream\<lparr>proxy_fetch := None\<rparr>)
                        (sample_get ''/app/dashboard'' [(''Cookie'', sample_cookie)])
                        (sample_state [] [])))
     = Some (401, ''NO_SESSION'')
   \<and> snd (snd (worker_fetch sample_platform sample_env sample_io
                  (sample_upstream\<lparr>proxy_fetch := None\<rparr>)
                  (sample_get ''/app/dashboard'' [(''Cookie'', sample_cookie)])
                  (sample_state [] [])))
     = [ProxyCall ''GET'' ''https://app.example.com/app/dashboard''
          [(''Cookie'', sample_cookie), (''X-User-Id'', ''u1''),
           (''X-User-Email'', ''a@b.com''), (''X-User-Roles'', ''viewer'')] []]"
proof -
  let ?r0 = "sample_get ''/app/dashboard'' []"
  let ?r1 = "sample_get ''/app/dashboard'' [(''Cookie'', sample_forged_cookie)]"
  let ?r2 = "sample_get ''/app/dashboard'' [(''Cookie'', sample_cookie)]"
  let ?s0 = "sample_state [] []"
  let ?u = "sample_upstream\<lparr>proxy_fetch := None\<rparr>"
  have route: "reaches_protected sample_env (sample_get ''/app/dashboard'' hs)"
    if "headers_get hs ''Origin'' = None" for hs
    using that
    by (simp add: reaches_protected_def sample_get_def sample_env_def handleCORS_def
        startsWith_def)
  have r0: "reaches_protected sample_env ?r0" and r1: "reaches_protected sample_env ?r1"
    and r2: "reaches_protected sample_env ?r2"
    by (rule route, simp add: headers_get_def)+
  have none: "parseCookies sample_platform (headers_get (rq_headers ?r0) ''Cookie'')
                (VIBE_COOKIE_NAME sample_env) \<in> {None, Some []}"
    by (simp add: sample_get_def headers_get_def parseCookies_def)
  have forged: "parseCookies sample_platform (headers_get (rq_headers ?r1) ''Cookie'')
                  (VIBE_COOKIE_NAME sample_env) = Some sample_forged_token"
    by (simp add: sample_get_def headers_get_def sample_env_def sample_forged_cookie_parsed)
  have ftok: "sample_forged_token \<noteq> []"
    by (simp add: sample_forged_token_def)
  have bad: "verifyVibeAccessHS256 sample_platform sample_io sample_forged_token
               (VIBE_ACCESS_SECRET sample_env) = Inl InvalidSignature"
    by (simp add: sample_forged_verify sample_env_def)
  have a: "worker_fetch sample_platform sample_env sample_io sample_upstream ?r0 ?s0
           = (errorResponse ''NO_SESSION'' ''Unauthorized'' 401
                (Some (Literal ''No session cookie found'')) None, ?s0, [])"
    unfolding worker_fetch_protected[OF r0] handleProtected_no_cookie[OF none]
    by simp
  have b: "worker_fetch sample_platform sample_env sample_io sample_upstream ?r1 ?s0
           = (errorResponse ''NO_SESSION'' ''Unauthorized'' 401
                (Some (MessageOf InvalidSignature)) None, ?s0, [])"
    unfolding worker_fetch_protected[OF r1] handleProtected_bad_cookie[OF forged ftok bad]
    by simp
  have some: "parseCookies sample_platform (headers_get (rq_headers ?r2) ''Cookie'')
                  (VIBE_COOKIE_NAME sample_env) = Some sample_session_token"
    by (simp add: sample_get_def headers_get_def sample_env_def sample_cookie_parsed)
  have tok: "sample_session_token \<noteq> []"
    by (simp add: sample_session_token_def)
  have good: "verifyVibeAccessHS256 sample_platform sample_io sample_session_token
               (VIBE_ACCESS_SECRET sample_env) = Inr sample_session"
    by (simp add: sample_session_verify sample_env_def sample_io_def)
  have c: "handleProtected sample_platform sample_env sample_io ?u ?r2
           = (errorResponse ''NO_SESSION'' ''Unauthorized'' 401
                (Some (MessageOf PlatformThrow)) None,
              [ProxyCall ''GET'' ''https://app.example.com/app/dashboard''
                 [(''Cookie'', sample_cookie), (''X-User-Id'', ''u1''),
                  (''X-User-Email'', ''a@b.com''), (''X-User-Roles'', ''viewer'')] []])"
    unfolding handleProtected_def Let_def some
    by (simp add: tok good)
       (simp add: sample_env_def sample_get_def sample_session_def headers_set_def)
  have c': "worker_fetch sample_platform sample_env sample_io ?u ?r2 ?s0
           = (errorResponse ''NO_SESSION'' ''Unauthorized'' 401
                (Some (MessageOf PlatformThrow)) None, ?s0,
              [ProxyCall ''GET'' ''https://app.example.com/app/dashboard''
                 [(''Cookie'', sample_cookie), (''X-User-Id'', ''u1''),
                  (''X-User-Email'', ''a@b.com''), (''X-User-Roles'', ''viewer'')] []])"
    unfolding worker_fetch_protected[OF r2] c by simp
  show ?thesis
    unfolding a b c' by (simp add: errorResponse_def failure_of_def)
qed

text \<open>
  \<open>GET /app/dashboard\<close> on the sample deployment: without a cookie, with the sample
  session token under another secret, and with the same token a second after its expiry.
\<close>

theorem protected_route_unauthorized_witness:
  "worker_fetch sample_platform sample_env sample_io sample_upstream
     (sample_get ''/app/dashboard'' []) (sample_state [] [])
   = (errorResponse ''NO_SESSION'' ''Unauthorized'' 401
        (Some (Literal ''No session cookie found'')) None, sample_state [] [], [])
   \<and> worker_fetch sample_platform (sample_env\<lparr>VIBE_ACCESS_SECRET := ''other''\<rparr>) sample_io
       sample_upstream
       (sample_get ''/app/dashboard'' [(''Cookie'', sample_cookie)])
       (sample_state [] [])
   = (errorResponse ''NO_SESSION'' ''Unauthorized'' 401 (Some (MessageOf InvalidSignature)) None,
      sample_state [] [], [])
   \<and> worker_fetch sample_platform (sample_env\<lparr>VIBE_ACCESS_SECRET := ''s3cret''\<rparr>)
       (sample_io\<lparr>now_ms := 1601000\<rparr>) sample_upstream
       (sample_get ''/app/dashboard'' [(''Cookie'', sample_cookie)])
       (sample_state [] [])
   = (errorResponse ''NO_SESSION'' ''Unauthorized'' 401 (Some (MessageOf TokenExpired)) None,
      sample_state [] [], [])"
proof -
  let ?c = "sample_cookie"
  let ?r0 = "sample_get ''/app/dashboard'' []"
  let ?r1 = "sample_get ''/app/dashboard'' [(''Cookie'', ?c)]"
  let ?s0 = "sample_state [] []"
  have none: "parseCookies sample_platform (headers_get (rq_headers ?r0) ''Cookie'')
                (VIBE_COOKIE_NAME sample_env) \<in> {None, Some []}"
    by (simp add: sample_get_def headers_get_def parseCookies_def)
  have some: "parseCookies sample_platform (headers_get (rq_headers ?r1) ''Cookie'')
                (VIBE_COOKIE_NAME (sample_env\<lparr>VIBE_ACCESS_SECRET := secret\<rparr>))
              = Some sample_session_token" for secret
    by (simp add: sample_get_def headers_get_def sample_env_def sample_cookie_parsed)
  have tok: "sample_session_token \<noteq> []"
    by (simp add: sample_session_token_def)
  have bad: "verifyVibeAccessHS256 sample_platform sample_io sample_session_token
               (VIBE_ACCESS_SECRET (sample_env\<lparr>VIBE_ACCESS_SECRET := ''other''\<rparr>))
             = Inl InvalidSignature"
    by (simp add: sample_session_verify)
  have old: "verifyVibeAccessHS256 sample_platform (sample_io\<lparr>now_ms := 1601000\<rparr>)
               sample_session_token
               (VIBE_ACCESS_SECRET (sample_env\<lparr>VIBE_ACCESS_SECRET := ''s3cret''\<rparr>))
             = Inl TokenExpired"
    by (simp add: sample_session_verify)
  note a = protected_route_unauthorized[where env = sample_env and r = ?r0
      and P = sample_platform and w = sample_io and u = sample_upstream and st = ?s0,
      THEN conjunct1, rule_format, OF none, THEN conjunct2, THEN conjunct2, rule_format,
      OF sample_reaches_protected(2)]
  note b = protected_route_unauthorized[where env = "sample_env\<lparr>VIBE_ACCESS_SECRET := ''other''\<rparr>"
      and r = ?r1 and P = sample_platform and w = sample_io and u = sample_upstream
      and st = ?s0,
      THEN conjunct2, THEN conjunct1, rule_format, OF conjI[OF some conjI[OF tok bad]],
      THEN conjunct2, THEN conjunct2, THEN conjunct2, rule_format,
      OF sample_reaches_protected(1)]
  note c = protected_route_unauthorized[where env = "sample_env\<lparr>VIBE_ACCESS_SECRET := ''s3cret''\<rparr>"
      and r = ?r1 and P = sample_platform and w = "sample_io\<lparr>now_ms := 1601000\<rparr>"
      and u = sample_upstream and st = ?s0,
      THEN conjunct2, THEN conjunct1, rule_format, OF conjI[OF some conjI[OF tok old]],
      THEN conjunct2, THEN conjunct2, THEN conjunct2, rule_format,
      OF sample_reaches_protected(1)]
  show ?thesis by (intro conjI a b c)
qed

text \<open>
  Claim C8 (a request that fails before the replay guard records nothing). An exchange
  whose body is not JSON or lacks \<open>jwt\<close> or \<open>email\<close> is answered 400 \<open>INVALID_BODY\<close>, one
  whose assertion does not verify 401 \<open>JWT_INVALID\<close>, one whose e-mail addresses differ
  401 \<open>EMAIL_MISMATCH\<close>, and each leaves both tables as they were. Conversely, when an
  exchange changes the tables, its assertion has verified, the e-mail addresses agree,
  the assertion carries a non-empty nonce that was not recorded, and the change is the
  one new row for that nonce.
\<close>

theorem early_failure_keeps_replay_table:
  "(rq_json r = InvalidJson
      \<or> (\<exists>b e. rq_json r = Body b e \<and> (\<not> truthy_str b \<or> \<not> truthy_str e))
     \<longrightarrow> failure_of (fst (handleVibeAccess P env w r st)) = Some (400, ''INVALID_BODY'')
         \<and> st_db (snd (handleVibeAccess P env w r st)) = st_db st)
   \<and> (\<forall>jwt email err c.
         rq_json r = Body (Some jwt) (Some email) \<and> jwt \<noteq> [] \<and> email \<noteq> []
         \<and> verifyFlexiJWT_RS256 P w (st_jwksCache st) jwt (FLEXI_ISS env) (FLEXI_AUD env)
             = (Inl err, c)
     \<longrightarrow> failure_of (fst (handleVibeAccess P env w r st)) = Some (401, ''JWT_INVALID'')
         \<and> st_db (snd (handleVibeAccess P env w r st)) = st_db st)
   \<and> (\<forall>jwt email p c pe.
         rq_json r = Body (Some jwt) (Some email) \<and> jwt \<noteq> [] \<and> email \<noteq> []
         \<and> verifyFlexiJWT_RS256 P w (st_jwksCache st) jwt (FLEXI_ISS env) (FLEXI_AUD env)
             = (Inr p, c)
         \<and> fp_email p = Some pe \<and> toLowerCase P pe \<noteq> toLowerCase P email
     \<longrightarrow> failure_of (fst (handleVibeAccess P env w r st)) = Some (401, ''EMAIL_MISMATCH'')
         \<and> st_db (snd (handleVibeAccess P env w r st)) = st_db st)
   \<and> (st_db (snd (handleVibeAccess P env w r st)) \<noteq> st_db st
     \<longrightarrow> (\<exists>jwt email p c pe j.
           rq_json r = Body (Some jwt) (Some email) \<and> jwt \<noteq> [] \<and> email \<noteq> []
           \<and> verifyFlexiJWT_RS256 P w (st_jwksCache st) jwt (FLEXI_ISS env) (FLEXI_AUD env)
               = (Inr p, c)
           \<and> fp_email p = Some pe \<and> toLowerCase P pe = toLowerCase P email
           \<and> fp_jti p = Some j \<and> j \<noteq> [] \<and> \<not> jti_recorded (st_db st) j
           \<and> st_db (snd (handleVibeAccess P env w r st))
               = (st_db st)\<lparr>jwt_seen := jwt_seen (st_db st) @
                    [\<lparr>seen_jti = j, seen_at = now_ms w div 1000\<rparr>]\<rparr>))"
proof (intro conjI allI impI)
  assume "rq_json r = InvalidJson
      \<or> (\<exists>b e. rq_json r = Body b e \<and> (\<not> truthy_str b \<or> \<not> truthy_str e))"
  from handleVibeAccess_bad_body[OF this, of P env w st]
  show "failure_of (fst (handleVibeAccess P env w r st)) = Some (400, ''INVALID_BODY'')"
    and "st_db (snd (handleVibeAccess P env w r st)) = st_db st"
    by simp_all
next
  fix jwt email err c
  assume a: "rq_json r = Body (Some jwt) (Some email) \<and> jwt \<noteq> [] \<and> email \<noteq> []
         \<and> verifyFlexiJWT_RS256 P w (st_jwksCache st) jwt (FLEXI_ISS env) (FLEXI_AUD env)
             = (Inl err, c)"
  then have h: "handleVibeAccess P env w r st =
           (errorResponse ''JWT_INVALID'' ''Invalid JWT'' 401 (Some (MessageOf err))
              (request_origin r), st\<lparr>st_jwksCache := c\<rparr>)"
    using handleVibeAccess_rejected[of r jwt email P w st env err c] by simp
  show "failure_of (fst (handleVibeAccess P env w r st)) = Some (401, ''JWT_INVALID'')"
    and "st_db (snd (handleVibeAccess P env w r st)) = st_db st"
    by (simp_all add: h)
next
  fix jwt email p c pe
  assume a: "rq_json r = Body (Some jwt) (Some email) \<and> jwt \<noteq> [] \<and> email \<noteq> []
         \<and> verifyFlexiJWT_RS256 P w (st_jwksCache st) jwt (FLEXI_ISS env) (FLEXI_AUD env)
             = (Inr p, c)
         \<and> fp_email p = Some pe \<and> toLowerCase P pe \<noteq> toLowerCase P email"
  then have h: "handleVibeAccess P env w r st =
           (errorResponse ''EMAIL_MISMATCH'' ''Email mismatch'' 401
              (Some (Literal ''Email in body does not match JWT email claim''))
              (request_origin r), st\<lparr>st_jwksCache := c\<rparr>)"
    using handleVibeAccess_mismatch[of r jwt email P w st env p c pe] by simp
  show "failure_of (fst (handleVibeAccess P env w r st)) = Some (401, ''EMAIL_MISMATCH'')"
    and "st_db (snd (handleVibeAccess P env w r st)) = st_db st"
    by (simp_all add: h)
next
  assume ch: "st_db (snd (handleVibeAccess P env w r st)) \<noteq> st_db st"
  from db_changed_cases[OF ch] obtain jwt email p c pe j where
    f: "rq_json r = Body (Some jwt) (Some email)" "jwt \<noteq> []" "email \<noteq> []"
       "verifyFlexiJWT_RS256 P w (st_jwksCache st) jwt (FLEXI_ISS env) (FLEXI_AUD env)
          = (Inr p, c)"
       "fp_email p = Some pe" "toLowerCase P pe = toLowerCase P email"
       "fp_jti p = Some j" "j \<noteq> []"
       "st_db (snd (handleVibeAccess P env w r st)) = snd (markJtiSeen w (st_db st) j)"
    by blast
  from ch f(9) have "snd (markJtiSeen w (st_db st) j) \<noteq> st_db st" by simp
  from markJtiSeen_changedD[OF this] f
  show "\<exists>jwt email p c pe j.
           rq_json r = Body (Some jwt) (Some email) \<and> jwt \<noteq> [] \<and> email \<noteq> []
           \<and> verifyFlexiJWT_RS256 P w (st_jwksCache st) jwt (FLEXI_ISS env) (FLEXI_AUD env)
               = (Inr p, c)
           \<and> fp_email p = Some pe \<and> toLowerCase P pe = toLowerCase P email
           \<and> fp_jti p = Some j \<and> j \<noteq> [] \<and> \<not> jti_recorded (st_db st) j
           \<and> st_db (snd (handleVibeAccess P env w r st))
               = (st_db st)\<lparr>jwt_seen := jwt_seen (st_db st) @
                    [\<lparr>seen_jti = j, seen_at = now_ms w div 1000\<rparr>]\<rparr>"
    by auto
qed

text \<open>
  The sample deployment: the assertion presented with a wrong e-mail address is answered
  401 and nothing is recorded; presented again with the right address it succeeds (204).
\<close>

theorem early_failure_keeps_replay_table_witness:
  "failure_of (fst (handleVibeAccess sample_platform sample_env sample_io
                      (sample_post sample_token_n1 ''x@y.com'')
                      (sample_state [sample_user ''a@b.com'' ''active''] [])))
     = Some (401, ''EMAIL_MISMATCH'')
   \<and> st_db (snd (handleVibeAccess sample_platform sample_env sample_io
                      (sample_post sample_token_n1 ''x@y.com'')
                      (sample_state [sample_user ''a@b.com'' ''active''] [])))
     = st_db (sample_state [sample_user ''a@b.com'' ''active''] [])
   \<and> rs_status (fst (handleVibeAccess sample_platform sample_env sample_io
                      (sample_post sample_token_n1 ''a@b.com'')
                      (snd (handleVibeAccess sample_platform sample_env sample_io
                              (sample_post sample_token_n1 ''x@y.com'')
                              (sample_state [sample_user ''a@b.com'' ''active''] [])))))
     = 204"
proof -
  let ?s0 = "sample_state [sample_user ''a@b.com'' ''active''] []"
  let ?bad = "sample_post sample_token_n1 ''x@y.com''"
  let ?good = "sample_post sample_token_n1 ''a@b.com''"
  let ?p = "sample_claims ''a@b.com'' (Some 2000) (Some ''n1'')"
  let ?c = "Some \<lparr>jc_data = sample_jwks, jc_expires = 1600000\<rparr>"
  have cfg: "FLEXI_ISS sample_env = ''ext''" "FLEXI_AUD sample_env = ''handoff''"
    by (simp_all add: sample_env_def)
  have v1: "verifyFlexiJWT_RS256 sample_platform sample_io (st_jwksCache ?s0) sample_token_n1
              (FLEXI_ISS sample_env) (FLEXI_AUD sample_env) = (Inr ?p, ?c)"
    by (simp add: sample_verify_n1 sample_state_def cfg)
  have bad: "rq_json ?bad = Body (Some sample_token_n1) (Some ''x@y.com'')"
    and good: "rq_json ?good = Body (Some sample_token_n1) (Some ''a@b.com'')"
    by (simp_all add: sample_post_def)
  have pe: "fp_email ?p = Some ''a@b.com''" by (simp add: sample_claims_def)
  have ne: "toLowerCase sample_platform ''a@b.com'' \<noteq> toLowerCase sample_platform ''x@y.com''"
    by (simp add: sample_platform_def ascii_lower_def)
  have tok: "sample_token_n1 \<noteq> []" by (rule verified_nonempty[OF v1])
  have nb: "''x@y.com'' \<noteq> []" and ng: "''a@b.com'' \<noteq> []" by simp_all
  have pre: "rq_json ?bad = Body (Some sample_token_n1) (Some ''x@y.com'')
         \<and> sample_token_n1 \<noteq> [] \<and> ''x@y.com'' \<noteq> []
         \<and> verifyFlexiJWT_RS256 sample_platform sample_io (st_jwksCache ?s0) sample_token_n1
              (FLEXI_ISS sample_env) (FLEXI_AUD sample_env) = (Inr ?p, ?c)
         \<and> fp_email ?p = Some ''a@b.com''
         \<and> toLowerCase sample_platform ''a@b.com'' \<noteq> toLowerCase sample_platform ''x@y.com''"
    using bad tok v1 pe ne by simp
  from early_failure_keeps_replay_table[of ?bad sample_platform sample_env sample_io ?s0] pre
  have first: "failure_of (fst (handleVibeAccess sample_platform sample_env sample_io ?bad ?s0))
                 = Some (401, ''EMAIL_MISMATCH'')
               \<and> st_db (snd (handleVibeAccess sample_platform sample_env sample_io ?bad ?s0))
                 = st_db ?s0"
    by blast
  have s1: "snd (handleVibeAccess sample_platform sample_env sample_io ?bad ?s0)
            = ?s0\<lparr>st_jwksCache := ?c\<rparr>"
    unfolding handleVibeAccess_mismatch[OF bad tok nb v1 pe ne] by simp
  have v2: "verifyFlexiJWT_RS256 sample_platform sample_io (st_jwksCache (?s0\<lparr>st_jwksCache := ?c\<rparr>))
              sample_token_n1 (FLEXI_ISS sample_env) (FLEXI_AUD sample_env) = (Inr ?p, ?c)"
    by (simp add: sample_verify_n1 cfg)
  have jti: "fp_jti ?p = Some ''n1''" by (simp add: sample_claims_def)
  have io: "insert_fault sample_io = None" "now_ms sample_io = 1000000"
    by (simp_all add: sample_io_def)
  have second: "rs_status (fst (handleVibeAccess sample_platform sample_env sample_io ?good
                                  (?s0\<lparr>st_jwksCache := ?c\<rparr>))) = 204"
    unfolding handleVibeAccess_verified[OF good tok ng v2 pe refl]
    by (simp add: jti markJtiSeen_def insert_jwt_seen_def io sample_state_def
          sample_issue_ok[of "''a@b.com''" _ "sample_user ''a@b.com'' ''active''"]
          sample_user_def)
  show ?thesis using first second by (simp add: s1)
qed

text \<open>
  Claim C9 (which e-mail address is compared, looked up and issued). For an exchange
  whose assertion has verified with the e-mail claim \<open>pe\<close>: the response is 401
  \<open>EMAIL_MISMATCH\<close> exactly when \<open>pe\<close> and the \<open>email\<close> of the body differ after
  \<open>toLowerCase\<close>. When they agree and the exchange is neither a replay nor an internal
  error, the user record is the row of \<open>sso_users\<close> whose \<open>email\<close> equals the body's
  \<open>email\<close> byte for byte: no such row gives 403 \<open>USER_NOT_ALLOWED\<close>, a suspended one 403
  \<open>USER_SUSPENDED\<close>, and otherwise the response is 204 with the cookie holding the token
  signed over the row's \<open>user_id\<close>, \<open>email\<close> and \<open>roles\<close>. The cookie is the one
  \<open>Set-Cookie\<close> header after the CORS headers; its value is the encoded cookie name, \<open>=\<close>,
  the token as it is (every character of a token is unreserved), and the attributes
  \<open>Domain\<close> (for a domain that is not empty), \<open>Max-Age=600\<close>, \<open>Path=/\<close>, \<open>HttpOnly\<close>,
  \<open>Secure\<close> and \<open>SameSite=None\<close>. The second part of the token is the base64url of
  \<open>JSON.stringify\<close> of the payload with the row's \<open>email\<close>; and where \<open>JSON.parse\<close> reads
  back what \<open>JSON.stringify\<close> wrote, \<open>verifyVibeAccessHS256\<close> returns that payload for the
  token until it expires.
\<close>

theorem email_check_and_directory_lookup:
  assumes body: "rq_json r = Body (Some jwt) (Some email)" "email \<noteq> []"
    and verified:
      "verifyFlexiJWT_RS256 P w (st_jwksCache st) jwt (FLEXI_ISS env) (FLEXI_AUD env)
         = (Inr p, c)"
    and claim: "fp_email p = Some pe"
  shows "(failure_of (fst (handleVibeAccess P env w r st)) = Some (401, ''EMAIL_MISMATCH'')
            \<longleftrightarrow> toLowerCase P pe \<noteq> toLowerCase P email)
       \<and> (toLowerCase P pe = toLowerCase P email
            \<and> failure_of (fst (handleVibeAccess P env w r st))
                \<notin> {Some (409, ''REPLAYED_JTI''), Some (500, ''INTERNAL_ERROR'')}
          \<longrightarrow> (case find (\<lambda>u. ur_email u = email) (sso_users (st_db st)) of
                 None \<Rightarrow>
                   failure_of (fst (handleVibeAccess P env w r st))
                     = Some (403, ''USER_NOT_ALLOWED'')
               | Some user \<Rightarrow>
                   if ur_status user = ''suspended''
                   then failure_of (fst (handleVibeAccess P env w r st))
                          = Some (403, ''USER_SUSPENDED'')
                   else (\<exists>token.
                          ur_email user = email
                          \<and> signVibeAccessHS256 P w
                              \<lparr>vi_iss = VIBE_ISS env, vi_aud = VIBE_AUD env,
                               vi_sub = ur_user_id user, vi_email = ur_email user,
                               vi_roles = ur_roles user\<rparr> (VIBE_ACCESS_SECRET env) 600
                              = Inr token
                          \<and> fst (handleVibeAccess P env w r st) =
                              \<lparr>rs_status = 204,
                               rs_headers =
                                 setCookie (cors_headers (request_origin r))
                                   (VIBE_COOKIE_NAME env) token
                                   \<lparr>co_domain = Some (VIBE_COOKIE_DOMAIN env),
                                    co_maxAge = Some 600, co_path = Some ''/'',
                                    co_httpOnly = Some True, co_secure = Some True,
                                    co_sameSite = Some NoneSite\<rparr>,
                               rs_body = NoBody\<rparr>
                          \<and> rs_headers (fst (handleVibeAccess P env w r st)) =
                              cors_headers (request_origin r)
                              @ [(''Set-Cookie'',
                                  encodeURIComponent (VIBE_COOKIE_NAME env) @ ''='' @ token
                                  @ (if VIBE_COOKIE_DOMAIN env \<noteq> []
                                     then ''; Domain='' @ VIBE_COOKIE_DOMAIN env else [])
                                  @ ''; Max-Age=600; Path=/; HttpOnly; Secure; SameSite=None'')]
                          \<and> (let full = \<lparr>vp_iss = VIBE_ISS env, vp_aud = VIBE_AUD env,
                                          vp_sub = ur_user_id user, vp_email = ur_email user,
                                          vp_roles = ur_roles user,
                                          vp_exp = now_ms w div 1000 + 600,
                                          vp_iat = now_ms w div 1000\<rparr>
                             in (\<exists>h p s. split_on CHR ''.'' token = [h, p, s]
                                    \<and> base64UrlDecode p = Some (stringify_vibe P full))
                                \<and> (\<forall>h (w2 :: io). parse_vibe P (stringify_vibe P full) = Some full
                                      \<and> parse_header P hs256_header_json = Some h
                                      \<and> hdr_alg h = ''HS256''
                                      \<and> now_ms w2 div 1000 \<le> now_ms w div 1000 + 600
                                    \<longrightarrow> verifyVibeAccessHS256 P w2 token
                                          (VIBE_ACCESS_SECRET env) = Inr full)))))"
proof -
  note nonempty = verified_nonempty[OF verified]
  let ?H = "handleVibeAccess P env w r st"
  show ?thesis
  proof (cases "toLowerCase P pe = toLowerCase P email")
    case False
    then show ?thesis
      by (simp add: handleVibeAccess_mismatch[OF body(1) nonempty body(2) verified claim False])
  next
    case True
    note hv = handleVibeAccess_verified[OF body(1) nonempty body(2) verified claim True]
    have issue: "\<exists>s. sso_users (st_db s) = sso_users (st_db st)
                   \<and> fst ?H = fst (issueSession P env w (request_origin r) email s)"
      if "failure_of (fst ?H) \<notin> {Some (409, ''REPLAYED_JTI''), Some (500, ''INTERNAL_ERROR'')}"
    proof (cases "truthy_str (fp_jti p)")
      case False
      then have "?H = issueSession P env w (request_origin r) email (st\<lparr>st_jwksCache := c\<rparr>)"
        unfolding hv by (auto simp: truthy_str_def split: option.splits)
      then show ?thesis by (intro exI[of _ "st\<lparr>st_jwksCache := c\<rparr>"]) simp
    next
      case t: True
      then obtain j where j: "fp_jti p = Some j" "j \<noteq> []"
        by (auto simp: truthy_str_def split: option.splits)
      obtain res db' where m: "markJtiSeen w (st_db st) j = (res, db')"
        by (cases "markJtiSeen w (st_db st) j")
      have users: "sso_users db' = sso_users (st_db st)"
        using m by (auto simp: markJtiSeen_def insert_jwt_seen_def split: option.splits if_splits)
      have "res = Inr True"
        using that unfolding hv by (cases res) (auto simp: j m split: if_splits)
      then have "?H = issueSession P env w (request_origin r) email
                        (st\<lparr>st_jwksCache := c, st_db := db'\<rparr>)"
        unfolding hv by (simp add: j m)
      then show ?thesis using users
        by (intro exI[of _ "st\<lparr>st_jwksCache := c, st_db := db'\<rparr>"]) simp
    qed
    have not_mismatch: "failure_of (fst ?H) \<noteq> Some (401, ''EMAIL_MISMATCH'')"
    proof (cases "failure_of (fst ?H) \<in> {Some (409, ''REPLAYED_JTI''), Some (500, ''INTERNAL_ERROR'')}")
      case True
      then show ?thesis by auto
    next
      case False
      from issue[OF False] obtain s where
        "fst ?H = fst (issueSession P env w (request_origin r) email s)" by blast
      then show ?thesis
        using issueSession_outcomes[of P env w "request_origin r" email s] by auto
    qed
    have lookup: "(case find (\<lambda>u. ur_email u = email) (sso_users (st_db st)) of
                 None \<Rightarrow> failure_of (fst ?H) = Some (403, ''USER_NOT_ALLOWED'')
               | Some user \<Rightarrow>
                   if ur_status user = ''suspended''
                   then failure_of (fst ?H) = Some (403, ''USER_SUSPENDED'')
                   else (\<exists>token.
                          ur_email user = email
                          \<and> signVibeAccessHS256 P w
                              \<lparr>vi_iss = VIBE_ISS env, vi_aud = VIBE_AUD env,
                               vi_sub = ur_user_id user, vi_email = ur_email user,
                               vi_roles = ur_roles user\<rparr> (VIBE_ACCESS_SECRET env) 600
                              = Inr token
                          \<and> fst ?H =
                              \<lparr>rs_status = 204,
                               rs_headers =
                                 setCookie (cors_headers (request_origin r))
                                   (VIBE_COOKIE_NAME env) token
                                   \<lparr>co_domain = Some (VIBE_COOKIE_DOMAIN env),
                                    co_maxAge = Some 600, co_path = Some ''/'',
                                    co_httpOnly = Some True, co_secure = Some True,
                                    co_sameSite = Some NoneSite\<rparr>,
                               rs_body = NoBody\<rparr>
                          \<and> rs_headers (fst ?H) =
                              cors_headers (request_origin r)
                              @ [(''Set-Cookie'',
                                  encodeURIComponent (VIBE_COOKIE_NAME env) @ ''='' @ token
                                  @ (if VIBE_COOKIE_DOMAIN env \<noteq> []
                                     then ''; Domain='' @ VIBE_COOKIE_DOMAIN env else [])
                                  @ ''; Max-Age=600; Path=/; HttpOnly; Secure; SameSite=None'')]
                          \<and> (let full = \<lparr>vp_iss = VIBE_ISS env, vp_aud = VIBE_AUD env,
                                          vp_sub = ur_user_id user, vp_email = ur_email user,
                                          vp_roles = ur_roles user,
                                          vp_exp = now_ms w div 1000 + 600,
                                          vp_iat = now_ms w div 1000\<rparr>
                             in (\<exists>h p s. split_on CHR ''.'' token = [h, p, s]
                                    \<and> base64UrlDecode p = Some (stringify_vibe P full))
                                \<and> (\<forall>h (w2 :: io). parse_vibe P (stringify_vibe P full) = Some full
                                      \<and> parse_header P hs256_header_json = Some h
                                      \<and> hdr_alg h = ''HS256''
                                      \<and> now_ms w2 div 1000 \<le> now_ms w div 1000 + 600
                                    \<longrightarrow> verifyVibeAccessHS256 P w2 token
                                          (VIBE_ACCESS_SECRET env) = Inr full))))"
      if nf: "failure_of (fst ?H) \<notin> {Some (409, ''REPLAYED_JTI''), Some (500, ''INTERNAL_ERROR'')}"
    proof -
      from issue[OF nf] obtain s where
        s: "sso_users (st_db s) = sso_users (st_db st)"
           "fst ?H = fst (issueSession P env w (request_origin r) email s)" by blast
      have nf': "failure_of (fst (issueSession P env w (request_origin r) email s))
                   \<noteq> Some (500, ''INTERNAL_ERROR'')"
        using nf s(2) by simp
      show ?thesis
      proof (cases "select_fault w")
        case (Some m)
        then show ?thesis using nf'
          by (simp add: issueSession_def getUserByEmail_def)
      next
        case None
        show ?thesis
        proof (cases "find (\<lambda>u. ur_email u = email) (sso_users (st_db st))")
          case n: None
          then show ?thesis
            by (simp add: s issueSession_def getUserByEmail_def None)
        next
          case (Some user)
          then have e: "ur_email user = email" by (auto simp: find_Some_iff)
          show ?thesis
          proof (cases "ur_status user = ''suspended''")
            case True
            then show ?thesis
              by (simp add: s issueSession_def getUserByEmail_def None Some)
          next
            case False
            let ?ident = "\<lparr>vi_iss = VIBE_ISS env, vi_aud = VIBE_AUD env,
                           vi_sub = ur_user_id user, vi_email = ur_email user,
                           vi_roles = ur_roles user\<rparr>"
            let ?full = "\<lparr>vp_iss = VIBE_ISS env, vp_aud = VIBE_AUD env,
                          vp_sub = ur_user_id user, vp_email = ur_email user,
                          vp_roles = ur_roles user,
                          vp_exp = now_ms w div 1000 + 600, vp_iat = now_ms w div 1000\<rparr>"
            let ?options = "\<lparr>co_domain = Some (VIBE_COOKIE_DOMAIN env),
                             co_maxAge = Some 600, co_path = Some ''/'',
                             co_httpOnly = Some True, co_secure = Some True,
                             co_sameSite = Some NoneSite\<rparr>"
            have found: "getUserByEmail w (st_db s) email = Inr (Some user)"
              by (simp add: getUserByEmail_def None s(1) Some)
            obtain token where
              sign: "signVibeAccessHS256 P w ?ident (VIBE_ACCESS_SECRET env) 600 = Inr token"
            proof (cases "signVibeAccessHS256 P w ?ident (VIBE_ACCESS_SECRET env) 600")
              case (Inl err)
              then have "failure_of (fst (issueSession P env w (request_origin r) email s))
                         = Some (500, ''INTERNAL_ERROR'')"
                by (simp add: issueSession_def found False)
              with nf' show ?thesis by simp
            next
              case (Inr token)
              then show ?thesis by (rule that)
            qed
            have resp: "fst ?H =
                \<lparr>rs_status = 204,
                 rs_headers = setCookie (cors_headers (request_origin r))
                                (VIBE_COOKIE_NAME env) token ?options,
                 rs_body = NoBody\<rparr>"
              by (simp add: s(2) issueSession_def found False sign)
            have full: "?full =
                \<lparr>vp_iss = vi_iss ?ident, vp_aud = vi_aud ?ident, vp_sub = vi_sub ?ident,
                 vp_email = vi_email ?ident, vp_roles = vi_roles ?ident,
                 vp_exp = now_ms w div 1000 + 600, vp_iat = now_ms w div 1000\<rparr>"
              by simp
            have headers: "rs_headers (fst ?H) =
                cors_headers (request_origin r)
                @ [(''Set-Cookie'',
                    encodeURIComponent (VIBE_COOKIE_NAME env) @ ''='' @ token
                    @ (if VIBE_COOKIE_DOMAIN env \<noteq> []
                       then ''; Domain='' @ VIBE_COOKIE_DOMAIN env else [])
                    @ ''; Max-Age=600; Path=/; HttpOnly; Secure; SameSite=None'')]"
              unfolding resp setCookie_session session_token_unreserved[OF sign]
              by simp
            note payload = session_token_payload[OF sign full]
            have reads: "\<forall>h (w2 :: io). parse_vibe P (stringify_vibe P ?full) = Some ?full
                            \<and> parse_header P hs256_header_json = Some h
                            \<and> hdr_alg h = ''HS256''
                            \<and> now_ms w2 div 1000 \<le> now_ms w div 1000 + 600
                          \<longrightarrow> verifyVibeAccessHS256 P w2 token (VIBE_ACCESS_SECRET env)
                                = Inr ?full"
            proof (intro allI impI, elim conjE)
              fix h and w2 :: io
              assume json: "parse_vibe P (stringify_vibe P ?full) = Some ?full"
                and hdr: "parse_header P hs256_header_json = Some h" "hdr_alg h = ''HS256''"
                and live: "now_ms w2 div 1000 \<le> now_ms w div 1000 + 600"
              from session_token_verifies[OF sign full json hdr, of w2] live
              show "verifyVibeAccessHS256 P w2 token (VIBE_ACCESS_SECRET env) = Inr ?full"
                by simp
            qed
            have "\<exists>token.
                    ur_email user = email
                    \<and> signVibeAccessHS256 P w ?ident (VIBE_ACCESS_SECRET env) 600 = Inr token
                    \<and> fst ?H =
                        \<lparr>rs_status = 204,
                         rs_headers = setCookie (cors_headers (request_origin r))
                                        (VIBE_COOKIE_NAME env) token ?options,
                         rs_body = NoBody\<rparr>
                    \<and> rs_headers (fst ?H) =
                        cors_headers (request_origin r)
                        @ [(''Set-Cookie'',
                            encodeURIComponent (VIBE_COOKIE_NAME env) @ ''='' @ token
                            @ (if VIBE_COOKIE_DOMAIN env \<noteq> []
                               then ''; Domain='' @ VIBE_COOKIE_DOMAIN env else [])
                            @ ''; Max-Age=600; Path=/; HttpOnly; Secure; SameSite=None'')]
                    \<and> ((\<exists>h p s. split_on CHR ''.'' token = [h, p, s]
                            \<and> base64UrlDecode p = Some (stringify_vibe P ?full))
                        \<and> (\<forall>h (w2 :: io). parse_vibe P (stringify_vibe P ?full) = Some ?full
                              \<and> parse_header P hs256_header_json = Some h
                              \<and> hdr_alg h = ''HS256''
                              \<and> now_ms w2 div 1000 \<le> now_ms w div 1000 + 600
                            \<longrightarrow> verifyVibeAccessHS256 P w2 token (VIBE_ACCESS_SECRET env)
                                  = Inr ?full))"
              by (intro exI[of _ token] conjI e sign resp headers payload reads)
            then show ?thesis
              unfolding Some option.case Let_def using False by (simp only: if_False)
          qed
        qed
      qed
    qed
    show ?thesis using True not_mismatch lookup by simp
  qed
qed

text \<open>
  The sample deployment, the assertion's claim \<open>A@B.com\<close> and the body's \<open>a@b.com\<close>. With
  the user stored as \<open>a@b.com\<close> the response has the one header \<open>Set-Cookie\<close> with the
  sample session token, the token verifies to the sample session, whose \<open>email\<close> is
  \<open>a@b.com\<close>, and \<open>GET /auth/me\<close> with that cookie answers \<open>a@b.com\<close>. With the user
  stored as \<open>A@B.com\<close> the lookup finds nothing.
\<close>

theorem email_check_and_directory_lookup_witness:
  "fst (handleVibeAccess sample_platform sample_env sample_io
          (sample_post sample_token_upper ''a@b.com'')
          (sample_state [sample_user ''a@b.com'' ''active''] []))
     = \<lparr>rs_status = 204,
        rs_headers =
          setCookie [] ''vibe_access'' sample_session_token
            \<lparr>co_domain = Some ''.example.com'', co_maxAge = Some 600, co_path = Some ''/'',
             co_httpOnly = Some True, co_secure = Some True, co_sameSite = Some NoneSite\<rparr>,
        rs_body = NoBody\<rparr>
   \<and> rs_headers (fst (handleVibeAccess sample_platform sample_env sample_io
                        (sample_post sample_token_upper ''a@b.com'')
                        (sample_state [sample_user ''a@b.com'' ''active''] [])))
     = [(''Set-Cookie'',
         sample_cookie
         @ ''; Domain=.example.com; Max-Age=600; Path=/; HttpOnly; Secure; SameSite=None'')]
   \<and> verifyVibeAccessHS256 sample_platform (sample_io\<lparr>now_ms := 1600999\<rparr>)
        sample_session_token ''s3cret''
     = Inr sample_session
   \<and> vp_email sample_session = ''a@b.com''
   \<and> rs_body (handleMe sample_platform sample_env sample_io
                 (sample_get ''/auth/me'' [(''Cookie'', sample_cookie)]))
     = MeBody ''u1'' ''a@b.com'' ''viewer''
   \<and> failure_of (fst (handleVibeAccess sample_platform sample_env sample_io
                      (sample_post sample_token_upper ''a@b.com'')
                      (sample_state [sample_user ''A@B.com'' ''active''] [])))
     = Some (403, ''USER_NOT_ALLOWED'')"
proof -
  let ?r = "sample_post sample_token_upper ''a@b.com''"
  let ?s1 = "sample_state [sample_user ''a@b.com'' ''active''] []"
  let ?s2 = "sample_state [sample_user ''A@B.com'' ''active''] []"
  let ?p = "sample_claims ''A@B.com'' (Some 2000) (Some ''n1'')"
  let ?c = "Some \<lparr>jc_data = sample_jwks, jc_expires = 1600000\<rparr>"
  let ?H1 = "handleVibeAccess sample_platform sample_env sample_io ?r ?s1"
  have cfg: "FLEXI_ISS sample_env = ''ext''" "FLEXI_AUD sample_env = ''handoff''"
    by (simp_all add: sample_env_def)
  have io: "insert_fault sample_io = None" "now_ms sample_io = 1000000"
    by (simp_all add: sample_io_def)
  have v: "verifyFlexiJWT_RS256 sample_platform sample_io (st_jwksCache (sample_state us []))
             sample_token_upper (FLEXI_ISS sample_env) (FLEXI_AUD sample_env) = (Inr ?p, ?c)"
    for us
    by (simp add: sample_verify_upper sample_state_def cfg)
  have body: "rq_json ?r = Body (Some sample_token_upper) (Some ''a@b.com'')" "''a@b.com'' \<noteq> []"
    by (simp_all add: sample_post_def)
  have claim: "fp_email ?p = Some ''A@B.com''" by (simp add: sample_claims_def)
  have lower: "toLowerCase sample_platform ''A@B.com'' = toLowerCase sample_platform ''a@b.com''"
    by (simp add: sample_platform_def ascii_lower_def)
  have jti: "fp_jti ?p = Some ''n1''" by (simp add: sample_claims_def)
  have origin: "request_origin ?r = None"
    by (simp add: request_origin_def headers_get_def sample_post_def)
  have h: "handleVibeAccess sample_platform sample_env sample_io ?r (sample_state us [])
           = issueSession sample_platform sample_env sample_io None ''a@b.com''
               (sample_state us []
                \<lparr>st_jwksCache := ?c,
                 st_db := \<lparr>sso_users = us, jwt_seen = [\<lparr>seen_jti = ''n1'', seen_at = 1000\<rparr>]\<rparr>\<rparr>)"
    for us
    unfolding handleVibeAccess_verified[OF body(1) verified_nonempty[OF v] body(2) v claim lower]
    by (simp add: jti markJtiSeen_def insert_jwt_seen_def io sample_state_def origin)
  have f1: "failure_of (fst ?H1) = None"
    unfolding h
    by (simp add: sample_issue_ok[of "''a@b.com''" _ "sample_user ''a@b.com'' ''active''"]
          sample_state_def sample_user_def)
  have f2: "failure_of (fst (handleVibeAccess sample_platform sample_env sample_io ?r ?s2))
            = Some (403, ''USER_NOT_ALLOWED'')"
    unfolding h
    by (simp add: issueSession_def getUserByEmail_def sample_io_def sample_state_def
          sample_user_def)
  have pre: "toLowerCase sample_platform ''A@B.com'' = toLowerCase sample_platform ''a@b.com''
             \<and> failure_of (fst ?H1)
                 \<notin> {Some (409, ''REPLAYED_JTI''), Some (500, ''INTERNAL_ERROR'')}"
    using lower f1 by simp
  have found: "find (\<lambda>u. ur_email u = ''a@b.com'') (sso_users (st_db ?s1))
               = Some (sample_user ''a@b.com'' ''active'')"
    by (simp add: sample_state_def sample_user_def)
  have active: "(ur_status (sample_user ''a@b.com'' ''active'') = ''suspended'') = False"
    by (simp add: sample_user_def)
  note inst = email_check_and_directory_lookup[OF body v claim,
      of "[sample_user ''a@b.com'' ''active'']"]
  note issued = inst[THEN conjunct2, THEN mp, OF pre, unfolded found option.case active if_False]
  have tok: "sample_session_token \<noteq> []"
    by (simp add: sample_session_token_def)
  have good: "verifyVibeAccessHS256 sample_platform sample_io sample_session_token
                (VIBE_ACCESS_SECRET sample_env) = Inr sample_session"
    by (simp add: sample_session_verify sample_env_def sample_io_def)
  have ck: "parseCookies sample_platform
              (headers_get (rq_headers (sample_get ''/auth/me'' [(''Cookie'', sample_cookie)]))
                 ''Cookie'')
              (VIBE_COOKIE_NAME sample_env) = Some sample_session_token"
    by (simp add: sample_get_def headers_get_def sample_env_def sample_cookie_parsed)
  have me: "rs_body (handleMe sample_platform sample_env sample_io
                       (sample_get ''/auth/me'' [(''Cookie'', sample_cookie)]))
            = MeBody ''u1'' ''a@b.com'' ''viewer''"
    unfolding handleMe_def Let_def ck
    by (simp add: tok good sample_session_def)
  have email: "vp_email sample_session = ''a@b.com''" by (simp add: sample_session_def)
  have name: "encodeURIComponent ''vibe_access'' = ''vibe_access''"
    by (simp add: encodeURIComponent_def uri_unreserved_def)
  show ?thesis
  proof (rule exE[OF issued], goal_cases)
    case (1 token)
    note sg = 1[THEN conjunct2, THEN conjunct1]
    note rp = 1[THEN conjunct2, THEN conjunct2, THEN conjunct1]
    note hd = 1[THEN conjunct2, THEN conjunct2, THEN conjunct2, THEN conjunct1]
    note rd = 1[THEN conjunct2, THEN conjunct2, THEN conjunct2, THEN conjunct2,
        unfolded Let_def, THEN conjunct2,
        THEN spec[where x = "\<lparr>hdr_alg = ''HS256'', hdr_kid = None\<rparr>"],
        THEN spec[where x = "sample_io\<lparr>now_ms := 1600999\<rparr>"]]
    have tk: "token = sample_session_token"
      using sg sample_sign by (simp add: sample_env_def sample_user_def)
    have r1: "fst ?H1 =
              \<lparr>rs_status = 204,
               rs_headers =
                 setCookie [] ''vibe_access'' sample_session_token
                   \<lparr>co_domain = Some ''.example.com'', co_maxAge = Some 600,
                    co_path = Some ''/'', co_httpOnly = Some True, co_secure = Some True,
                    co_sameSite = Some NoneSite\<rparr>,
               rs_body = NoBody\<rparr>"
      using rp by (simp add: tk origin cors_headers_def sample_env_def)
    have r2: "rs_headers (fst ?H1)
              = [(''Set-Cookie'',
                  sample_cookie
                  @ ''; Domain=.example.com; Max-Age=600; Path=/; HttpOnly; Secure; SameSite=None'')]"
      using hd by (simp add: tk origin cors_headers_def sample_env_def name sample_cookie_def)
    have r3: "verifyVibeAccessHS256 sample_platform (sample_io\<lparr>now_ms := 1600999\<rparr>)
                sample_session_token ''s3cret'' = Inr sample_session"
      using rd
      by (simp add: tk sample_env_def sample_user_def sample_io_def sample_platform_def
            sample_session_def sample_headers_def hs256_header_json_def)
    show ?case by (intro conjI r1 r2 r3 email me f2)
  qed
qed

text \<open>
  Claim C10 (an empty nonce is no nonce). When the verified assertion carries the empty
  string as \<open>jti\<close>, or no \<open>jti\<close>, and the e-mail addresses agree, the exchange goes
  straight to the user lookup: its result is that of \<open>issueSession\<close>, whichever of the
  two the assertion has; the tables are left as they are; the response is never 409
  \<open>REPLAYED_JTI\<close>; it does not depend on what the replay table holds; and it is the same
  after the exchange has been served any number of times.
\<close>

theorem empty_jti_skips_replay_guard:
  assumes body: "rq_json r = Body (Some jwt) (Some email)" "email \<noteq> []"
    and verified:
      "verifyFlexiJWT_RS256 P w (st_jwksCache st) jwt (FLEXI_ISS env) (FLEXI_AUD env)
         = (Inr p, c)"
    and email: "fp_email p = Some pe" "toLowerCase P pe = toLowerCase P email"
    and jti: "fp_jti p = Some [] \<or> fp_jti p = None"
  shows "handleVibeAccess P env w r st
           = issueSession P env w (request_origin r) email (st\<lparr>st_jwksCache := c\<rparr>)
       \<and> st_db (snd (handleVibeAccess P env w r st)) = st_db st
       \<and> failure_of (fst (handleVibeAccess P env w r st)) \<noteq> Some (409, ''REPLAYED_JTI'')
       \<and> fst (handleVibeAccess P env w r (st\<lparr>st_db := (st_db st)\<lparr>jwt_seen := seen\<rparr>\<rparr>))
           = fst (handleVibeAccess P env w r st)
       \<and> fst (handleVibeAccess P env w r (repeat_exchange n P env w r st))
           = fst (handleVibeAccess P env w r st)"
proof -
  note nonempty = verified_nonempty[OF verified]
  have h: "handleVibeAccess P env w r st
           = issueSession P env w (request_origin r) email (st\<lparr>st_jwksCache := c\<rparr>)"
    unfolding handleVibeAccess_verified[OF body(1) nonempty body(2) verified email]
    using jti by auto
  let ?st' = "st\<lparr>st_db := (st_db st)\<lparr>jwt_seen := seen\<rparr>\<rparr>"
  have verified': "verifyFlexiJWT_RS256 P w (st_jwksCache ?st') jwt (FLEXI_ISS env) (FLEXI_AUD env)
         = (Inr p, c)"
    using verified by simp
  have h': "handleVibeAccess P env w r ?st'
           = issueSession P env w (request_origin r) email (?st'\<lparr>st_jwksCache := c\<rparr>)"
    unfolding handleVibeAccess_verified[OF body(1) nonempty body(2) verified' email]
    using jti by auto
  have same: "fst (handleVibeAccess P env w r ?st') = fst (handleVibeAccess P env w r st)"
    unfolding h h' by (rule issueSession_users) simp
  have no409: "failure_of (fst (issueSession P env w (request_origin r) email
                                   (st\<lparr>st_jwksCache := c\<rparr>))) \<noteq> Some (409, ''REPLAYED_JTI'')"
    using issueSession_outcomes[of P env w "request_origin r" email "st\<lparr>st_jwksCache := c\<rparr>"]
    by auto
  have step: "handleVibeAccess P env w r s
                = issueSession P env w (request_origin r) email (s\<lparr>st_jwksCache := c\<rparr>)"
    if "verifyFlexiJWT_RS256 P w (st_jwksCache s) jwt (FLEXI_ISS env) (FLEXI_AUD env)
          = (Inr p, c)" for s
    unfolding handleVibeAccess_verified[OF body(1) nonempty body(2) that email]
    using jti by auto
  have rep: "st_db (repeat_exchange k P env w r s) = st_db s
             \<and> verifyFlexiJWT_RS256 P w (st_jwksCache (repeat_exchange k P env w r s)) jwt
                  (FLEXI_ISS env) (FLEXI_AUD env) = (Inr p, c)"
    if "verifyFlexiJWT_RS256 P w (st_jwksCache s) jwt (FLEXI_ISS env) (FLEXI_AUD env)
          = (Inr p, c)" for k s
    using that
  proof (induction k arbitrary: s)
    case 0
    then show ?case by simp
  next
    case (Suc k)
    have s1: "snd (handleVibeAccess P env w r s) = s\<lparr>st_jwksCache := c\<rparr>"
      by (simp add: step[OF Suc.prems] issueSession_state)
    have "verifyFlexiJWT_RS256 P w (st_jwksCache (s\<lparr>st_jwksCache := c\<rparr>)) jwt
            (FLEXI_ISS env) (FLEXI_AUD env) = (Inr p, c)"
      using verify_again[OF Suc.prems] by simp
    from Suc.IH[OF this] show ?case by (simp add: s1)
  qed
  have again: "fst (handleVibeAccess P env w r (repeat_exchange n P env w r st))
               = fst (handleVibeAccess P env w r st)"
  proof -
    let ?sn = "repeat_exchange n P env w r st"
    from rep[OF verified, of n]
    have d: "st_db ?sn = st_db st"
      and v: "verifyFlexiJWT_RS256 P w (st_jwksCache ?sn) jwt (FLEXI_ISS env) (FLEXI_AUD env)
                = (Inr p, c)"
      by simp_all
    have "fst (handleVibeAccess P env w r ?sn)
          = fst (issueSession P env w (request_origin r) email (?sn\<lparr>st_jwksCache := c\<rparr>))"
      by (simp only: step[OF v])
    also have "\<dots> = fst (issueSession P env w (request_origin r) email
                           (st\<lparr>st_jwksCache := c\<rparr>))"
      by (rule issueSession_users) (simp add: d)
    also have "\<dots> = fst (handleVibeAccess P env w r st)"
      by (simp only: h)
    finally show ?thesis .
  qed
  show ?thesis using h same no409 again by (simp add: issueSession_state)
qed

text \<open>
  The sample deployment, an assertion with \<open>"jti":""\<close> and an active user: 204 the first
  time, 204 after three more exchanges, nothing recorded.
\<close>

theorem empty_jti_skips_replay_guard_witness:
  "rs_status (fst (handleVibeAccess sample_platform sample_env sample_io
                     (sample_post sample_token_empty_jti ''a@b.com'')
                     (sample_state [sample_user ''a@b.com'' ''active''] []))) = 204
   \<and> rs_status (fst (handleVibeAccess sample_platform sample_env sample_io
                     (sample_post sample_token_empty_jti ''a@b.com'')
                     (repeat_exchange 3 sample_platform sample_env sample_io
                        (sample_post sample_token_empty_jti ''a@b.com'')
                        (sample_state [sample_user ''a@b.com'' ''active''] [])))) = 204
   \<and> st_db (snd (handleVibeAccess sample_platform sample_env sample_io
                     (sample_post sample_token_empty_jti ''a@b.com'')
                     (sample_state [sample_user ''a@b.com'' ''active''] [])))
     = st_db (sample_state [sample_user ''a@b.com'' ''active''] [])"
proof -
  let ?s0 = "sample_state [sample_user ''a@b.com'' ''active''] []"
  let ?r = "sample_post sample_token_empty_jti ''a@b.com''"
  let ?p = "sample_claims ''a@b.com'' (Some 2000) (Some [])"
  let ?c = "Some \<lparr>jc_data = sample_jwks, jc_expires = 1600000\<rparr>"
  have cfg: "FLEXI_ISS sample_env = ''ext''" "FLEXI_AUD sample_env = ''handoff''"
    by (simp_all add: sample_env_def)
  have v: "verifyFlexiJWT_RS256 sample_platform sample_io (st_jwksCache ?s0)
             sample_token_empty_jti (FLEXI_ISS sample_env) (FLEXI_AUD sample_env) = (Inr ?p, ?c)"
    by (simp add: sample_verify_empty_jti sample_state_def cfg)
  have body: "rq_json ?r = Body (Some sample_token_empty_jti) (Some ''a@b.com'')"
    "''a@b.com'' \<noteq> []"
    by (simp_all add: sample_post_def)
  have email: "fp_email ?p = Some ''a@b.com''"
    "toLowerCase sample_platform ''a@b.com'' = toLowerCase sample_platform ''a@b.com''"
    by (simp_all add: sample_claims_def)
  have jti: "fp_jti ?p = Some [] \<or> fp_jti ?p = None" by (simp add: sample_claims_def)
  note inst = empty_jti_skips_replay_guard[OF body v email jti, of "[]" 3]
  have issued: "rs_status (fst (issueSession sample_platform sample_env sample_io
                          (request_origin ?r) ''a@b.com'' (?s0\<lparr>st_jwksCache := ?c\<rparr>))) = 204"
    by (simp add: sample_issue_ok[of "''a@b.com''" _ "sample_user ''a@b.com'' ''active''"]
          sample_state_def sample_user_def)
  have r1: "rs_status (fst (handleVibeAccess sample_platform sample_env sample_io ?r ?s0)) = 204"
    unfolding inst[THEN conjunct1] by (rule issued)
  have r2: "rs_status (fst (handleVibeAccess sample_platform sample_env sample_io ?r
              (repeat_exchange 3 sample_platform sample_env sample_io ?r ?s0))) = 204"
    unfolding inst[THEN conjunct2, THEN conjunct2, THEN conjunct2, THEN conjunct2] by (rule r1)
  show ?thesis
    by (intro conjI r1 r2 inst[THEN conjunct2, THEN conjunct1])
qed

end
